(* ===== verification/Prelude.thy ===== *)
theory Prelude
  imports Complex_Main "HOL-Library.Multiset"
begin

text \<open>
  Shared vocabulary of the development: the HTTP error statuses the Express handlers
  answer with, a bind on results, the JavaScript string operations the backend applies
  to identifiers, e-mails, roles and search terms (\<open>toUpperCase\<close>, \<open>toLowerCase\<close>,
  \<open>trim\<close>, \<open>includes\<close>, the truthiness of \<open>||\<close>), decimal printing for
  \<open>toFixed(1)\<close>, and the list lemmas the component theories share.
  Characters are the ASCII subset of JavaScript strings: the case mappings act on
  \<open>a\<close>..\<open>z\<close> and \<open>A\<close>..\<open>Z\<close> only.
\<close>

named_theorems js_simps "evaluation rules of the JavaScript helpers"
named_theorems store_simps "lookup and update rules of the relational store"

section \<open>Errors and results\<close>

text \<open>
  Every early \<open>return res.status(n).json(...)\<close> of a handler is one constructor;
  \<open>Server_Error\<close> is the \<open>catch\<close> branch (an exception raised by Prisma or by the
  handler itself).
\<close>

datatype http_error =
  Bad_Request | Unauthorized | Forbidden | Not_Found | Conflict | Server_Error

fun status_code :: "http_error \<Rightarrow> nat" where
  "status_code Bad_Request = 400"
| "status_code Unauthorized = 401"
| "status_code Forbidden = 403"
| "status_code Not_Found = 404"
| "status_code Conflict = 409"
| "status_code Server_Error = 500"

type_synonym 'a result = "http_error + 'a"

definition ebind :: "'a result \<Rightarrow> ('a \<Rightarrow> 'b result) \<Rightarrow> 'b result" where
  "ebind r f = (case r of Inl e \<Rightarrow> Inl e | Inr a \<Rightarrow> f a)"

section \<open>JavaScript strings\<close>

definition js_upper_char :: "char \<Rightarrow> char" where
  "js_upper_char c =
     (let n = (of_char c :: nat) in if 97 \<le> n \<and> n \<le> 122 then char_of (n - 32) else c)"

definition js_lower_char :: "char \<Rightarrow> char" where
  "js_lower_char c =
     (let n = (of_char c :: nat) in if 65 \<le> n \<and> n \<le> 90 then char_of (n + 32) else c)"

text \<open>\<open>String.prototype.toUpperCase\<close> and \<open>toLowerCase\<close>.\<close>

definition js_upper :: "string \<Rightarrow> string" where
  "js_upper s = map js_upper_char s"

definition js_lower :: "string \<Rightarrow> string" where
  "js_lower s = map js_lower_char s"

text \<open>White space as \<open>String.prototype.trim\<close> sees it (its ASCII part).\<close>

definition js_space :: "char \<Rightarrow> bool" where
  "js_space c \<longleftrightarrow> c \<in> {CHR '' '', CHR 0x09, CHR 0x0A, CHR 0x0B, CHR 0x0C, CHR 0x0D}"

definition js_trim :: "string \<Rightarrow> string" where
  "js_trim s = rev (dropWhile js_space (rev (dropWhile js_space s)))"

text \<open>\<open>s.startsWith(p)\<close> and \<open>s.includes(p)\<close>.\<close>

fun js_starts_with :: "string \<Rightarrow> string \<Rightarrow> bool" where
  "js_starts_with s [] = True"
| "js_starts_with [] (c # p) = False"
| "js_starts_with (d # s) (c # p) = (d = c \<and> js_starts_with s p)"

fun js_includes :: "string \<Rightarrow> string \<Rightarrow> bool" where
  "js_includes [] p = (p = [])"
| "js_includes (d # s) p = (js_starts_with (d # s) p \<or> js_includes s p)"

text \<open>
  A JSON field that may be absent is a \<open>string option\<close>; \<open>a || b\<close> takes \<open>a\<close> when it
  is truthy, that is present and not the empty string.
\<close>

definition js_truthy :: "string option \<Rightarrow> bool" where
  "js_truthy v \<longleftrightarrow> (case v of None \<Rightarrow> False | Some s \<Rightarrow> s \<noteq> [])"

definition js_or :: "string option \<Rightarrow> string option \<Rightarrow> string option" where
  "js_or a b = (if js_truthy a then a else b)"

text \<open>\<open>String(v || "")\<close>: an absent or empty value becomes the empty string.\<close>

definition js_str :: "string option \<Rightarrow> string" where
  "js_str v = (case v of None \<Rightarrow> [] | Some s \<Rightarrow> s)"

text \<open>Prisma's \<open>contains\<close> with \<open>mode: "insensitive"\<close>.\<close>

definition contains_ci :: "string \<Rightarrow> string \<Rightarrow> bool" where
  "contains_ci field needle \<longleftrightarrow> js_includes (js_lower field) (js_lower needle)"

section \<open>JavaScript numbers\<close>

text \<open>
  A value produced by \<open>Number(x)\<close>: \<open>NaN\<close> or a number (integral values only).
  \<open>Number(x) || d\<close> replaces both \<open>NaN\<close> and \<open>0\<close> by \<open>d\<close>.
\<close>

datatype js_number = NaN | Num int

definition num_or :: "js_number \<Rightarrow> int \<Rightarrow> int" where
  "num_or x dflt = (case x of NaN \<Rightarrow> dflt | Num n \<Rightarrow> if n = 0 then dflt else n)"

definition is_digit :: "char \<Rightarrow> bool" where
  "is_digit c \<longleftrightarrow> (let n = (of_char c :: nat) in 48 \<le> n \<and> n \<le> 57)"

definition digits_value :: "string \<Rightarrow> nat" where
  "digits_value ds = foldl (\<lambda>n c. 10 * n + (of_char c - 48)) 0 ds"

text \<open>
  \<open>parseInt(s, 10)\<close>: leading white space, an optional sign, then the longest run of
  decimal digits; no digit is \<open>NaN\<close> (\<open>None\<close>).
\<close>

definition js_parse_int :: "string \<Rightarrow> int option" where
  "js_parse_int s =
     (let s1 = dropWhile js_space s;
          neg = (s1 \<noteq> [] \<and> hd s1 = CHR ''-'');
          s2 = (if s1 \<noteq> [] \<and> hd s1 \<in> {CHR ''-'', CHR ''+''} then tl s1 else s1);
          ds = takeWhile is_digit s2
      in if ds = [] then None
         else Some ((if neg then -1 else 1) * int (digits_value ds)))"

text \<open>\<open>Math.max(parseInt(s, 10) || dflt, 1)\<close>, the page and limit parsing of the list routes.\<close>

definition parse_positive :: "string \<Rightarrow> int \<Rightarrow> int" where
  "parse_positive s dflt =
     max (case js_parse_int s of None \<Rightarrow> dflt | Some n \<Rightarrow> if n = 0 then dflt else n) 1"

text \<open>
  \<open>Number(s)\<close> of a query-string value, restricted to the integral decimal notation: an
  absent value is \<open>NaN\<close>, a blank string is \<open>0\<close>, an optionally signed run of digits
  (surrounded by white space) is its value; every other string, \<open>"Infinity"\<close> included,
  counts as not finite (\<open>NaN\<close>). Fractions, exponents and hexadecimal are outside the model.
\<close>

definition js_number_of :: "string option \<Rightarrow> js_number" where
  "js_number_of q =
     (case q of
        None \<Rightarrow> NaN
      | Some s \<Rightarrow>
          let t = js_trim s in
          if t = [] then Num 0
          else
            let neg = (hd t = CHR ''-'');
                ds = (if hd t \<in> {CHR ''-'', CHR ''+''} then tl t else t)
            in if ds \<noteq> [] \<and> list_all is_digit ds
               then Num ((if neg then -1 else 1) * int (digits_value ds)) else NaN)"

section \<open>JSON values\<close>

text \<open>
  A value that crosses HTTP as JSON and is read without a schema: \<open>x.key\<close> is
  \<open>jget\<close> (\<open>None\<close> for \<open>undefined\<close>), \<open>Array.isArray\<close> is \<open>is_array\<close>.
\<close>

datatype json = JNull | JBool bool | JNum int | JStr string | JArr "json list" | JObj "(string \<times> json) list"

fun jget :: "string \<Rightarrow> json \<Rightarrow> json option" where
  "jget k (JObj kvs) = map_of kvs k"
| "jget k _ = None"

fun is_array :: "json \<Rightarrow> bool" where
  "is_array (JArr _) = True"
| "is_array _ = False"

text \<open>\<open>a ?? b\<close> on a read field: \<open>null\<close> and \<open>undefined\<close> give \<open>b\<close>.\<close>

definition jnullish :: "json option \<Rightarrow> json \<Rightarrow> json" where
  "jnullish a b = (case a of None \<Rightarrow> b | Some JNull \<Rightarrow> b | Some v \<Rightarrow> v)"

text \<open>\<open>a || b\<close> on a read field.\<close>

fun json_truthy :: "json \<Rightarrow> bool" where
  "json_truthy JNull = False"
| "json_truthy (JBool b) = b"
| "json_truthy (JNum n) = (n \<noteq> 0)"
| "json_truthy (JStr s) = (s \<noteq> [])"
| "json_truthy _ = True"

definition jor :: "json option \<Rightarrow> json \<Rightarrow> json" where
  "jor a b = (case a of Some v \<Rightarrow> if json_truthy v then v else b | None \<Rightarrow> b)"

section \<open>Decimal printing\<close>

fun digit_char :: "nat \<Rightarrow> char" where
  "digit_char n = char_of (48 + n)"

fun show_nat :: "nat \<Rightarrow> string" where
  "show_nat n = (if n < 10 then [digit_char n] else show_nat (n div 10) @ [digit_char (n mod 10)])"

declare show_nat.simps [simp del]

text \<open>
  \<open>x.toFixed(1)\<close> of a non-negative quantity given in tenths: the integral part, a dot
  and one decimal.
\<close>

definition fixed1 :: "nat \<Rightarrow> string" where
  "fixed1 tenths = show_nat (tenths div 10) @ ''.'' @ [digit_char (tenths mod 10)]"

section \<open>Shared lemmas\<close>

lemma ebind_Inl [simp]: "ebind (Inl e) f = Inl e"
  and ebind_Inr [simp]: "ebind (Inr a) f = f a"
  by (simp_all add: ebind_def)

lemma ebind_eq_Inr [simp]: "(ebind r f = Inr b) \<longleftrightarrow> (\<exists>a. r = Inr a \<and> f a = Inr b)"
  by (cases r) simp_all

lemma js_upper_char_idem [simp]: "js_upper_char (js_upper_char c) = js_upper_char c"
proof (cases "97 \<le> (of_char c :: nat) \<and> (of_char c :: nat) \<le> 122")
  case True
  have "of_char c - 32 < (256::nat)"
    using nat_of_char_less_256 [of c] by arith
  then have "(of_char c - 32) mod 256 = (of_char c - 32 :: nat)" by simp
  with True show ?thesis by (auto simp: js_upper_char_def Let_def)
next
  case False
  then show ?thesis by (auto simp: js_upper_char_def Let_def)
qed

lemma js_upper_idem [simp]: "js_upper (js_upper s) = js_upper s"
  by (simp add: js_upper_def)


lemma js_truthy_simps [simp, js_simps]:
  "\<not> js_truthy None"
  "js_truthy (Some s) \<longleftrightarrow> s \<noteq> []"
  by (simp_all add: js_truthy_def)

lemma js_or_simps [simp, js_simps]:
  "js_or None b = b"
  "js_or (Some []) b = b"
  "s \<noteq> [] \<Longrightarrow> js_or (Some s) b = Some s"
  by (simp_all add: js_or_def)

lemma js_str_simps [simp, js_simps]:
  "js_str None = []"
  "js_str (Some s) = s"
  by (simp_all add: js_str_def)

lemma js_upper_Nil [simp]: "js_upper [] = []"
  and js_lower_Nil [simp]: "js_lower [] = []"
  by (simp_all add: js_upper_def js_lower_def)

lemma js_upper_eq_Nil [simp]: "js_upper s = [] \<longleftrightarrow> s = []"
  by (simp add: js_upper_def)

lemma js_upper_Cons [js_simps]: "js_upper (c # s) = js_upper_char c # js_upper s"
  and js_lower_Cons [js_simps]: "js_lower (c # s) = js_lower_char c # js_lower s"
  by (simp_all add: js_upper_def js_lower_def)

lemma js_starts_with_append [simp]: "js_starts_with (p @ s) p"
  by (induction p) simp_all

lemma js_includes_Nil [simp]: "js_includes s []"
  by (cases s) simp_all

lemma length_show_nat_pos [simp]: "show_nat n \<noteq> []"
  by (subst show_nat.simps) simp

lemma num_or_simps [simp, js_simps]:
  "num_or NaN d = d"
  "num_or (Num n) d = (if n = 0 then d else n)"
  by (simp_all add: num_or_def)

lemma parse_positive_ge1 [simp]: "1 \<le> parse_positive s d"
  by (simp add: parse_positive_def)

lemma filter_filter_conj: "filter P (filter Q xs) = filter (\<lambda>x. Q x \<and> P x) xs"
  by simp

lemma length_filter_le_mono:
  "(\<And>x. x \<in> set xs \<Longrightarrow> P x \<Longrightarrow> Q x) \<Longrightarrow> length (filter P xs) \<le> length (filter Q xs)"
  by (induction xs) auto

lemma distinct_map_filter_keep [intro]:
  "distinct (map f xs) \<Longrightarrow> distinct (map f (filter P xs))"
  by (induction xs) auto

lemma take_sort_key_top:
  assumes "y \<in> set xs" and "y \<notin> set (take k (sort_key f xs))" and "x \<in> set (take k (sort_key f xs))"
  shows "f x \<le> f y"
proof -
  let ?L = "sort_key f xs"
  have y: "y \<in> set (drop k ?L)"
    using assms(1,2) append_take_drop_id [of k ?L] by (metis Un_iff set_append set_sort)
  have "sorted (map f (take k ?L) @ map f (drop k ?L))"
    using sorted_sort_key [of f xs] by (metis append_take_drop_id map_append)
  then show ?thesis using y assms(3) by (auto simp: sorted_append)
qed

lemma sorted_take_sort_key: "sorted (map f (take k (sort_key f xs)))"
  using sorted_sort_key [of f xs] by (metis sorted_wrt_take take_map)

lemma count_list_pos: "0 < count_list xs x \<longleftrightarrow> x \<in> set xs"
  by (simp add: zero_less_iff_neq_zero count_list_0_iff)

lemma sum_list_count_list_distinct:
  assumes "distinct ys" and "set ys = set xs"
  shows "sum_list (map (count_list xs) ys) = length xs"
proof -
  have "sum_list (map (count_list xs) ys) = sum (count (mset xs)) (set xs)"
    using assms by (simp add: sum_list_distinct_conv_sum_set count_mset)
  also have "\<dots> = length xs" using size_multiset_overloaded_eq [of "mset xs"] by simp
  finally show ?thesis .
qed

text \<open>\<open>find\<close> through a map that keeps the predicate, and through an append.\<close>

lemma find_map_keep:
  "\<forall>x \<in> set xs. P (g x) = P x \<Longrightarrow> find P (map g xs) = map_option g (find P xs)"
  by (induction xs) auto

lemma find_append:
  "find P (xs @ ys) = (case find P xs of None \<Rightarrow> find P ys | Some x \<Rightarrow> Some x)"
  by (induction xs) auto

lemma map_option_find_keep:
  "\<forall>x \<in> set xs. P x \<longrightarrow> g x = x \<Longrightarrow> map_option g (find P xs) = find P xs"
  by (induction xs) auto

text \<open>A number is below ten to the number of its decimal digits.\<close>

lemma show_nat_bound: "n < 10 ^ length (show_nat n)"
proof (induction n rule: show_nat.induct)
  case (1 n)
  show ?case
  proof (cases "n < 10")
    case True
    then show ?thesis by (subst show_nat.simps) simp
  next
    case False
    then have IH: "n div 10 < 10 ^ length (show_nat (n div 10))" using "1.IH" by simp
    have "n < 10 * (n div 10 + 1)" by simp
    also have "\<dots> \<le> 10 * 10 ^ length (show_nat (n div 10))" using IH by simp
    finally show ?thesis using False by (subst show_nat.simps) simp
  qed
qed

lemma dropWhile_none: "\<forall>c \<in> set s. \<not> P c \<Longrightarrow> dropWhile P s = s"
  by (cases s) auto

lemma js_trim_id: "\<forall>c \<in> set s. \<not> js_space c \<Longrightarrow> js_trim s = s"
  by (simp add: js_trim_def dropWhile_none)

text \<open>The role names are upper case already.\<close>

lemma js_upper_role_names [simp]:
  "js_upper ''ADMIN'' = ''ADMIN''" "js_upper ''TEACHER'' = ''TEACHER''" "js_upper ''USER'' = ''USER''"
  by code_simp+

text \<open>\<open>parseInt\<close> reads back a number printed by \<open>show_nat\<close>.\<close>

lemma digit_char_of: "k < 10 \<Longrightarrow> (of_char (digit_char k) :: nat) = 48 + k"
  by (simp add: of_char_of)

lemma show_nat_digits: "\<forall>c \<in> set (show_nat n). is_digit c \<and> (of_char c :: nat) - 48 < 10"
proof (induction n rule: show_nat.induct)
  case (1 n)
  then show ?case
    by (subst show_nat.simps) (auto simp: is_digit_def digit_char_of simp del: digit_char.simps)
qed

lemma digits_value_show_nat: "digits_value (show_nat n) = n"
proof (induction n rule: show_nat.induct)
  case (1 n)
  then show ?case
    by (subst show_nat.simps) (auto simp: digits_value_def digit_char_of simp del: digit_char.simps)
qed

lemma js_parse_int_show_nat [simp]: "js_parse_int (show_nat n) = Some (int n)"
proof -
  have d: "\<forall>c \<in> set (show_nat n). is_digit c" using show_nat_digits by blast
  have sp: "\<forall>c \<in> set (show_nat n). \<not> js_space c" "\<forall>c \<in> set (show_nat n). c \<noteq> CHR ''-'' \<and> c \<noteq> CHR ''+''"
    using d by (auto simp: is_digit_def js_space_def)
  obtain c cs where cs: "show_nat n = c # cs" by (cases "show_nat n") auto
  have "dropWhile js_space (show_nat n) = show_nat n" using sp(1) by (rule dropWhile_none)
  moreover have "takeWhile is_digit (show_nat n) = show_nat n" using d by (simp add: takeWhile_eq_all_conv)
  moreover have "digits_value (c # cs) = n" using digits_value_show_nat [of n] cs by simp
  ultimately show ?thesis using sp(2) cs
    by (simp add: js_parse_int_def Let_def)
qed

lemma parse_positive_show_nat [simp]: "0 < n \<Longrightarrow> parse_positive (show_nat n) dflt = int n"
  by (simp add: parse_positive_def)

text \<open>Removing the one element with a given key from a list of distinct keys.\<close>

lemma length_filter_remove_key:
  "distinct (map f xs) \<Longrightarrow> x \<in> set xs \<Longrightarrow> P x \<Longrightarrow>
   length (filter (\<lambda>y. f y \<noteq> f x \<and> P y) xs) = length (filter P xs) - 1"
proof (induction xs)
  case Nil
  then show ?case by simp
next
  case (Cons y ys)
  show ?case
  proof (cases "y = x")
    case True
    with Cons.prems have "\<forall>z \<in> set ys. f z \<noteq> f x" by (auto simp: image_iff)
    then have "filter (\<lambda>y. f y \<noteq> f x \<and> P y) ys = filter P ys" by (auto intro: filter_cong)
    with True Cons.prems show ?thesis by simp
  next
    case False
    with Cons.prems have x: "x \<in> set ys" and fy: "f y \<noteq> f x" by (auto simp: image_iff)
    have "0 < length (filter P ys)" using x Cons.prems(3) by (auto simp: filter_empty_conv length_greater_0_conv)
    with Cons x fy show ?thesis by simp
  qed
qed
end
