(* ===== verification/Store.thy ===== *)
theory Store
  imports Prelude
begin

text \<open>
  The relational store behind \<open>prisma\<close> (src/backend/prismaClient.js): one list of rows
  per Prisma model, in insertion order, which is the order \<open>findMany\<close> returns when a
  query gives no \<open>orderBy\<close>. Row fields are the columns the handlers under
  src/backend/routes read and write. Identifiers are strings, as Prisma's generated ids
  are; a created row gets an id no row of its table has (\<open>fresh_id\<close>). Passwords are
  stored as bcrypt digests; the digest is abstracted to the password it was made from,
  so that \<open>bcrypt.compare\<close> is equality of the password with the hashed one.
\<close>

datatype pw_hash = Bcrypt string

record user_row =
  u_id :: string
  u_email :: string
  u_password :: pw_hash
  u_name :: string
  u_role :: string
  u_age :: "int option"
  u_place :: "string option"
  u_created :: int

record course_row =
  c_id :: string
  c_title :: string
  c_description :: string
  c_category :: string
  c_price :: int
  c_teacherId :: string
  c_created :: int

record video_row =
  v_id :: string
  v_title :: string
  v_link :: string
  v_img :: string
  v_description :: string
  v_views :: int
  v_courseId :: string
  v_created :: int

record enrollment_row =
  e_id :: string
  e_userId :: string
  e_courseId :: string
  e_progress :: int
  e_status :: string
  e_created :: int

record progress_row =
  p_userId :: string
  p_videoId :: string
  p_watched :: bool

record mocktest_row =
  t_id :: string
  t_title :: string
  t_courseId :: string

record attempt_row =
  a_id :: string
  a_userId :: string
  a_testId :: string
  a_score :: int

record cert_row =
  ce_id :: string
  ce_userId :: string
  ce_courseId :: string
  ce_grade :: string
  ce_fileUrl :: string

record db =
  users :: "user_row list"
  courses :: "course_row list"
  videos :: "video_row list"
  enrollments :: "enrollment_row list"
  vprogress :: "progress_row list"
  mocktests :: "mocktest_row list"
  attempts :: "attempt_row list"
  certificates :: "cert_row list"

definition empty_db :: db where
  "empty_db = \<lparr>users = [], courses = [], videos = [], enrollments = [], vprogress = [],
     mocktests = [], attempts = [], certificates = []\<rparr>"

section \<open>Identifiers\<close>

text \<open>An id longer than every id in use, hence not in use.\<close>

definition fresh_id :: "string list \<Rightarrow> string" where
  "fresh_id ids = CHR ''c'' # replicate (foldr (\<lambda>s m. max (length s) m) ids 0) (CHR ''0'')"

text \<open>The length of the longest string in use: a longer one is not in use.\<close>

definition max_len :: "string list \<Rightarrow> nat" where
  "max_len ids = foldr (\<lambda>s m. max (length s) m) ids 0"

section \<open>Point reads (\<open>findUnique\<close>, \<open>findFirst\<close>)\<close>

definition find_user :: "db \<Rightarrow> string \<Rightarrow> user_row option" where
  "find_user d i = find (\<lambda>u. u_id u = i) (users d)"

definition find_user_by_email :: "db \<Rightarrow> string \<Rightarrow> user_row option" where
  "find_user_by_email d e = find (\<lambda>u. u_email u = e) (users d)"

definition find_course :: "db \<Rightarrow> string \<Rightarrow> course_row option" where
  "find_course d i = find (\<lambda>c. c_id c = i) (courses d)"

definition find_video :: "db \<Rightarrow> string \<Rightarrow> video_row option" where
  "find_video d i = find (\<lambda>v. v_id v = i) (videos d)"

section \<open>Well-formedness of the store\<close>

text \<open>
  The uniqueness facts the schema and the handlers rely on: ids are keys, e-mails are
  unique (the \<open>findUnique({where: {email}})\<close> calls require it), and the pairs the spec
  calls unique are so: one enrollment, one certificate per (user, course), one progress
  row per (user, video).
\<close>

definition keys_unique :: "db \<Rightarrow> bool" where
  "keys_unique d \<longleftrightarrow>
     distinct (map u_id (users d)) \<and> distinct (map u_email (users d)) \<and>
     distinct (map c_id (courses d)) \<and> distinct (map v_id (videos d)) \<and>
     distinct (map e_id (enrollments d)) \<and> distinct (map t_id (mocktests d)) \<and>
     distinct (map ce_id (certificates d))"

definition pairs_unique :: "db \<Rightarrow> bool" where
  "pairs_unique d \<longleftrightarrow>
     distinct (map (\<lambda>e. (e_userId e, e_courseId e)) (enrollments d)) \<and>
     distinct (map (\<lambda>p. (p_userId p, p_videoId p)) (vprogress d)) \<and>
     distinct (map (\<lambda>c. (ce_userId c, ce_courseId c)) (certificates d))"

text \<open>Every foreign key names an existing row.\<close>

definition refs_ok :: "db \<Rightarrow> bool" where
  "refs_ok d \<longleftrightarrow>
     (\<forall>c \<in> set (courses d). c_teacherId c \<in> u_id ` set (users d)) \<and>
     (\<forall>v \<in> set (videos d). v_courseId v \<in> c_id ` set (courses d)) \<and>
     (\<forall>e \<in> set (enrollments d). e_userId e \<in> u_id ` set (users d) \<and>
                                 e_courseId e \<in> c_id ` set (courses d)) \<and>
     (\<forall>p \<in> set (vprogress d). p_userId p \<in> u_id ` set (users d) \<and>
                              p_videoId p \<in> v_id ` set (videos d)) \<and>
     (\<forall>t \<in> set (mocktests d). t_courseId t \<in> c_id ` set (courses d)) \<and>
     (\<forall>a \<in> set (attempts d). a_userId a \<in> u_id ` set (users d) \<and>
                             a_testId a \<in> t_id ` set (mocktests d)) \<and>
     (\<forall>c \<in> set (certificates d). ce_userId c \<in> u_id ` set (users d) \<and>
                                 ce_courseId c \<in> c_id ` set (courses d))"

text \<open>The spec's invariant on courses: the owner is a TEACHER or an ADMIN.\<close>

definition teaching_role :: "string \<Rightarrow> bool" where
  "teaching_role r \<longleftrightarrow> js_upper r \<in> {''TEACHER'', ''ADMIN''}"

definition owners_teach :: "db \<Rightarrow> bool" where
  "owners_teach d \<longleftrightarrow>
     (\<forall>c \<in> set (courses d). \<exists>u \<in> set (users d). u_id u = c_teacherId c \<and> teaching_role (u_role u))"

section \<open>Lemmas\<close>

lemma length_le_foldr_max: "s \<in> set ids \<Longrightarrow> length s \<le> foldr (\<lambda>s m. max (length s) m) ids 0"
  by (induction ids) auto

lemma fresh_id_notin [simp]: "fresh_id ids \<notin> set ids"
proof
  assume "fresh_id ids \<in> set ids"
  then have "length (fresh_id ids) \<le> foldr (\<lambda>s m. max (length s) m) ids 0"
    by (rule length_le_foldr_max)
  then show False by (simp add: fresh_id_def)
qed

lemma fresh_id_map_notin [simp]: "fresh_id (map f xs) \<noteq> f x \<or> x \<notin> set xs"
  using fresh_id_notin [of "map f xs"] by auto

lemma length_le_max_len: "s \<in> set ids \<Longrightarrow> length s \<le> max_len ids"
  unfolding max_len_def by (rule length_le_foldr_max)

text \<open>A name numbered \<open>n\<close> that is in use has fewer digits than the longest name.\<close>

lemma numbered_in_use_bound:
  assumes "base @ ''-'' @ show_nat n \<in> set ids"
  shows "n < 10 ^ max_len ids"
proof -
  have "length (show_nat n) \<le> max_len ids" using length_le_max_len [OF assms] by simp
  then have "(10::nat) ^ length (show_nat n) \<le> 10 ^ max_len ids" by (rule power_increasing) simp
  with show_nat_bound [of n] show ?thesis by linarith
qed

text \<open>Lemmas on \<open>find\<close> that every table shares.\<close>

lemma find_Some_in: "find P xs = Some x \<Longrightarrow> x \<in> set xs \<and> P x"
  by (induction xs) (auto split: if_splits)

lemma find_None_iff: "find P xs = None \<longleftrightarrow> (\<forall>x \<in> set xs. \<not> P x)"
  by (induction xs) auto

lemma find_key_unique:
  assumes "distinct (map k xs)" "x \<in> set xs"
  shows "find (\<lambda>y. k y = k x) xs = Some x"
  using assms by (induction xs) (auto simp: rev_image_eqI)

lemma find_append_fresh:
  "\<forall>y \<in> set xs. \<not> P y \<Longrightarrow> P x \<Longrightarrow> find P (xs @ [x]) = Some x"
  by (induction xs) auto

lemmas find_simps [store_simps] = find_Some_in find_None_iff find_key_unique

lemma empty_db_wf: "keys_unique empty_db \<and> pairs_unique empty_db \<and> refs_ok empty_db \<and> owners_teach empty_db"
  by (simp add: empty_db_def keys_unique_def pairs_unique_def refs_ok_def owners_teach_def)

end
