(* ===== verification/Auth.thy ===== *)
theory Auth
  imports Store
begin

text \<open>
  The token service and the authentication middleware: \<open>jsonwebtoken\<close>'s sign and
  verify, \<open>toSafeUser\<close>, \<open>auth\<close> and \<open>requires\<close> of
  src/backend/middlewares/users.middleware.js, and \<open>GET /regenerateToken\<close> of
  src/backend/index.js. A signed token carries its JSON payload, the secret it was
  signed with and its expiry (seconds); verification succeeds exactly when the secret
  matches and the expiry lies in the future, which is what \<open>jwt.verify\<close> checks (the
  signature is abstracted to the secret that made it). A string that is no well-formed
  JWT is \<open>Malformed\<close>.
\<close>

section \<open>Tokens\<close>

text \<open>The payload fields any of the signers writes or any reader reads.\<close>

record claims =
  cl_id :: "string option"
  cl_userId :: "string option"
  cl_email :: "string option"
  cl_role :: "string option"
  cl_name :: "string option"
  cl_user :: "string option"

definition no_claims :: claims where
  "no_claims = \<lparr>cl_id = None, cl_userId = None, cl_email = None, cl_role = None,
     cl_name = None, cl_user = None\<rparr>"

record jwt =
  jwt_payload :: claims
  jwt_secret :: string
  jwt_exp :: int

datatype token_text = Signed jwt | Malformed string

text \<open>
  The secrets and lifetimes, read from the environment with the defaults of the code:
  \<open>JWT_SECRET\<close> (\<open>"arivu"\<close>), \<open>JWT_REFRESH\<close> (\<open>"ARIVU"\<close>), \<open>JWT_ACCESS_TTL\<close>
  (\<open>"1d"\<close> in users.routes.js, \<open>"7d"\<close> in index.js) and \<open>JWT_REFRESH_TTL\<close> (\<open>"7d"\<close>).
\<close>

record config =
  access_secret :: string
  refresh_secret :: string
  login_access_ttl :: int
  refresh_ttl :: int
  regen_access_ttl :: int

definition default_config :: config where
  "default_config = \<lparr>access_secret = ''arivu'', refresh_secret = ''ARIVU'',
     login_access_ttl = 86400, refresh_ttl = 604800, regen_access_ttl = 604800\<rparr>"

definition jwt_sign :: "claims \<Rightarrow> string \<Rightarrow> int \<Rightarrow> int \<Rightarrow> token_text" where
  "jwt_sign p secret ttl now = Signed \<lparr>jwt_payload = p, jwt_secret = secret, jwt_exp = now + ttl\<rparr>"

definition jwt_verify :: "token_text \<Rightarrow> string \<Rightarrow> int \<Rightarrow> claims option" where
  "jwt_verify t secret now =
     (case t of
        Malformed _ \<Rightarrow> None
      | Signed j \<Rightarrow> if jwt_secret j = secret \<and> now < jwt_exp j then Some (jwt_payload j) else None)"

section \<open>The middleware\<close>

text \<open>\<open>req.user\<close> as \<open>toSafeUser\<close> builds it: an id or \<open>null\<close>, a name, an upper-cased role.\<close>

record safe_user =
  su_id :: "string option"
  su_name :: "string option"
  su_role :: string

definition to_safe_user :: "claims \<Rightarrow> safe_user" where
  "to_safe_user d =
     \<lparr>su_id = js_or (cl_userId d) (js_or (cl_id d) None),
      su_name = js_or (cl_user d) (js_or (cl_name d) None),
      su_role = js_upper (js_str (cl_role d))\<rparr>"

text \<open>
  The \<open>Authorization\<close> header: absent, a \<open>Bearer\<close> token, or anything else. The
  blacklist is the list exported by \<open>../blacklist\<close>, a module that is not part of the
  repository: it is a parameter of the model.
\<close>

datatype auth_header = No_Header | Bearer token_text | Other_Scheme string

record request_env =
  env_config :: config
  env_blacklist :: "token_text list"
  env_now :: int

definition auth :: "request_env \<Rightarrow> auth_header \<Rightarrow> safe_user result" where
  "auth env h =
     (case h of
        Bearer t \<Rightarrow>
          if t = Malformed [] then Inl Unauthorized
          else if t \<in> set (env_blacklist env) then Inl Unauthorized
          else (case jwt_verify t (access_secret (env_config env)) (env_now env) of
                  None \<Rightarrow> Inl Unauthorized
                | Some d \<Rightarrow>
                    let u = to_safe_user d in
                    if su_id u = None then Inl Unauthorized else Inr u)
      | _ \<Rightarrow> Inl Unauthorized)"

text \<open>\<open>requires(...roles)\<close>: no role list lets everyone through.\<close>

definition requires :: "string list \<Rightarrow> safe_user \<Rightarrow> unit result" where
  "requires roles u =
     (let r = js_upper (su_role u) in
      if roles \<noteq> [] \<and> r \<notin> set roles then Inl Forbidden else Inr ())"

text \<open>An authenticated route: \<open>auth\<close>, then \<open>requires\<close>, then the handler.\<close>

definition guarded ::
  "request_env \<Rightarrow> auth_header \<Rightarrow> string list \<Rightarrow> (safe_user \<Rightarrow> 's \<Rightarrow> 'a result \<times> 's) \<Rightarrow>
   's \<Rightarrow> 'a result \<times> 's" where
  "guarded env h roles handler d =
     (case ebind (auth env h) (\<lambda>u. ebind (requires roles u) (\<lambda>_. Inr u)) of
        Inl e \<Rightarrow> (Inl e, d)
      | Inr u \<Rightarrow> handler u d)"

section \<open>Refreshing the access token\<close>

text \<open>
  \<open>GET /regenerateToken\<close>: the refresh token must verify with the refresh secret; the
  new access token is signed over \<open>{userId: decoded.userId, role: decoded.role,
  user: decoded.user}\<close>. Errors answer 400.
\<close>

definition regenerate_token :: "request_env \<Rightarrow> auth_header \<Rightarrow> token_text result" where
  "regenerate_token env h =
     (case h of
        Bearer t \<Rightarrow>
          if t = Malformed [] then Inl Bad_Request
          else (case jwt_verify t (refresh_secret (env_config env)) (env_now env) of
                  None \<Rightarrow> Inl Bad_Request
                | Some d \<Rightarrow>
                    Inr (jwt_sign (no_claims\<lparr>cl_userId := cl_userId d, cl_role := cl_role d,
                                             cl_user := cl_user d\<rparr>)
                          (access_secret (env_config env)) (regen_access_ttl (env_config env))
                          (env_now env)))
      | _ \<Rightarrow> Inl Bad_Request)"

section \<open>Example requests\<close>

text \<open>A request context with the default secrets at time 10, and access tokens as a login signs them.\<close>

definition demo_env :: request_env where
  "demo_env = \<lparr>env_config = default_config, env_blacklist = [], env_now = 10\<rparr>"

definition demo_token :: "string \<Rightarrow> string \<Rightarrow> token_text" where
  "demo_token i r = jwt_sign (no_claims\<lparr>cl_id := Some i, cl_role := Some r\<rparr>) ''arivu'' 86400 0"

section \<open>Lemmas\<close>

lemma jwt_verify_sign [simp]:
  "jwt_verify (jwt_sign p s ttl now) s' t = (if s = s' \<and> t < now + ttl then Some p else None)"
  by (auto simp: jwt_verify_def jwt_sign_def)

lemma jwt_sign_not_Malformed [simp]: "jwt_sign p s ttl now \<noteq> Malformed m"
  by (simp add: jwt_sign_def)

lemma auth_Inr:
  "auth env h = Inr u \<Longrightarrow>
     \<exists>t d. h = Bearer t \<and> t \<notin> set (env_blacklist env) \<and>
           jwt_verify t (access_secret (env_config env)) (env_now env) = Some d \<and>
           u = to_safe_user d \<and> su_id u \<noteq> None"
  by (auto simp: auth_def Let_def split: auth_header.splits option.splits if_splits)

lemma auth_Inl_Unauthorized: "auth env h = Inl e \<Longrightarrow> e = Unauthorized"
  by (auto simp: auth_def Let_def split: auth_header.splits option.splits if_splits)

lemma requires_Inr_iff [simp]:
  "requires roles u = Inr x \<longleftrightarrow> roles = [] \<or> js_upper (su_role u) \<in> set roles"
  by (auto simp: requires_def Let_def)

lemma requires_Inl: "requires roles u = Inl e \<Longrightarrow> e = Forbidden"
  by (auto simp: requires_def Let_def split: if_splits)

lemma guarded_Inl_same: "guarded env h roles f d = (Inl e, d') \<Longrightarrow> (\<forall>u. f u d = (Inl e, d') \<longrightarrow> d' = d) \<Longrightarrow> d' = d"
  by (auto simp: guarded_def split: sum.splits)

lemma to_safe_user_role_upper [simp]: "js_upper (su_role (to_safe_user d)) = su_role (to_safe_user d)"
  by (simp add: to_safe_user_def)

lemma guarded_Inr:
  "auth env h = Inr u \<Longrightarrow> roles = [] \<or> js_upper (su_role u) \<in> set roles \<Longrightarrow>
   guarded env h roles f d = f u d"
  by (auto simp: guarded_def requires_def Let_def)

lemma auth_role_upper: "auth env h = Inr u \<Longrightarrow> js_upper (su_role u) = su_role u"
  by (auto dest!: auth_Inr)

lemma guarded_auth_Inl: "auth env h = Inl e \<Longrightarrow> guarded env h roles f d = (Inl e, d)"
  by (simp add: guarded_def)


text \<open>An invariant of the store that every handler keeps is kept by the guarded route.\<close>

lemma guarded_preserves:
  "P d \<Longrightarrow> (\<And>u. P (snd (f u d))) \<Longrightarrow> P (snd (guarded env h roles f d))"
  by (auto simp: guarded_def split: sum.split)

end
