(* ===== verification/Catalog.thy ===== *)
theory Catalog
  imports Auth
begin

text \<open>
  The catalog store: courses and videos with their listing, reading and ownership-checked
  mutation, from src/backend/routes/courses.route.js (\<open>GET /\<close>, \<open>GET /:id\<close>,
  \<open>POST /\<close>, \<open>PUT /:id\<close>, \<open>DELETE /:id\<close>) and src/backend/routes/videos.route.js
  (the same five). A video has no owner of its own: every video mutation resolves the
  parent course and checks its \<open>teacherId\<close>. Query-string parameters are strings;
  \<open>Number(...)\<close> of a price or view count is given as a \<open>js_number\<close>.
\<close>

section \<open>Ownership\<close>

text \<open>
  \<open>String(req.user?.id || req.body.userId || "")\<close>: the middleware writes
  \<open>req.body.userId = user.id\<close>, so both are the token's id.
\<close>

definition requester_id :: "safe_user \<Rightarrow> string" where
  "requester_id u = js_str (su_id u)"

text \<open>The check every mutation repeats: a TEACHER that does not own the course is refused.\<close>

definition not_owner :: "safe_user \<Rightarrow> course_row \<Rightarrow> bool" where
  "not_owner u c \<longleftrightarrow> js_upper (su_role u) = ''TEACHER'' \<and> c_teacherId c \<noteq> requester_id u"

section \<open>Listing courses\<close>

record course_query =
  cq_search :: string
  cq_order :: string
  cq_page :: string
  cq_limit :: string
  cq_category :: string
  cq_minPrice :: "js_number option"
  cq_maxPrice :: "js_number option"

definition course_matches :: "course_query \<Rightarrow> course_row \<Rightarrow> bool" where
  "course_matches q c \<longleftrightarrow>
     (cq_search q = [] \<or> contains_ci (c_title c) (cq_search q) \<or>
        contains_ci (c_description c) (cq_search q) \<or> contains_ci (c_category c) (cq_search q)) \<and>
     (cq_category q = [] \<or> js_lower (c_category c) = js_lower (cq_category q)) \<and>
     (case cq_minPrice q of None \<Rightarrow> True | Some m \<Rightarrow> num_or m 0 \<le> c_price c) \<and>
     (case cq_maxPrice q of None \<Rightarrow> True | Some m \<Rightarrow> c_price c \<le> num_or m 1000000000000)"

definition course_order :: "string \<Rightarrow> course_row list \<Rightarrow> course_row list" where
  "course_order ord cs =
     (if ord = ''asc'' then sort_key c_price cs
      else if ord = ''desc'' then sort_key (\<lambda>c. - c_price c) cs
      else sort_key (\<lambda>c. - c_created c) cs)"

record 'a page =
  pg_data :: "'a list"
  pg_total :: nat
  pg_page :: int
  pg_limit :: int
  pg_pages :: nat

text \<open>\<open>skip = (pageNum - 1) * take\<close>, \<open>pages = Math.ceil(total / take)\<close>.\<close>

definition paginate :: "int \<Rightarrow> int \<Rightarrow> 'a list \<Rightarrow> 'a page" where
  "paginate pageNum lmt xs =
     \<lparr>pg_data = take (nat lmt) (drop (nat ((pageNum - 1) * lmt)) xs),
      pg_total = length xs, pg_page = pageNum, pg_limit = lmt,
      pg_pages = (length xs + nat lmt - 1) div nat lmt\<rparr>"

definition list_courses :: "course_query \<Rightarrow> db \<Rightarrow> course_row page" where
  "list_courses q d =
     paginate (parse_positive (cq_page q) 1) (parse_positive (cq_limit q) 6)
       (course_order (cq_order q) (filter (course_matches q) (courses d)))"

text \<open>\<open>GET /courses/:id\<close>: the course with its videos, newest first.\<close>

definition get_course :: "string \<Rightarrow> db \<Rightarrow> (course_row \<times> video_row list) result" where
  "get_course i d =
     (case find_course d i of
        None \<Rightarrow> Inl Not_Found
      | Some c \<Rightarrow> Inr (c, sort_key (\<lambda>v. - v_created v) (filter (\<lambda>v. v_courseId v = i) (videos d))))"

section \<open>Course mutations\<close>

record course_body =
  cb_title :: "string option"
  cb_description :: "string option"
  cb_category :: "string option"
  cb_price :: "js_number option"
  cb_teacherId :: "string option"

definition create_course :: "int \<Rightarrow> safe_user \<Rightarrow> course_body \<Rightarrow> db \<Rightarrow> course_row result \<times> db" where
  "create_course now u b d =
     (if \<not> js_truthy (cb_title b) then (Inl Bad_Request, d)
      else
        let ownerId = (if js_upper (su_role u) = ''TEACHER'' then requester_id u
                       else js_str (js_or (cb_teacherId b) None))
        in if ownerId = [] then (Inl Bad_Request, d)
           else (case find_user d ownerId of
                   None \<Rightarrow> (Inl Not_Found, d)
                 | Some t \<Rightarrow>
                     if \<not> teaching_role (u_role t) then (Inl Bad_Request, d)
                     else
                       let c = \<lparr>c_id = fresh_id (map c_id (courses d)), c_title = js_str (cb_title b),
                                c_description = js_str (cb_description b),
                                c_category = js_str (cb_category b),
                                c_price = (case cb_price b of None \<Rightarrow> 0 | Some p \<Rightarrow> num_or p 0),
                                c_teacherId = u_id t, c_created = now\<rparr>
                       in (Inr c, d\<lparr>courses := courses d @ [c]\<rparr>)))"

record course_patch =
  cp_title :: "string option"
  cp_description :: "string option"
  cp_category :: "string option"
  cp_price :: "int option"

definition patch_course :: "course_patch \<Rightarrow> course_row \<Rightarrow> course_row" where
  "patch_course p c =
     c\<lparr>c_title := case cp_title p of None \<Rightarrow> c_title c | Some t \<Rightarrow> t,
       c_description := case cp_description p of None \<Rightarrow> c_description c | Some t \<Rightarrow> t,
       c_category := case cp_category p of None \<Rightarrow> c_category c | Some t \<Rightarrow> t,
       c_price := case cp_price p of None \<Rightarrow> c_price c | Some n \<Rightarrow> n\<rparr>"

definition update_course :: "safe_user \<Rightarrow> string \<Rightarrow> course_patch \<Rightarrow> db \<Rightarrow> course_row result \<times> db" where
  "update_course u i p d =
     (case find_course d i of
        None \<Rightarrow> (Inl Not_Found, d)
      | Some c \<Rightarrow>
          if not_owner u c then (Inl Forbidden, d)
          else (Inr (patch_course p c),
                d\<lparr>courses := map (\<lambda>x. if c_id x = i then patch_course p x else x) (courses d)\<rparr>))"

text \<open>
  \<open>DELETE /courses/:id\<close>: one \<open>$transaction\<close> deleting the course's videos,
  enrollments, mock tests and certificates, then the course. Progress rows of its
  videos and attempts at its tests are not deleted; while any exists, the store refuses
  the video or mock-test deletion (Prisma's default referential action), the
  transaction rolls back whole and the handler answers 500.
\<close>

definition cascade_blocked :: "db \<Rightarrow> string \<Rightarrow> bool" where
  "cascade_blocked d i \<longleftrightarrow>
     (\<exists>p \<in> set (vprogress d). \<exists>v \<in> set (videos d). v_courseId v = i \<and> p_videoId p = v_id v) \<or>
     (\<exists>a \<in> set (attempts d). \<exists>t \<in> set (mocktests d). t_courseId t = i \<and> a_testId a = t_id t)"

definition delete_course_rows :: "string \<Rightarrow> db \<Rightarrow> db" where
  "delete_course_rows i d =
     d\<lparr>videos := filter (\<lambda>v. v_courseId v \<noteq> i) (videos d),
       enrollments := filter (\<lambda>e. e_courseId e \<noteq> i) (enrollments d),
       mocktests := filter (\<lambda>t. t_courseId t \<noteq> i) (mocktests d),
       certificates := filter (\<lambda>c. ce_courseId c \<noteq> i) (certificates d),
       courses := filter (\<lambda>c. c_id c \<noteq> i) (courses d)\<rparr>"

definition delete_course :: "safe_user \<Rightarrow> string \<Rightarrow> db \<Rightarrow> unit result \<times> db" where
  "delete_course u i d =
     (case find_course d i of
        None \<Rightarrow> (Inl Not_Found, d)
      | Some c \<Rightarrow>
          if not_owner u c then (Inl Forbidden, d)
          else if cascade_blocked d i then (Inl Server_Error, d)
          else (Inr (), delete_course_rows i d))"

section \<open>Videos\<close>

record video_query =
  vq_courseId :: string
  vq_search :: string
  vq_page :: string
  vq_limit :: string

definition list_videos :: "video_query \<Rightarrow> db \<Rightarrow> video_row page" where
  "list_videos q d =
     paginate (parse_positive (vq_page q) 1) (parse_positive (vq_limit q) 10)
       (sort_key (\<lambda>v. - v_created v)
          (filter (\<lambda>v. (vq_courseId q = [] \<or> v_courseId v = vq_courseId q) \<and>
                        (vq_search q = [] \<or> contains_ci (v_title v) (vq_search q)))
             (videos d)))"

definition get_video :: "string \<Rightarrow> db \<Rightarrow> video_row result" where
  "get_video i d = (case find_video d i of None \<Rightarrow> Inl Not_Found | Some v \<Rightarrow> Inr v)"

record video_body =
  vb_title :: "string option"
  vb_link :: "string option"
  vb_views :: "js_number option"
  vb_img :: "string option"
  vb_courseId :: "string option"
  vb_description :: "string option"

definition create_video :: "int \<Rightarrow> safe_user \<Rightarrow> video_body \<Rightarrow> db \<Rightarrow> video_row result \<times> db" where
  "create_video now u b d =
     (if \<not> js_truthy (vb_title b) \<or> \<not> js_truthy (vb_link b) \<or> \<not> js_truthy (vb_courseId b)
      then (Inl Bad_Request, d)
      else (case find_course d (js_str (vb_courseId b)) of
              None \<Rightarrow> (Inl Not_Found, d)
            | Some c \<Rightarrow>
                if not_owner u c then (Inl Forbidden, d)
                else
                  let v = \<lparr>v_id = fresh_id (map v_id (videos d)), v_title = js_str (vb_title b),
                           v_link = js_str (vb_link b),
                           v_img = (if js_truthy (vb_img b) then js_str (vb_img b) else []),
                           v_description = js_str (vb_description b),
                           v_views = (case vb_views b of None \<Rightarrow> 0 | Some n \<Rightarrow> num_or n 0),
                           v_courseId = c_id c, v_created = now\<rparr>
                  in (Inr v, d\<lparr>videos := videos d @ [v]\<rparr>)))"

record video_patch =
  vp_title :: "string option"
  vp_link :: "string option"
  vp_views :: "js_number option"
  vp_img :: "string option"
  vp_description :: "string option"

definition patch_video :: "video_patch \<Rightarrow> video_row \<Rightarrow> video_row" where
  "patch_video p v =
     v\<lparr>v_title := case vp_title p of None \<Rightarrow> v_title v | Some t \<Rightarrow> t,
       v_link := case vp_link p of None \<Rightarrow> v_link v | Some t \<Rightarrow> t,
       v_views := case vp_views p of None \<Rightarrow> v_views v | Some n \<Rightarrow> num_or n 0,
       v_img := case vp_img p of None \<Rightarrow> v_img v | Some t \<Rightarrow> t,
       v_description := case vp_description p of None \<Rightarrow> v_description v | Some t \<Rightarrow> t\<rparr>"

text \<open>The parent course of a video, resolved the way every video mutation does it.\<close>

definition video_course :: "string \<Rightarrow> db \<Rightarrow> (video_row \<times> course_row) result" where
  "video_course i d =
     (case find_video d i of
        None \<Rightarrow> Inl Not_Found
      | Some v \<Rightarrow> (case find_course d (v_courseId v) of None \<Rightarrow> Inl Not_Found | Some c \<Rightarrow> Inr (v, c)))"

definition update_video :: "safe_user \<Rightarrow> string \<Rightarrow> video_patch \<Rightarrow> db \<Rightarrow> video_row result \<times> db" where
  "update_video u i p d =
     (case video_course i d of
        Inl e \<Rightarrow> (Inl e, d)
      | Inr (v, c) \<Rightarrow>
          if not_owner u c then (Inl Forbidden, d)
          else (Inr (patch_video p v),
                d\<lparr>videos := map (\<lambda>x. if v_id x = v_id v then patch_video p x else x) (videos d)\<rparr>))"

definition delete_video :: "safe_user \<Rightarrow> string \<Rightarrow> db \<Rightarrow> unit result \<times> db" where
  "delete_video u i d =
     (case video_course i d of
        Inl e \<Rightarrow> (Inl e, d)
      | Inr (v, c) \<Rightarrow>
          if not_owner u c then (Inl Forbidden, d)
          else if (\<exists>p \<in> set (vprogress d). p_videoId p = v_id v) then (Inl Server_Error, d)
          else (Inr (), d\<lparr>videos := filter (\<lambda>x. v_id x \<noteq> v_id v) (videos d)\<rparr>))"

section \<open>The routes\<close>

definition teacher_roles :: "string list" where
  "teacher_roles = [''TEACHER'', ''ADMIN'']"

definition route_create_course :: "request_env \<Rightarrow> auth_header \<Rightarrow> course_body \<Rightarrow> db \<Rightarrow> course_row result \<times> db" where
  "route_create_course env h b = guarded env h teacher_roles (\<lambda>u. create_course (env_now env) u b)"

definition route_update_course ::
  "request_env \<Rightarrow> auth_header \<Rightarrow> string \<Rightarrow> course_patch \<Rightarrow> db \<Rightarrow> course_row result \<times> db" where
  "route_update_course env h i p = guarded env h teacher_roles (\<lambda>u. update_course u i p)"

definition route_delete_course :: "request_env \<Rightarrow> auth_header \<Rightarrow> string \<Rightarrow> db \<Rightarrow> unit result \<times> db" where
  "route_delete_course env h i = guarded env h teacher_roles (\<lambda>u. delete_course u i)"

definition route_create_video :: "request_env \<Rightarrow> auth_header \<Rightarrow> video_body \<Rightarrow> db \<Rightarrow> video_row result \<times> db" where
  "route_create_video env h b = guarded env h teacher_roles (\<lambda>u. create_video (env_now env) u b)"

definition route_update_video ::
  "request_env \<Rightarrow> auth_header \<Rightarrow> string \<Rightarrow> video_patch \<Rightarrow> db \<Rightarrow> video_row result \<times> db" where
  "route_update_video env h i p = guarded env h teacher_roles (\<lambda>u. update_video u i p)"

definition route_delete_video :: "request_env \<Rightarrow> auth_header \<Rightarrow> string \<Rightarrow> db \<Rightarrow> unit result \<times> db" where
  "route_delete_video env h i = guarded env h teacher_roles (\<lambda>u. delete_video u i)"

section \<open>Example data\<close>

definition demo_user :: "string \<Rightarrow> string \<Rightarrow> user_row" where
  "demo_user i r = \<lparr>u_id = i, u_email = i @ ''@x.io'', u_password = Bcrypt ''pw'', u_name = i,
     u_role = r, u_age = None, u_place = None, u_created = 0\<rparr>"

definition demo_course :: course_row where
  "demo_course = \<lparr>c_id = ''k8s'', c_title = ''K8s 101'', c_description = [], c_category = [],
     c_price = 0, c_teacherId = ''tx'', c_created = 1\<rparr>"

definition demo_video :: video_row where
  "demo_video = \<lparr>v_id = ''v1'', v_title = ''Pods'', v_link = ''l'', v_img = [], v_description = [],
     v_views = 0, v_courseId = ''k8s'', v_created = 2\<rparr>"

text \<open>Teachers \<open>tx\<close> and \<open>ty\<close>, an admin, a student; \<open>tx\<close> owns course \<open>k8s\<close> with one video.\<close>

definition demo_db :: db where
  "demo_db = empty_db\<lparr>users := [demo_user ''tx'' ''TEACHER'', demo_user ''ty'' ''TEACHER'',
                               demo_user ''ad'' ''ADMIN'', demo_user ''st'' ''USER''],
                     courses := [demo_course], videos := [demo_video]\<rparr>"

section \<open>Properties\<close>

lemma teacher_roles_mem [simp]: "x \<in> set teacher_roles \<longleftrightarrow> x = ''TEACHER'' \<or> x = ''ADMIN''"
  by (auto simp: teacher_roles_def)

lemma video_course_Inr:
  "video_course i d = Inr (v, c) \<longleftrightarrow> find_video d i = Some v \<and> find_course d (v_courseId v) = Some c"
  by (auto simp: video_course_def split: option.splits)

lemma demo_token_auth:
  "auth demo_env (Bearer (demo_token ''ty'' ''TEACHER'')) =
     Inr \<lparr>su_id = Some ''ty'', su_name = None, su_role = ''TEACHER''\<rparr>"
  "auth demo_env (Bearer (demo_token ''ad'' ''ADMIN'')) =
     Inr \<lparr>su_id = Some ''ad'', su_name = None, su_role = ''ADMIN''\<rparr>"
  by code_simp+

lemma demo_db_lookups:
  "find_course demo_db ''k8s'' = Some demo_course"
  "find_video demo_db ''v1'' = Some demo_video"
  "video_course ''v1'' demo_db = Inr (demo_video, demo_course)"
  by (simp_all add: demo_db_def empty_db_def find_course_def find_video_def video_course_def
                    demo_course_def demo_video_def)

text \<open>
  C8. A TEACHER that does not own a course is refused with 403 when it updates or
  deletes it, and the store is left as it was.
\<close>

theorem course_mutation_not_owner:
  assumes "auth env h = Inr u" and "find_course d i = Some c"
    and "su_role u = ''TEACHER''" and "c_teacherId c \<noteq> requester_id u"
  shows "route_update_course env h i p d = (Inl Forbidden, d) \<and>
         route_delete_course env h i d = (Inl Forbidden, d)"
  using assms auth_role_upper [OF assms(1)]
  by (simp add: route_update_course_def route_delete_course_def guarded_Inr update_course_def
                delete_course_def not_owner_def)

theorem course_mutation_not_owner_witness:
  "route_update_course demo_env (Bearer (demo_token ''ty'' ''TEACHER'')) ''k8s''
     \<lparr>cp_title = Some ''mine'', cp_description = None, cp_category = None, cp_price = None\<rparr> demo_db
   = (Inl Forbidden, demo_db)"
  using course_mutation_not_owner [OF demo_token_auth(1) demo_db_lookups(1)]
  by (simp add: demo_course_def requester_id_def)

text \<open>
  An ADMIN may update any course: the route answers with the patched row and the
  store holds it in place of the old one.
\<close>

theorem course_update_admin:
  assumes "auth env h = Inr u" and "find_course d i = Some c" and "su_role u = ''ADMIN''"
  shows "route_update_course env h i p d =
           (Inr (patch_course p c),
            d\<lparr>courses := map (\<lambda>x. if c_id x = i then patch_course p x else x) (courses d)\<rparr>)"
  using assms auth_role_upper [OF assms(1)]
  by (simp add: route_update_course_def guarded_Inr update_course_def not_owner_def)

theorem course_update_admin_witness:
  "fst (route_update_course demo_env (Bearer (demo_token ''ad'' ''ADMIN'')) ''k8s''
     \<lparr>cp_title = Some ''K8s 201'', cp_description = None, cp_category = None, cp_price = None\<rparr> demo_db)
   = Inr (demo_course\<lparr>c_title := ''K8s 201''\<rparr>)"
  using course_update_admin [OF demo_token_auth(2) demo_db_lookups(1)]
  by (simp add: patch_course_def)

text \<open>
  Video mutations re-derive ownership from the parent course: a TEACHER that does
  not own the video's course is refused with 403 on update and delete.
\<close>

theorem video_mutation_not_owner:
  assumes "auth env h = Inr u" and "video_course i d = Inr (v, c)"
    and "su_role u = ''TEACHER''" and "c_teacherId c \<noteq> requester_id u"
  shows "route_update_video env h i p d = (Inl Forbidden, d) \<and>
         route_delete_video env h i d = (Inl Forbidden, d)"
  using assms auth_role_upper [OF assms(1)]
  by (simp add: route_update_video_def route_delete_video_def guarded_Inr update_video_def
                delete_video_def not_owner_def)

theorem video_mutation_not_owner_witness:
  "route_delete_video demo_env (Bearer (demo_token ''ty'' ''TEACHER'')) ''v1'' demo_db
   = (Inl Forbidden, demo_db)"
  using video_mutation_not_owner [OF demo_token_auth(1) demo_db_lookups(3)]
  by (simp add: demo_course_def requester_id_def)





lemma delete_course_rows_refs_ok:
  assumes "refs_ok d" and "\<not> cascade_blocked d i"
  shows "refs_ok (delete_course_rows i d)"
  using assms unfolding refs_ok_def cascade_blocked_def delete_course_rows_def
  by (fastforce simp: image_iff)

text \<open>
  C11. Course deletion keeps the store well formed: keys and unique pairs stay unique
  and no foreign key is left dangling.
\<close>

theorem delete_course_preserves_wf:
  assumes "delete_course u i d = (r, d')" and "refs_ok d" and "keys_unique d" and "pairs_unique d"
  shows "refs_ok d' \<and> keys_unique d' \<and> pairs_unique d'"
  using assms delete_course_rows_refs_ok [of d i]
  by (auto simp: delete_course_def keys_unique_def pairs_unique_def delete_course_rows_def
           split: option.splits if_splits)

theorem delete_course_preserves_wf_witness:
  "refs_ok (demo_db\<lparr>courses := [], videos := []\<rparr>)"
proof -
  have wf: "refs_ok demo_db" "keys_unique demo_db" "pairs_unique demo_db"
    unfolding refs_ok_def keys_unique_def pairs_unique_def by code_simp+
  have h: "delete_course \<lparr>su_id = Some ''tx'', su_name = None, su_role = ''TEACHER''\<rparr> ''k8s'' demo_db
     = (Inr (), demo_db\<lparr>courses := [], videos := []\<rparr>)"
    by code_simp
  from delete_course_preserves_wf [OF h wf] show ?thesis by simp
qed

end
