(* ===== verification/Users.thy ===== *)
theory Users
  imports Catalog
begin

text \<open>
  The credential store and the self-service and admin user routes of
  src/backend/routes/users.routes.js: \<open>up\<close>, \<open>okEmail\<close>,
  \<open>getCurrentUserOrThrow\<close>, \<open>POST /register\<close>, \<open>POST /login\<close>, the scoped reads
  \<open>/profile\<close>, \<open>/enrolled\<close>, \<open>/progress\<close>, \<open>/certificates\<close>, and the admin
  routes \<open>GET /\<close>, \<open>GET /:id\<close>, \<open>PUT /:id\<close>, \<open>DELETE /:id\<close>. Request bodies are
  records whose fields are absent (\<open>None\<close>) or present; numbers in bodies are the
  values \<open>Number(...)\<close> gives, taken as integers.
\<close>

section \<open>Helpers\<close>

definition allowed_roles :: "string list" where
  "allowed_roles = [''USER'', ''TEACHER'', ''ADMIN'']"

text \<open>\<open>up(v)\<close>: trimmed and upper-cased when truthy, else the empty string.\<close>

definition up :: "string option \<Rightarrow> string" where
  "up v = (if js_truthy v then js_upper (js_trim (js_str v)) else [])"

definition ok_email :: "string option \<Rightarrow> bool" where
  "ok_email e \<longleftrightarrow> (case e of None \<Rightarrow> False | Some s \<Rightarrow> js_includes s ''@'')"

text \<open>
  \<open>getCurrentUserOrThrow\<close>: by id when the request user has one, else by the e-mail
  claim; no usable identity is 401, an identity without a row is 404. The routes pass
  \<open>req.user.id\<close> and \<open>req.user.email\<close>; the middleware's \<open>req.user\<close> has no
  \<open>email\<close> field, so the second argument is \<open>None\<close> at every call site.
\<close>

definition get_current_user :: "db \<Rightarrow> string option \<Rightarrow> string option \<Rightarrow> user_row result" where
  "get_current_user d ident email =
     (if js_truthy ident then
        (case find_user d (js_str ident) of None \<Rightarrow> Inl Not_Found | Some r \<Rightarrow> Inr r)
      else
        (let e = map_option js_lower email in
         if \<not> ok_email e then Inl Unauthorized
         else (case find_user_by_email d (js_str e) of None \<Rightarrow> Inl Not_Found | Some r \<Rightarrow> Inr r)))"

definition current_user :: "db \<Rightarrow> safe_user \<Rightarrow> user_row result" where
  "current_user d u = get_current_user d (su_id u) None"

section \<open>Registration and login\<close>

record register_body =
  rb_email :: "string option"
  rb_password :: "string option"
  rb_name :: "string option"
  rb_role :: "string option"
  rb_age :: "int option"
  rb_place :: "string option"

record user_public =
  pu_id :: string
  pu_name :: string
  pu_email :: string
  pu_role :: string

definition public_of :: "user_row \<Rightarrow> user_public" where
  "public_of u = \<lparr>pu_id = u_id u, pu_name = u_name u, pu_email = u_email u, pu_role = u_role u\<rparr>"

definition register :: "int \<Rightarrow> register_body \<Rightarrow> db \<Rightarrow> user_public result \<times> db" where
  "register now b d =
     (if \<not> ok_email (rb_email b) \<or> \<not> js_truthy (rb_password b) \<or> \<not> js_truthy (rb_name b)
      then (Inl Bad_Request, d)
      else
        let e = js_lower (js_str (rb_email b));
            r = (if up (rb_role b) = [] then ''USER'' else up (rb_role b))
        in if r \<notin> set allowed_roles then (Inl Bad_Request, d)
           else if find_user_by_email d e \<noteq> None then (Inl Conflict, d)
           else
             let u = \<lparr>u_id = fresh_id (map u_id (users d)), u_email = e,
                      u_password = Bcrypt (js_str (rb_password b)), u_name = js_str (rb_name b),
                      u_role = r, u_age = rb_age b, u_place = rb_place b, u_created = now\<rparr>
             in (Inr (public_of u), d\<lparr>users := users d @ [u]\<rparr>))"

text \<open>The payload both tokens of a login carry.\<close>

definition login_payload :: "user_row \<Rightarrow> claims" where
  "login_payload u =
     no_claims\<lparr>cl_id := Some (u_id u), cl_email := Some (js_lower (u_email u)),
               cl_role := Some (up (Some (u_role u))), cl_name := Some (u_name u)\<rparr>"

record login_reply =
  lr_user :: user_public
  lr_token :: token_text
  lr_refresh :: token_text

definition login :: "request_env \<Rightarrow> string option \<Rightarrow> string option \<Rightarrow> db \<Rightarrow> login_reply result" where
  "login env email password d =
     (if \<not> ok_email email \<or> \<not> js_truthy password then Inl Bad_Request
      else (case find_user_by_email d (js_lower (js_str email)) of
              None \<Rightarrow> Inl Unauthorized
            | Some u \<Rightarrow>
                if u_password u \<noteq> Bcrypt (js_str password) then Inl Unauthorized
                else
                  let cfg = env_config env; p = login_payload u in
                  Inr \<lparr>lr_user = (public_of u)\<lparr>pu_role := up (Some (u_role u))\<rparr>,
                       lr_token = jwt_sign p (access_secret cfg) (login_access_ttl cfg) (env_now env),
                       lr_refresh = jwt_sign p (refresh_secret cfg) (refresh_ttl cfg) (env_now env)\<rparr>))"

section \<open>Reads scoped to the caller\<close>

definition profile :: "safe_user \<Rightarrow> db \<Rightarrow> user_row result" where
  "profile u d = current_user d u"

definition enrolled :: "safe_user \<Rightarrow> db \<Rightarrow> course_row list result" where
  "enrolled u d =
     ebind (current_user d u) (\<lambda>me.
       Inr (List.maps (\<lambda>e. case find_course d (e_courseId e) of None \<Rightarrow> [] | Some c \<Rightarrow> [c])
              (filter (\<lambda>e. e_userId e = u_id me) (enrollments d))))"

definition user_progress :: "safe_user \<Rightarrow> db \<Rightarrow> enrollment_row list result" where
  "user_progress u d =
     ebind (current_user d u) (\<lambda>me. Inr (filter (\<lambda>e. e_userId e = u_id me) (enrollments d)))"

definition user_certificates :: "safe_user \<Rightarrow> db \<Rightarrow> cert_row list result" where
  "user_certificates u d =
     ebind (current_user d u) (\<lambda>me. Inr (filter (\<lambda>c. ce_userId c = u_id me) (certificates d)))"

section \<open>Administration\<close>

text \<open>\<open>GET /users?search=&role=\<close>, newest first (ties keep insertion order).\<close>

definition list_users :: "string \<Rightarrow> string \<Rightarrow> db \<Rightarrow> user_row list" where
  "list_users search role d =
     sort_key (\<lambda>u. - u_created u)
       (filter (\<lambda>u. (search = [] \<or> contains_ci (u_name u) search \<or>
                          contains_ci (u_email u) (js_lower search)) \<and>
                     (role = [] \<or> u_role u = up (Some role)))
          (users d))"

definition get_user :: "string \<Rightarrow> db \<Rightarrow> user_row result" where
  "get_user i d = (case find_user d i of None \<Rightarrow> Inl Not_Found | Some r \<Rightarrow> Inr r)"

record update_body =
  ub_name :: "string option"
  ub_email :: "string option"
  ub_age :: "int option"
  ub_place :: "string option"
  ub_role :: "string option"

text \<open>\<open>nextData\<close>: the fields the update writes.\<close>

record user_patch =
  pt_name :: "string option"
  pt_email :: "string option"
  pt_age :: "int option"
  pt_place :: "string option"
  pt_role :: "string option"

definition apply_patch :: "user_patch \<Rightarrow> user_row \<Rightarrow> user_row" where
  "apply_patch p r =
     r\<lparr>u_name := case pt_name p of None \<Rightarrow> u_name r | Some n \<Rightarrow> n,
       u_email := case pt_email p of None \<Rightarrow> u_email r | Some e \<Rightarrow> e,
       u_age := case pt_age p of None \<Rightarrow> u_age r | Some a \<Rightarrow> Some a,
       u_place := case pt_place p of None \<Rightarrow> u_place r | Some s \<Rightarrow> Some s,
       u_role := case pt_role p of None \<Rightarrow> u_role r | Some x \<Rightarrow> x\<rparr>"

definition update_user :: "safe_user \<Rightarrow> string \<Rightarrow> update_body \<Rightarrow> db \<Rightarrow> user_row result \<times> db" where
  "update_user u target b d =
     (case current_user d u of
        Inl e \<Rightarrow> (Inl e, d)
      | Inr me \<Rightarrow>
          if u_role me \<noteq> ''ADMIN'' \<and> u_id me \<noteq> target then (Inl Forbidden, d)
          else
            let p0 = \<lparr>pt_name = if js_truthy (ub_name b) then ub_name b else None,
                      pt_email = if js_truthy (ub_email b) then Some (js_lower (js_str (ub_email b))) else None,
                      pt_age = ub_age b, pt_place = ub_place b, pt_role = None\<rparr>;
                set_role = js_truthy (ub_role b) \<and> u_role me = ''ADMIN''
            in if set_role \<and> up (ub_role b) \<notin> set allowed_roles then (Inl Bad_Request, d)
               else
                 let p = (if set_role then p0\<lparr>pt_role := Some (up (ub_role b))\<rparr> else p0) in
                 if (case pt_email p of None \<Rightarrow> False
                     | Some e \<Rightarrow> (case find_user_by_email d e of None \<Rightarrow> False
                                 | Some x \<Rightarrow> u_id x \<noteq> target))
                 then (Inl Conflict, d)
                 else (case find_user d target of
                         None \<Rightarrow> (Inl Server_Error, d)
                       | Some r \<Rightarrow>
                           (Inr (apply_patch p r),
                            d\<lparr>users := map (\<lambda>x. if u_id x = target then apply_patch p x else x) (users d)\<rparr>)))"

text \<open>
  \<open>DELETE /users/:id\<close> removes the row and nothing else. Prisma's default referential
  action for a required relation (the schema is not in the repository) refuses the
  delete while rows still point at the user; a refused or missing row is the
  \<open>catch\<close> branch, 500.
\<close>

definition user_referenced :: "db \<Rightarrow> string \<Rightarrow> bool" where
  "user_referenced d i \<longleftrightarrow>
     (\<exists>c \<in> set (courses d). c_teacherId c = i) \<or> (\<exists>e \<in> set (enrollments d). e_userId e = i) \<or>
     (\<exists>p \<in> set (vprogress d). p_userId p = i) \<or> (\<exists>a \<in> set (attempts d). a_userId a = i) \<or>
     (\<exists>c \<in> set (certificates d). ce_userId c = i)"

definition delete_user :: "string \<Rightarrow> db \<Rightarrow> unit result \<times> db" where
  "delete_user i d =
     (if find_user d i = None \<or> user_referenced d i then (Inl Server_Error, d)
      else (Inr (), d\<lparr>users := filter (\<lambda>x. u_id x \<noteq> i) (users d)\<rparr>))"

section \<open>The routes\<close>

definition route_register :: "int \<Rightarrow> register_body \<Rightarrow> db \<Rightarrow> user_public result \<times> db" where
  "route_register now b d = register now b d"

definition route_update_user ::
  "request_env \<Rightarrow> auth_header \<Rightarrow> string \<Rightarrow> update_body \<Rightarrow> db \<Rightarrow> user_row result \<times> db" where
  "route_update_user env h target b = guarded env h [''ADMIN'', ''USER''] (\<lambda>u. update_user u target b)"

definition route_delete_user :: "request_env \<Rightarrow> auth_header \<Rightarrow> string \<Rightarrow> db \<Rightarrow> unit result \<times> db" where
  "route_delete_user env h i = guarded env h [''ADMIN''] (\<lambda>_. delete_user i)"

definition route_profile :: "request_env \<Rightarrow> auth_header \<Rightarrow> db \<Rightarrow> user_row result" where
  "route_profile env h d = fst (guarded env h [] (\<lambda>u d. (profile u d, d)) d)"

section \<open>Example requests\<close>

text \<open>A registration body, the store after it is registered over \<open>demo_db\<close>, a student
  request user and a body that asks for the admin role.\<close>

definition demo_register_body :: register_body where
  "demo_register_body = \<lparr>rb_email = Some ''A@b.com'', rb_password = Some ''secret1'', rb_name = Some ''A'',
     rb_role = None, rb_age = None, rb_place = None\<rparr>"
definition demo_login_db :: db where
  "demo_login_db = snd (register 0 demo_register_body demo_db)"

definition demo_student :: safe_user where
  "demo_student = \<lparr>su_id = Some ''st'', su_name = None, su_role = ''USER''\<rparr>"

definition demo_promote :: update_body where
  "demo_promote = \<lparr>ub_name = None, ub_email = None, ub_age = None, ub_place = None, ub_role = Some ''admin''\<rparr>"

section \<open>Properties\<close>

lemma up_upper [simp]: "js_upper (up v) = up v"
  by (simp add: up_def)

lemma find_user_by_email_append:
  "find_user_by_email d e = None \<Longrightarrow> u_email u = e \<Longrightarrow>
   find_user_by_email (d\<lparr>users := users d @ [u]\<rparr>) e = Some u"
  by (simp add: find_user_by_email_def find_None_iff find_append_fresh)

lemma register_Inr:
  assumes "register now b d = (Inr p, d1)"
  shows "\<exists>u. d1 = d\<lparr>users := users d @ [u]\<rparr> \<and> p = public_of u \<and>
           ok_email (rb_email b) \<and> js_truthy (rb_password b) \<and> js_truthy (rb_name b) \<and>
           u_email u = js_lower (js_str (rb_email b)) \<and> u_password u = Bcrypt (js_str (rb_password b)) \<and>
           u_id u = fresh_id (map u_id (users d)) \<and> u_role u \<in> set allowed_roles \<and>
           u_role u = (if up (rb_role b) = [] then ''USER'' else up (rb_role b)) \<and>
           find_user_by_email d (u_email u) = None"
  using assms by (auto simp: register_def Let_def split: if_splits)

lemma login_Inr_token:
  assumes "login env e pw d = Inr r"
  shows "\<exists>u. find_user_by_email d (js_lower (js_str e)) = Some u \<and>
           lr_user r = (public_of u)\<lparr>pu_role := up (Some (u_role u))\<rparr> \<and>
           lr_token r = jwt_sign (login_payload u) (access_secret (env_config env)) (login_access_ttl (env_config env)) (env_now env) \<and>
           lr_refresh r = jwt_sign (login_payload u) (refresh_secret (env_config env)) (refresh_ttl (env_config env)) (env_now env)"
  using assms by (auto simp: login_def Let_def split: if_splits option.splits)

lemma login_token_auth:
  assumes "login env e pw d = Inr r" and "pu_id (lr_user r) \<noteq> []"
    and "env_config env' = env_config env" and "env_now env' < env_now env + login_access_ttl (env_config env)"
    and "lr_token r \<notin> set (env_blacklist env')"
  shows "\<exists>n. auth env' (Bearer (lr_token r)) =
           Inr \<lparr>su_id = Some (pu_id (lr_user r)), su_name = n, su_role = pu_role (lr_user r)\<rparr>"
proof -
  from login_Inr_token [OF assms(1)] obtain u where
    tok: "lr_token r = jwt_sign (login_payload u) (access_secret (env_config env)) (login_access_ttl (env_config env)) (env_now env)"
    and usr: "lr_user r = (public_of u)\<lparr>pu_role := up (Some (u_role u))\<rparr>"
    by blast
  from usr assms(2) have "u_id u \<noteq> []" by (simp add: public_of_def)
  with tok usr assms(3-5) show ?thesis
    by (simp add: auth_def to_safe_user_def login_payload_def no_claims_def public_of_def)
qed

text \<open>C18. An access token issued by a successful login is accepted by the authentication middleware within its lifetime, unless it is blacklisted, and the middleware's request user carries the logged-in user's id and upper-cased role.\<close>

theorem auth_accepts_login_token:
  assumes "login env e pw d = Inr r" and "pu_id (lr_user r) \<noteq> []"
    and "env_config env' = env_config env" and "env_now env' < env_now env + login_access_ttl (env_config env)"
    and "lr_token r \<notin> set (env_blacklist env')"
  shows "\<exists>n. auth env' (Bearer (lr_token r)) =
           Inr \<lparr>su_id = Some (pu_id (lr_user r)), su_name = n, su_role = pu_role (lr_user r)\<rparr>"
  using assms by (rule login_token_auth)

lemma regenerated_token_unauthorized:
  assumes "login env e pw d = Inr r" and "regenerate_token env' (Bearer (lr_refresh r)) = Inr t"
  shows "auth env'' (Bearer t) = Inl Unauthorized"
proof -
  from login_Inr_token [OF assms(1)] obtain u where
    "lr_refresh r = jwt_sign (login_payload u) (refresh_secret (env_config env)) (refresh_ttl (env_config env)) (env_now env)"
    by blast
  with assms(2) have "\<exists>c. t = jwt_sign c (access_secret (env_config env')) (regen_access_ttl (env_config env')) (env_now env') \<and> cl_userId c = None \<and> cl_id c = None"
    by (auto simp: regenerate_token_def login_payload_def no_claims_def split: if_splits option.splits)
  then show ?thesis
    by (auto simp: auth_def to_safe_user_def Let_def split: option.splits if_splits)
qed

text \<open>C19. An access token produced by GET /regenerateToken from a login's refresh token is always rejected by the middleware with 401: the refreshed payload carries userId, which login never writes, so toSafeUser finds no id.\<close>

theorem regenerated_token_rejected:
  assumes "login env e pw d = Inr r" and "regenerate_token env' (Bearer (lr_refresh r)) = Inr t"
  shows "auth env'' (Bearer t) = Inl Unauthorized"
  using assms by (rule regenerated_token_unauthorized)

text \<open>A refresh token is not an access token: when the two secrets differ, the middleware rejects a login's refresh token with 401.\<close>

theorem refresh_token_not_access:
  assumes "login env e pw d = Inr r" and "access_secret (env_config env') \<noteq> refresh_secret (env_config env)"
  shows "auth env' (Bearer (lr_refresh r)) = Inl Unauthorized"
  using login_Inr_token [OF assms(1)] assms(2)
  by (auto simp: auth_def split: option.splits)

text \<open>C20. After a successful registration, logging in with the same e-mail and password succeeds and returns the registered user's id and role.\<close>

theorem register_then_login:
  assumes "register now b d = (Inr p, d1)"
  shows "\<exists>r. login env (rb_email b) (rb_password b) d1 = Inr r \<and> pu_id (lr_user r) = pu_id p \<and>
             pu_role (lr_user r) = pu_role p"
proof -
  from register_Inr [OF assms] obtain u where
    d1: "d1 = d\<lparr>users := users d @ [u]\<rparr>" and p: "p = public_of u"
    and ok: "ok_email (rb_email b)" "js_truthy (rb_password b)"
    and em: "u_email u = js_lower (js_str (rb_email b))"
    and pw: "u_password u = Bcrypt (js_str (rb_password b))"
    and role: "u_role u \<in> set allowed_roles"
    and fresh: "find_user_by_email d (u_email u) = None"
    by blast
  have f: "find_user_by_email d1 (js_lower (js_str (rb_email b))) = Some u"
    using find_user_by_email_append [OF fresh] em d1 by simp
  have "up (Some (u_role u)) = u_role u"
    using role unfolding allowed_roles_def by (auto, code_simp+)
  with f ok pw p show ?thesis
    by (simp add: login_def Let_def public_of_def)
qed

lemma demo_register:
  "register 0 demo_register_body demo_db = (Inr (projr (fst (register 0 demo_register_body demo_db))), demo_login_db)"
  unfolding demo_login_db_def by code_simp

lemma demo_db_wf: "keys_unique demo_db" "refs_ok demo_db" "owners_teach demo_db"
  unfolding keys_unique_def refs_ok_def owners_teach_def teaching_role_def by code_simp+

lemma demo_login:
  "login demo_env (Some ''A@b.com'') (Some ''secret1'') demo_login_db =
     Inr (projr (login demo_env (Some ''A@b.com'') (Some ''secret1'') demo_login_db))"
  by code_simp

theorem auth_accepts_login_token_witness:
  "\<exists>n. auth demo_env (Bearer (lr_token (projr (login demo_env (Some ''A@b.com'') (Some ''secret1'') demo_login_db)))) =
     Inr \<lparr>su_id = Some (pu_id (lr_user (projr (login demo_env (Some ''A@b.com'') (Some ''secret1'') demo_login_db)))),
          su_name = n, su_role = pu_role (lr_user (projr (login demo_env (Some ''A@b.com'') (Some ''secret1'') demo_login_db))) \<rparr>"
proof (rule auth_accepts_login_token [OF demo_login])
  show "pu_id (lr_user (projr (login demo_env (Some ''A@b.com'') (Some ''secret1'') demo_login_db))) \<noteq> []"
    by code_simp
  show "lr_token (projr (login demo_env (Some ''A@b.com'') (Some ''secret1'') demo_login_db)) \<notin> set (env_blacklist demo_env)"
    by (simp add: demo_env_def)
qed (simp_all add: demo_env_def default_config_def)

theorem regenerated_token_rejected_witness:
  "auth demo_env (Bearer (projr (regenerate_token demo_env
      (Bearer (lr_refresh (projr (login demo_env (Some ''A@b.com'') (Some ''secret1'') demo_login_db))))))) = Inl Unauthorized"
proof -
  have g: "regenerate_token demo_env (Bearer (lr_refresh (projr (login demo_env (Some ''A@b.com'') (Some ''secret1'') demo_login_db)))) =
     Inr (projr (regenerate_token demo_env (Bearer (lr_refresh (projr (login demo_env (Some ''A@b.com'') (Some ''secret1'') demo_login_db))))))"
    by code_simp
  show ?thesis by (rule regenerated_token_rejected [OF demo_login g])
qed

theorem refresh_token_not_access_witness:
  "auth demo_env (Bearer (lr_refresh (projr (login demo_env (Some ''A@b.com'') (Some ''secret1'') demo_login_db)))) = Inl Unauthorized"
  by (rule refresh_token_not_access [OF demo_login]) (simp add: demo_env_def default_config_def)

theorem register_then_login_witness:
  "\<exists>r. login demo_env (Some ''A@b.com'') (Some ''secret1'') demo_login_db = Inr r \<and> pu_role (lr_user r) = ''USER''"
proof -
  have role: "pu_role (projr (fst (register 0 demo_register_body demo_db))) = ''USER''" by code_simp
  from register_then_login [OF demo_register, of demo_env] role show ?thesis by (simp add: demo_register_body_def) blast
qed

text \<open>C21. Registering the same body a second time fails with 409 and leaves the store unchanged: e-mails are unique.\<close>

theorem register_duplicate_conflict:
  assumes "register now b d = (Inr p, d1)"
  shows "register now' b d1 = (Inl Conflict, d1)"
proof -
  from register_Inr [OF assms] obtain u where
    d1: "d1 = d\<lparr>users := users d @ [u]\<rparr>"
    and ok: "ok_email (rb_email b)" "js_truthy (rb_password b)" "js_truthy (rb_name b)"
    and em: "u_email u = js_lower (js_str (rb_email b))"
    and role: "u_role u \<in> set allowed_roles"
    and r: "u_role u = (if up (rb_role b) = [] then ''USER'' else up (rb_role b))"
    and fresh: "find_user_by_email d (u_email u) = None"
    by blast
  from find_user_by_email_append [OF fresh] d1 em
  have "find_user_by_email d1 (js_lower (js_str (rb_email b))) \<noteq> None" by simp
  with ok role r show ?thesis by (simp add: register_def Let_def)
qed

text \<open>Registration accepts any caller-chosen role: a well-formed registration asking for role admin creates an ADMIN account.\<close>

theorem register_self_admin:
  assumes "ok_email (rb_email b)" and "js_truthy (rb_password b)" and "js_truthy (rb_name b)"
    and "find_user_by_email d (js_lower (js_str (rb_email b))) = None"
  shows "\<exists>p d1. register now (b\<lparr>rb_role := Some ''admin''\<rparr>) d = (Inr p, d1) \<and> pu_role p = ''ADMIN''"
proof -
  have "up (Some ''admin'') = ''ADMIN''" by code_simp
  with assms show ?thesis by (simp add: register_def Let_def allowed_roles_def public_of_def)
qed

text \<open>Registration preserves the store invariants: unique keys, referential integrity and that every course owner teaches.\<close>

theorem register_preserves_wf:
  assumes "register now b d = (r, d1)" and "keys_unique d" and "refs_ok d" and "owners_teach d"
  shows "keys_unique d1 \<and> refs_ok d1 \<and> owners_teach d1"
proof (cases r)
  case (Inl e)
  with assms show ?thesis by (auto simp: register_def Let_def split: if_splits)
next
  case (Inr p)
  with register_Inr assms(1) obtain u where
    d1: "d1 = d\<lparr>users := users d @ [u]\<rparr>" and id: "u_id u = fresh_id (map u_id (users d))"
    and fresh: "find_user_by_email d (u_email u) = None"
    by blast
  from fresh have "u_email u \<notin> set (map u_email (users d))"
    by (auto simp: find_user_by_email_def find_None_iff)
  moreover from id have "u_id u \<notin> set (map u_id (users d))"
    using fresh_id_notin [of "map u_id (users d)"] by simp
  ultimately show ?thesis using assms(2-4) d1
    by (auto simp: keys_unique_def refs_ok_def owners_teach_def)
qed

text \<open>PUT /users/:id answers 403 to every authenticated TEACHER, even for the teacher's own account, because the route requires ADMIN or USER.\<close>

theorem update_user_teacher_forbidden:
  assumes "auth env h = Inr u" and "su_role u = ''TEACHER''"
  shows "route_update_user env h target b d = (Inl Forbidden, d)"
  using assms auth_role_upper [OF assms(1)]
  by (simp add: route_update_user_def guarded_def requires_def Let_def)

text \<open>C22. A successful user update by a non-admin concerns the caller's own account and changes no user's role.\<close>

theorem update_user_role_admin_only:
  assumes "update_user u target b d = (Inr r, d1)" and "current_user d u = Inr me"
    and "u_role me \<noteq> ''ADMIN''"
  shows "map u_role (users d1) = map u_role (users d) \<and> target = u_id me"
  using assms
  by (auto simp: update_user_def Let_def apply_patch_def split: if_splits option.splits)


text \<open>Deleting a user preserves referential integrity and the owner invariant: a user still referenced by a course, enrollment, progress row, attempt or certificate is not deleted (the database raises, 500).\<close>

theorem delete_user_preserves_wf:
  assumes "delete_user i d = (r, d1)" and "refs_ok d" and "owners_teach d"
  shows "refs_ok d1 \<and> owners_teach d1"
  using assms
  by (auto simp: delete_user_def user_referenced_def refs_ok_def owners_teach_def image_iff
           split: if_splits) (fastforce+)

theorem register_duplicate_conflict_witness:
  "register 20 demo_register_body demo_login_db = (Inl Conflict, demo_login_db)"
  by (rule register_duplicate_conflict [OF demo_register])

theorem register_self_admin_witness:
  "\<exists>p d1. register 0 (demo_register_body\<lparr>rb_role := Some ''admin''\<rparr>) demo_db = (Inr p, d1) \<and> pu_role p = ''ADMIN''"
  by (rule register_self_admin) code_simp+

theorem register_preserves_wf_witness:
  "keys_unique demo_login_db \<and> refs_ok demo_login_db \<and> owners_teach demo_login_db"
  by (rule register_preserves_wf [OF demo_register demo_db_wf])

theorem update_user_teacher_forbidden_witness:
  "route_update_user demo_env (Bearer (demo_token ''ty'' ''TEACHER'')) ''ty''
     \<lparr>ub_name = Some ''T'', ub_email = None, ub_age = None, ub_place = None, ub_role = None\<rparr> demo_db
   = (Inl Forbidden, demo_db)"
  by (rule update_user_teacher_forbidden [OF demo_token_auth(1)]) simp

theorem update_user_role_admin_only_witness:
  "map u_role (users (snd (update_user demo_student ''st'' demo_promote demo_db))) = map u_role (users demo_db) \<and>
   ''st'' = u_id (projr (current_user demo_db demo_student))"
proof (rule update_user_role_admin_only)
  show "update_user demo_student ''st'' demo_promote demo_db =
     (Inr (projr (fst (update_user demo_student ''st'' demo_promote demo_db))), snd (update_user demo_student ''st'' demo_promote demo_db))"
    by code_simp
  show "current_user demo_db demo_student = Inr (projr (current_user demo_db demo_student))" by code_simp
  show "u_role (projr (current_user demo_db demo_student)) \<noteq> ''ADMIN''" by code_simp
qed

theorem delete_user_preserves_wf_witness:
  "refs_ok (snd (delete_user ''st'' demo_db)) \<and> owners_teach (snd (delete_user ''st'' demo_db))"
  by (rule delete_user_preserves_wf [OF prod.collapse [symmetric] demo_db_wf(2,3)])

end
