(* ===== verification/Progress.thy ===== *)
theory Progress
  imports Catalog
begin

text \<open>
  The enrollment and progress engine: \<open>POST /courses/:id/enroll\<close> and
  \<open>GET /courses/:id/progress\<close> of src/backend/routes/courses.route.js,
  \<open>POST /videos/:id/watched\<close> and \<open>GET /videos/:id/progress\<close> of
  src/backend/routes/videos.route.js.

  All four handlers take the student from \<open>req.user.userId\<close>. The middleware builds
  \<open>req.user\<close> as \<open>{id, name, role}\<close>, so that property is \<open>undefined\<close>. The
  handlers are therefore defined over the student id as a \<open>string option\<close>, with
  \<open>None\<close> for \<open>undefined\<close>, and the routes apply them to \<open>None\<close>. Prisma treats an
  \<open>undefined\<close> filter value as no filter, and refuses a \<open>create\<close>, an \<open>upsert\<close> or a
  compound-key \<open>findUnique\<close> whose key field is \<open>undefined\<close> (a validation error,
  caught as 500).
\<close>

section \<open>Enrollment\<close>

text \<open>Prisma's \<open>where: {userId, ...}\<close> with a possibly undefined value.\<close>

definition where_eq :: "string option \<Rightarrow> string \<Rightarrow> bool" where
  "where_eq v x \<longleftrightarrow> (case v of None \<Rightarrow> True | Some y \<Rightarrow> x = y)"

definition enroll :: "int \<Rightarrow> string option \<Rightarrow> string \<Rightarrow> db \<Rightarrow> enrollment_row result \<times> db" where
  "enroll now uid cid d =
     (case find_course d cid of
        None \<Rightarrow> (Inl Not_Found, d)
      | Some _ \<Rightarrow>
          if (\<exists>e \<in> set (enrollments d). where_eq uid (e_userId e) \<and> e_courseId e = cid)
          then (Inl Bad_Request, d)
          else (case uid of
                  None \<Rightarrow> (Inl Server_Error, d)
                | Some x \<Rightarrow>
                    if find_user d x = None then (Inl Server_Error, d)
                    else
                      let e = \<lparr>e_id = fresh_id (map e_id (enrollments d)), e_userId = x,
                               e_courseId = cid, e_progress = 0, e_status = ''ACTIVE'',
                               e_created = now\<rparr>
                      in (Inr e, d\<lparr>enrollments := enrollments d @ [e]\<rparr>)))"

section \<open>Watching videos\<close>

text \<open>
  \<open>upsert\<close> on the compound key \<open>userId_videoId\<close>: set \<open>watched\<close> on the row of
  the pair, or append one.
\<close>

definition upsert_watched :: "string \<Rightarrow> string \<Rightarrow> progress_row list \<Rightarrow> progress_row list" where
  "upsert_watched x vid ps =
     (if (\<exists>p \<in> set ps. p_userId p = x \<and> p_videoId p = vid)
      then map (\<lambda>p. if p_userId p = x \<and> p_videoId p = vid then p\<lparr>p_watched := True\<rparr> else p) ps
      else ps @ [\<lparr>p_userId = x, p_videoId = vid, p_watched = True\<rparr>])"

definition mark_watched :: "string option \<Rightarrow> string \<Rightarrow> db \<Rightarrow> progress_row result \<times> db" where
  "mark_watched uid vid d =
     (case find_video d vid of
        None \<Rightarrow> (Inl Not_Found, d)
      | Some _ \<Rightarrow>
          (case uid of
             None \<Rightarrow> (Inl Server_Error, d)
           | Some x \<Rightarrow>
               if find_user d x = None then (Inl Server_Error, d)
               else (Inr \<lparr>p_userId = x, p_videoId = vid, p_watched = True\<rparr>,
                     d\<lparr>vprogress := upsert_watched x vid (vprogress d)\<rparr>)))"

text \<open>\<open>GET /videos/:id/progress\<close>: \<open>watched\<close> of the pair's row, false without one.\<close>

definition video_progress :: "string option \<Rightarrow> string \<Rightarrow> db \<Rightarrow> bool result" where
  "video_progress uid vid d =
     (case uid of
        None \<Rightarrow> Inl Server_Error
      | Some x \<Rightarrow> Inr (\<exists>p \<in> set (vprogress d). p_userId p = x \<and> p_videoId p = vid \<and> p_watched p))"

section \<open>Course progress\<close>

text \<open>
  \<open>completionRate\<close> is \<open>((completed / total) * 100).toFixed(1)\<close>, or \<open>"0.0"\<close> for
  a course without videos. In tenths of a percent, \<open>toFixed\<close> rounds the exact
  quotient half up: \<open>(2000 * k + n) div (2 * n)\<close> for \<open>k\<close> of \<open>n\<close> watched.
\<close>

definition rate_tenths :: "nat \<Rightarrow> nat \<Rightarrow> nat" where
  "rate_tenths k n = (2000 * k + n) div (2 * n)"

definition completion_rate :: "nat \<Rightarrow> nat \<Rightarrow> string" where
  "completion_rate k n = (if 0 < n then fixed1 (rate_tenths k n) else ''0.0'')"

record course_progress =
  cpr_courseId :: string
  cpr_rate :: string
  cpr_videos :: "(string \<times> bool) list"

definition course_progress :: "string option \<Rightarrow> string \<Rightarrow> db \<Rightarrow> course_progress result" where
  "course_progress uid cid d =
     (let vs = filter (\<lambda>v. v_courseId v = cid) (videos d);
          watchedIds = map p_videoId (filter p_watched (filter (\<lambda>p. where_eq uid (p_userId p)) (vprogress d)));
          prog = map (\<lambda>v. (v_id v, v_id v \<in> set watchedIds)) vs;
          completed = length (filter snd prog)
      in Inr \<lparr>cpr_courseId = cid, cpr_rate = completion_rate completed (length vs), cpr_videos = prog\<rparr>)"

section \<open>The routes\<close>

definition route_enroll :: "request_env \<Rightarrow> auth_header \<Rightarrow> string \<Rightarrow> db \<Rightarrow> enrollment_row result \<times> db" where
  "route_enroll env h cid = guarded env h [] (\<lambda>u. enroll (env_now env) None cid)"


definition route_mark_watched :: "request_env \<Rightarrow> auth_header \<Rightarrow> string \<Rightarrow> db \<Rightarrow> progress_row result \<times> db" where
  "route_mark_watched env h vid = guarded env h [] (\<lambda>u. mark_watched None vid)"

definition route_video_progress :: "request_env \<Rightarrow> auth_header \<Rightarrow> string \<Rightarrow> db \<Rightarrow> bool result" where
  "route_video_progress env h vid d = fst (guarded env h [] (\<lambda>u d. (video_progress None vid d, d)) d)"

section \<open>Example data\<close>

text \<open>The catalog example with one progress row: teacher \<open>ty\<close> has watched \<open>v1\<close>, student \<open>st\<close> has not.\<close>

definition demo_progress_db :: db where
  "demo_progress_db = demo_db\<lparr>vprogress := [\<lparr>p_userId = ''ty'', p_videoId = ''v1'', p_watched = True\<rparr>]\<rparr>"

section \<open>Properties\<close>

lemma map_mark_idem:
  "map (\<lambda>p. if P p then p\<lparr>p_watched := True\<rparr> else p) (map (\<lambda>p. if P p then p\<lparr>p_watched := True\<rparr> else p) ps)
   = map (\<lambda>p. if P p then p\<lparr>p_watched := True\<rparr> else p) ps"
  by (induction ps) auto

lemma map_mark_id: "\<forall>p \<in> set ps. \<not> P p \<Longrightarrow> map (\<lambda>p. if P p then p\<lparr>p_watched := True\<rparr> else p) ps = ps"
  by (induction ps) auto

lemma upsert_watched_has: "\<exists>p \<in> set (upsert_watched x vid ps). p_userId p = x \<and> p_videoId p = vid"
proof (cases "\<exists>p \<in> set ps. p_userId p = x \<and> p_videoId p = vid")
  case True
  then obtain p where p: "p \<in> set ps" "p_userId p = x" "p_videoId p = vid" by blast
  then have "p\<lparr>p_watched := True\<rparr> \<in> set (upsert_watched x vid ps)"
    using True by (force simp: upsert_watched_def)
  with p show ?thesis by (intro bexI [where x = "p\<lparr>p_watched := True\<rparr>"]) simp_all
next
  case False
  then show ?thesis by (auto simp: upsert_watched_def)
qed

lemma upsert_watched_idem: "upsert_watched x vid (upsert_watched x vid ps) = upsert_watched x vid ps"
proof -
  have "upsert_watched x vid (upsert_watched x vid ps) =
        map (\<lambda>p. if p_userId p = x \<and> p_videoId p = vid then p\<lparr>p_watched := True\<rparr> else p) (upsert_watched x vid ps)"
    using upsert_watched_has [of x vid ps] by (simp add: upsert_watched_def [of x vid "upsert_watched x vid ps"])
  also have "\<dots> = upsert_watched x vid ps"
    by (simp add: upsert_watched_def map_mark_idem map_mark_id)
  finally show ?thesis .
qed

lemma map_pair_mark [simp]: "map ((\<lambda>p. (p_userId p, p_videoId p)) \<circ>
    (\<lambda>p. if P p then p\<lparr>p_watched := True\<rparr> else p)) ps = map (\<lambda>p. (p_userId p, p_videoId p)) ps"
  by (induction ps) auto

lemma upsert_watched_pairs:
  "distinct (map (\<lambda>p. (p_userId p, p_videoId p)) ps) \<Longrightarrow>
   distinct (map (\<lambda>p. (p_userId p, p_videoId p)) (upsert_watched x vid ps))"
  by (auto simp: upsert_watched_def map_pair_mark image_iff)

lemma upsert_watched_row:
  "distinct (map (\<lambda>p. (p_userId p, p_videoId p)) ps) \<Longrightarrow>
   filter (\<lambda>p. p_userId p = x \<and> p_videoId p = vid) (upsert_watched x vid ps) =
     [\<lparr>p_userId = x, p_videoId = vid, p_watched = True\<rparr>]"
proof (induction ps)
  case Nil
  then show ?case by (simp add: upsert_watched_def)
next
  case (Cons q ps)
  then show ?case
    by (cases q) (auto simp: upsert_watched_def filter_empty_conv image_iff split: if_splits)
qed

lemma find_user_upd_vprogress [simp]: "find_user (d\<lparr>vprogress := ps\<rparr>) x = find_user d x"
  and find_video_upd_vprogress [simp]: "find_video (d\<lparr>vprogress := ps\<rparr>) v = find_video d v"
  by (simp_all add: find_user_def find_video_def)

text \<open>
  C12. Enrolling the same student twice: if the first enrollment succeeds, the second
  answers 400 ("Already enrolled") and leaves the store alone, and the store holds
  exactly one enrollment of the pair.
\<close>

theorem enroll_twice:
  assumes "enroll now (Some x) cid d = (Inr e, d1)"
  shows "enroll now' (Some x) cid d1 = (Inl Bad_Request, d1) \<and>
         filter (\<lambda>e. e_userId e = x \<and> e_courseId e = cid) (enrollments d1) = [e]"
proof -
  from assms have none: "\<forall>e \<in> set (enrollments d). \<not> (e_userId e = x \<and> e_courseId e = cid)"
    and c: "find_course d cid \<noteq> None"
    and d1: "d1 = d\<lparr>enrollments := enrollments d @ [e]\<rparr>" and ex: "e_userId e = x \<and> e_courseId e = cid"
    by (auto simp: enroll_def where_eq_def Let_def split: option.splits if_splits)
  from c d1 have "find_course d1 cid \<noteq> None" by (simp add: find_course_def)
  with ex d1 have "enroll now' (Some x) cid d1 = (Inl Bad_Request, d1)"
    by (auto simp: enroll_def where_eq_def)
  moreover from none d1 ex have "filter (\<lambda>e. e_userId e = x \<and> e_courseId e = cid) (enrollments d1) = [e]"
    by (simp add: filter_empty_conv)
  ultimately show ?thesis by blast
qed

theorem enroll_twice_witness:
  "enroll 5 (Some ''st'') ''k8s''
     (snd (enroll 4 (Some ''st'') ''k8s'' demo_db)) = (Inl Bad_Request, snd (enroll 4 (Some ''st'') ''k8s'' demo_db))"
proof -
  have f: "fst (enroll 4 (Some ''st'') ''k8s'' demo_db) =
      Inr \<lparr>e_id = ''c'', e_userId = ''st'', e_courseId = ''k8s'', e_progress = 0,
           e_status = ''ACTIVE'', e_created = 4\<rparr>"
    by code_simp
  then have h: "enroll 4 (Some ''st'') ''k8s'' demo_db =
      (Inr \<lparr>e_id = ''c'', e_userId = ''st'', e_courseId = ''k8s'', e_progress = 0,
           e_status = ''ACTIVE'', e_created = 4\<rparr>, snd (enroll 4 (Some ''st'') ''k8s'' demo_db))"
    by (metis prod.collapse)
  from enroll_twice [OF h, of 5] h show ?thesis by simp
qed

text \<open>
  C13. Through the real routes no student operation ever succeeds: the middleware's
  \<open>req.user\<close> has no \<open>userId\<close>, so enrolling and marking a video watched never
  create a row and never answer success, and reading a video's progress never succeeds.
\<close>

theorem student_routes_never_succeed:
  "(\<forall>e. fst (route_enroll env h cid d) \<noteq> Inr e) \<and> snd (route_enroll env h cid d) = d \<and>
   (\<forall>p. fst (route_mark_watched env h vid d) \<noteq> Inr p) \<and> snd (route_mark_watched env h vid d) = d \<and>
   (\<forall>b. route_video_progress env h vid d \<noteq> Inr b)"
  by (auto simp: route_enroll_def route_mark_watched_def route_video_progress_def guarded_def
                 enroll_def mark_watched_def video_progress_def where_eq_def
           split: sum.splits option.splits if_splits)

text \<open>
  C14. Marking a video watched is idempotent: a second identical request answers the
  same and leaves the store as the first left it, on every branch.
\<close>

theorem mark_watched_idempotent:
  assumes "mark_watched uid vid d = (r, d1)"
  shows "mark_watched uid vid d1 = (r, d1)"
  using assms
  by (auto simp: mark_watched_def upsert_watched_idem split: option.splits if_splits)

theorem mark_watched_idempotent_witness:
  "mark_watched (Some ''st'') ''v1'' (snd (mark_watched (Some ''st'') ''v1'' demo_db)) =
   mark_watched (Some ''st'') ''v1'' demo_db"
proof -
  obtain r d1 where h: "mark_watched (Some ''st'') ''v1'' demo_db = (r, d1)" by fastforce
  from mark_watched_idempotent [OF h] h show ?thesis by simp
qed

text \<open>
  After a successful watch event the store holds exactly one progress row for the
  (student, video) pair, with \<open>watched\<close> set, and progress pairs stay unique.
\<close>

theorem mark_watched_one_row:
  assumes "mark_watched (Some x) vid d = (Inr p, d1)" and "pairs_unique d"
  shows "filter (\<lambda>p. p_userId p = x \<and> p_videoId p = vid) (vprogress d1) =
           [\<lparr>p_userId = x, p_videoId = vid, p_watched = True\<rparr>] \<and> pairs_unique d1"
  using assms upsert_watched_row [of "vprogress d" x vid] upsert_watched_pairs [of "vprogress d" x vid]
  by (auto simp: mark_watched_def pairs_unique_def split: option.splits if_splits)

theorem mark_watched_one_row_witness:
  "filter (\<lambda>p. p_userId p = ''st'' \<and> p_videoId p = ''v1'') (vprogress (snd (mark_watched (Some ''st'') ''v1'' demo_progress_db)))
     = [\<lparr>p_userId = ''st'', p_videoId = ''v1'', p_watched = True\<rparr>]"
proof -
  have h: "mark_watched (Some ''st'') ''v1'' demo_progress_db =
      (Inr \<lparr>p_userId = ''st'', p_videoId = ''v1'', p_watched = True\<rparr>,
       snd (mark_watched (Some ''st'') ''v1'' demo_progress_db))"
    by code_simp
  have u: "pairs_unique demo_progress_db"
    unfolding pairs_unique_def by code_simp
  from mark_watched_one_row [OF h u] show ?thesis by simp
qed


lemma rate_tenths_le:
  assumes "k \<le> n" and "0 < n"
  shows "rate_tenths k n \<le> 1000"
proof -
  from assms have "2000 * k + n < 1001 * (2 * n)" by simp
  then have "(2000 * k + n) div (2 * n) < 1001" by (rule less_mult_imp_div_less)
  then show ?thesis by (simp add: rate_tenths_def)
qed

lemma rate_tenths_all: "0 < n \<Longrightarrow> rate_tenths n n = 1000"
  by (simp add: rate_tenths_def)


text \<open>
  The rate lies between 0 and 100 percent, and a course whose videos are all watched
  reports \<open>"100.0"\<close>.
\<close>

theorem completion_rate_bounds:
  assumes "k \<le> n" and "0 < n"
  shows "rate_tenths k n \<le> 1000 \<and> completion_rate n n = ''100.0''"
proof -
  have "fixed1 1000 = ''100.0''" by code_simp
  with assms have "completion_rate n n = ''100.0''"
    by (simp add: completion_rate_def rate_tenths_def)
  with rate_tenths_le [OF assms] show ?thesis by simp
qed

theorem completion_rate_bounds_witness: "rate_tenths 2 3 \<le> 1000 \<and> completion_rate 3 3 = ''100.0''"
  using completion_rate_bounds [of 2 3] by simp

text \<open>
  C16. For a given student, the course progress lists exactly the course's videos, marks
  each watched exactly when that student has a watched row for it (rows of other videos
  and other students do not count), and reports the rate of the marks it lists.
\<close>

theorem course_progress_scoped:
  assumes "course_progress (Some x) cid d = Inr r"
  shows "map fst (cpr_videos r) = map v_id (filter (\<lambda>v. v_courseId v = cid) (videos d)) \<and>
         (\<forall>(i, w) \<in> set (cpr_videos r).
            w \<longleftrightarrow> (\<exists>p \<in> set (vprogress d). p_userId p = x \<and> p_videoId p = i \<and> p_watched p)) \<and>
         cpr_rate r = completion_rate (length (filter snd (cpr_videos r))) (length (cpr_videos r))"
proof -
  let ?vs = "filter (\<lambda>v. v_courseId v = cid) (videos d)"
  let ?w = "\<lambda>i. \<exists>p \<in> set (vprogress d). p_userId p = x \<and> p_videoId p = i \<and> p_watched p"
  have w: "\<And>i. i \<in> set (map p_videoId (filter p_watched (filter (\<lambda>p. where_eq (Some x) (p_userId p)) (vprogress d)))) \<longleftrightarrow> ?w i"
    by (auto simp: where_eq_def)
  from assms have r: "r = \<lparr>cpr_courseId = cid,
      cpr_rate = completion_rate (length (filter snd (map (\<lambda>v. (v_id v, ?w (v_id v))) ?vs))) (length ?vs),
      cpr_videos = map (\<lambda>v. (v_id v, ?w (v_id v))) ?vs\<rparr>"
    unfolding course_progress_def Let_def w by simp
  show ?thesis by (auto simp: r)
qed

theorem course_progress_scoped_witness:
  "map fst (cpr_videos (projr (course_progress (Some ''st'') ''k8s'' demo_progress_db))) = [''v1''] \<and>
   cpr_rate (projr (course_progress (Some ''st'') ''k8s'' demo_progress_db)) = ''0.0''"
proof -
  have h: "course_progress (Some ''st'') ''k8s'' demo_progress_db =
      Inr (projr (course_progress (Some ''st'') ''k8s'' demo_progress_db))"
    by (simp add: course_progress_def Let_def)
  have "map v_id (filter (\<lambda>v. v_courseId v = ''k8s'') (videos demo_progress_db)) = [''v1'']"
    by code_simp
  moreover have "cpr_rate (projr (course_progress (Some ''st'') ''k8s'' demo_progress_db)) = ''0.0''"
    by code_simp
  ultimately show ?thesis using course_progress_scoped [OF h] by simp
qed



end
