(* ===== verification/Session.thy ===== *)
theory Session
  imports Users
begin

text \<open>
  The browser side of a session: the Redux user slice of
  src/frontend/src/Redux/UserReducer (reducer.js, action.js, actionType.js), the
  \<open>localStorage\<close> keys it shares with the API client (\<open>user\<close>, \<open>token\<close>,
  \<open>refreshToken\<close>), the login and sign-up forms (components/LogIn.jsx,
  components/SignUp.jsx), the three logout buttons (AdminNavTop.jsx, TeacherNavTop.jsx,
  UserComponents/UserNavbar.jsx) and the route guard routes/PrivateRoutes.jsx with the
  role helpers of utils/roles.jsx and App.js.

  A JavaScript object whose keys may be absent is a record of \<open>option\<close> fields
  (\<open>None\<close> is \<open>undefined\<close> or \<open>null\<close>, which every reader here treats alike). A
  token string is a \<open>token_text\<close> of the backend model; the empty string is
  \<open>Malformed []\<close>. The reducer is a step function from the state object and an
  action to the next state and the storage it leaves; a thunk or an event handler
  composes such steps with the backend handler it calls.
\<close>

section \<open>Roles and names\<close>

text \<open>\<open>normalizeRole\<close> of utils/roles.jsx: \<open>null\<close> for anything but the three roles.\<close>

definition roles_normalize :: "string option \<Rightarrow> string option" where
  "roles_normalize v =
     (if \<not> js_truthy v then None
      else let s = js_upper (js_trim (js_str v)) in
           if s \<in> set [''ADMIN'', ''TEACHER'', ''USER''] then Some s else None)"

text \<open>\<open>normalizeRole\<close> of UserReducer/action.js: both branches of its check return \<open>up\<close>.\<close>

definition normalize_role :: "string option \<Rightarrow> string" where
  "normalize_role v =
     (if \<not> js_truthy v then []
      else let s = js_upper (js_trim (js_str v)) in
           if s \<in> set [''ADMIN'', ''TEACHER'', ''USER''] then s else s)"

text \<open>\<open>toRole\<close> of LogIn.jsx.\<close>

definition to_role :: "string option \<Rightarrow> string option" where
  "to_role v = (if js_truthy v then Some (js_upper (js_trim (js_str v))) else None)"

text \<open>\<open>s.split(" ")\<close> and \<open>words.join(" ")\<close>.\<close>

fun js_split :: "char \<Rightarrow> string \<Rightarrow> string list" where
  "js_split c [] = [[]]"
| "js_split c (x # xs) = (let r = js_split c xs in if x = c then [] # r else (x # hd r) # tl r)"

fun js_join :: "char \<Rightarrow> string list \<Rightarrow> string" where
  "js_join c [] = []"
| "js_join c [w] = w"
| "js_join c (w # v # ws) = w @ c # js_join c (v # ws)"

text \<open>\<open>capitalizeFirstLetter\<close>: each space-separated word with its first letter upper case and the rest lower case.\<close>

definition capitalize_word :: "string \<Rightarrow> string" where
  "capitalize_word w = (case w of [] \<Rightarrow> [] | c # cs \<Rightarrow> js_upper_char c # js_lower cs)"

definition capitalize_first_letter :: "string option \<Rightarrow> string" where
  "capitalize_first_letter s =
     (case s of None \<Rightarrow> [] | Some t \<Rightarrow> js_join CHR '' '' (map capitalize_word (js_split CHR '' '' t)))"

section \<open>The user slice\<close>

text \<open>The keys of the state object (reducer.js \<open>initial\<close>) and the refresh token a saved session may carry.\<close>

record user_obj =
  uo_email :: "string option"
  uo_name :: "string option"
  uo_role :: "string option"
  uo_token :: "token_text option"
  uo_isAuth :: "bool option"
  uo_isError :: "string option"
  uo_loading :: "bool option"
  uo_success :: "bool option"
  uo_isUser :: "bool option"
  uo_userId :: "string option"
  uo_place :: "string option"
  uo_age :: "string option"
  uo_job :: "string option"
  uo_message :: "string option"
  uo_refreshToken :: "token_text option"

definition empty_obj :: user_obj where
  "empty_obj = \<lparr>uo_email = None, uo_name = None, uo_role = None, uo_token = None, uo_isAuth = None,
     uo_isError = None, uo_loading = None, uo_success = None, uo_isUser = None, uo_userId = None,
     uo_place = None, uo_age = None, uo_job = None, uo_message = None, uo_refreshToken = None\<rparr>"

text \<open>The literal of \<open>initial\<close> and of the \<open>USER_LOGOUT\<close> branch.\<close>

definition user_defaults :: user_obj where
  "user_defaults = \<lparr>uo_email = Some [], uo_name = Some [], uo_role = Some [], uo_token = Some (Malformed []),
     uo_isAuth = Some False, uo_isError = Some [], uo_loading = Some False, uo_success = Some False,
     uo_isUser = Some False, uo_userId = Some [], uo_place = Some [], uo_age = Some [], uo_job = Some [],
     uo_message = Some [], uo_refreshToken = None\<rparr>"

text \<open>\<open>a ?? b\<close> and the object spread \<open>{...a, ...b}\<close>.\<close>

definition js_nullish :: "'a option \<Rightarrow> 'a option \<Rightarrow> 'a option" where
  "js_nullish a b = (case a of None \<Rightarrow> b | Some _ \<Rightarrow> a)"

definition obj_spread :: "user_obj \<Rightarrow> user_obj \<Rightarrow> user_obj" where
  "obj_spread a b =
     \<lparr>uo_email = js_nullish (uo_email b) (uo_email a), uo_name = js_nullish (uo_name b) (uo_name a),
      uo_role = js_nullish (uo_role b) (uo_role a), uo_token = js_nullish (uo_token b) (uo_token a),
      uo_isAuth = js_nullish (uo_isAuth b) (uo_isAuth a), uo_isError = js_nullish (uo_isError b) (uo_isError a),
      uo_loading = js_nullish (uo_loading b) (uo_loading a), uo_success = js_nullish (uo_success b) (uo_success a),
      uo_isUser = js_nullish (uo_isUser b) (uo_isUser a), uo_userId = js_nullish (uo_userId b) (uo_userId a),
      uo_place = js_nullish (uo_place b) (uo_place a), uo_age = js_nullish (uo_age b) (uo_age a),
      uo_job = js_nullish (uo_job b) (uo_job a), uo_message = js_nullish (uo_message b) (uo_message a),
      uo_refreshToken = js_nullish (uo_refreshToken b) (uo_refreshToken a)\<rparr>"

text \<open>Truthiness of a token string and \<open>a || b\<close> on tokens.\<close>

definition tok_truthy :: "token_text option \<Rightarrow> bool" where
  "tok_truthy t \<longleftrightarrow> (case t of None \<Rightarrow> False | Some x \<Rightarrow> x \<noteq> Malformed [])"

definition tok_or :: "token_text option \<Rightarrow> token_text option \<Rightarrow> token_text option" where
  "tok_or a b = (if tok_truthy a then a else b)"

text \<open>
  The actions the reducer distinguishes, one constructor per group of \<open>case\<close> labels
  (\<open>LOGIN_*\<close> and \<open>USER_LOGIN_*\<close> share a branch); \<open>Unknown_Action\<close> is any other
  type, which the \<open>default\<close> branch ignores.
\<close>

datatype user_action =
    Auth_Hydrate user_obj
  | Login_Loading
  | Login_Success user_obj
  | Login_Error "string option"
  | Clear_Error
  | Signup_Loading
  | Signup_Success
  | Signup_Error "string option"
  | IsUser_True
  | IsUser_False
  | User_Logout
  | Unknown_Action string

text \<open>The three \<open>localStorage\<close> keys the client reads and writes.\<close>

record browser =
  ls_user :: "user_obj option"
  ls_token :: "token_text option"
  ls_refresh :: "token_text option"

text \<open>The reducer; only \<open>LOGIN_SUCCESS\<close> writes storage (\<open>writeLocalStorage("user", next)\<close>).\<close>

fun user_reducer :: "user_obj \<Rightarrow> user_action \<Rightarrow> browser \<Rightarrow> user_obj \<times> browser" where
  "user_reducer s (Auth_Hydrate p) b =
     (let n = obj_spread s p in
      (if js_truthy (uo_role n) then n\<lparr>uo_role := Some (normalize_role (uo_role n))\<rparr> else n, b))"
| "user_reducer s Login_Loading b =
     (s\<lparr>uo_isAuth := Some False, uo_token := Some (Malformed []), uo_isError := Some [],
        uo_loading := Some True, uo_success := Some False\<rparr>, b)"
| "user_reducer s (Login_Success src) b =
     (let n = s\<lparr>uo_loading := Some False, uo_isAuth := Some True,
                uo_token := tok_or (uo_token src) (tok_or (uo_token s) (Some (Malformed []))),
                uo_name := js_nullish (uo_name src) (uo_name s),
                uo_role := Some (normalize_role (js_nullish (uo_role src) (uo_role s))),
                uo_email := js_nullish (uo_email src) (uo_email s),
                uo_userId := js_nullish (uo_userId src) (uo_userId s),
                uo_place := js_nullish (uo_place src) (uo_place s),
                uo_age := js_nullish (uo_age src) (uo_age s),
                uo_job := js_nullish (uo_job src) (uo_job s),
                uo_message := Some (js_str (uo_message src)),
                uo_isError := Some [], uo_success := Some False,
                uo_isUser := js_nullish (uo_isUser src) (uo_isUser s)\<rparr>
      in (n, b\<lparr>ls_user := Some n\<rparr>))"
| "user_reducer s (Login_Error p) b =
     (s\<lparr>uo_loading := Some False, uo_isAuth := Some False,
        uo_isError := Some (if js_truthy p then js_str p else ''Login failed''),
        uo_token := Some (Malformed [])\<rparr>, b)"
| "user_reducer s Clear_Error b = (s\<lparr>uo_isError := Some []\<rparr>, b)"
| "user_reducer s Signup_Loading b =
     (s\<lparr>uo_isAuth := Some False, uo_token := Some (Malformed []), uo_isError := Some [],
        uo_loading := Some True\<rparr>, b)"
| "user_reducer s Signup_Success b = (s\<lparr>uo_loading := Some False, uo_success := Some True\<rparr>, b)"
| "user_reducer s (Signup_Error p) b = (s\<lparr>uo_loading := Some False, uo_isError := p\<rparr>, b)"
| "user_reducer s IsUser_True b = (s\<lparr>uo_isUser := Some True\<rparr>, b)"
| "user_reducer s IsUser_False b = (s\<lparr>uo_isUser := Some False\<rparr>, b)"
| "user_reducer s User_Logout b = (user_defaults, b)"
| "user_reducer s (Unknown_Action t) b = (s, b)"

text \<open>The module's \<open>initial\<close>: the saved object, else the defaults.\<close>

definition initial_user :: "browser \<Rightarrow> user_obj" where
  "initial_user b = (case ls_user b of Some x \<Rightarrow> x | None \<Rightarrow> user_defaults)"

text \<open>The client: the Redux user slice and the storage; \<open>dispatch\<close> runs the reducer.\<close>

record client =
  cl_store :: user_obj
  cl_ls :: browser

definition dispatch :: "user_action \<Rightarrow> client \<Rightarrow> client" where
  "dispatch a c = (let (s, b) = user_reducer (cl_store c) a (cl_ls c) in \<lparr>cl_store = s, cl_ls = b\<rparr>)"

text \<open>A page load: the slice starts from the saved session.\<close>

definition reload :: "client \<Rightarrow> client" where
  "reload c = c\<lparr>cl_store := initial_user (cl_ls c)\<rparr>"

section \<open>The login form\<close>

text \<open>\<open>isValidEmail\<close>: the trimmed value matches \<open>/^\S+@\S+\.\S+$/\<close>.\<close>

definition is_valid_email :: "string \<Rightarrow> bool" where
  "is_valid_email v =
     (let t = js_trim v in
      (\<forall>c \<in> set t. \<not> js_space c) \<and>
      (\<exists>i \<in> set [1..<length t]. \<exists>j \<in> set [i + 2..<length t - 1].
         t ! i = CHR ''@'' \<and> t ! j = CHR ''.''))"

definition is_valid_password :: "string \<Rightarrow> bool" where
  "is_valid_password v \<longleftrightarrow> 6 \<le> length v"

record login_form =
  lf_email :: string
  lf_password :: string
  lf_remember :: bool

text \<open>\<open>buildSession\<close> over the body \<open>{msg, user, token, refreshToken}\<close> of a successful login.\<close>

definition build_session :: "login_reply \<Rightarrow> user_obj" where
  "build_session r =
     (let u = lr_user r;
          token = tok_or (Some (lr_token r)) (Some (Malformed []));
          role = to_role (Some (pu_role u))
      in empty_obj\<lparr>uo_isAuth := Some (tok_truthy token), uo_token := token,
           uo_refreshToken := tok_or (Some (lr_refresh r)) (Some (Malformed [])), uo_role := role,
           uo_name := Some (pu_name u), uo_email := Some (pu_email u), uo_userId := Some (pu_id u),
           uo_success := Some True, uo_loading := Some False, uo_isError := Some [],
           uo_isUser := Some (role = Some ''USER''), uo_message := Some ''Login successful''\<rparr>)"

text \<open>\<open>redirectByRole\<close>: the landing page of a role, nothing without one.\<close>

definition redirect_by_role :: "string option \<Rightarrow> string option" where
  "redirect_by_role role =
     (case to_role role of
        None \<Rightarrow> None
      | Some r \<Rightarrow> Some (if r = ''ADMIN'' then ''/admin/dashboard''
                        else if r = ''TEACHER'' then ''/teacher/dashboard'' else ''/dashboard''))"

text \<open>
  \<open>handleLogin\<close>: validation, \<open>USER_LOGIN_LOADING\<close>, \<open>POST /users/login\<close> (the
  backend's \<open>login\<close>), then on success the three storage writes, \<open>USER_LOGIN_SUCCESS\<close>
  and the redirect; on failure \<open>dispatch({type: "USER_LOGIN_ERROR", error: msg})\<close>,
  whose \<open>payload\<close> is undefined. Both \<open>remember\<close> branches store the same object.
\<close>

definition handle_login ::
  "request_env \<Rightarrow> login_form \<Rightarrow> db \<Rightarrow> client \<Rightarrow> client \<times> string option" where
  "handle_login env f d c =
     (if \<not> (is_valid_email (lf_email f) \<and> is_valid_password (lf_password f)) \<or>
         uo_loading (cl_store c) = Some True
      then (c, None)
      else
        let c1 = dispatch Login_Loading c in
        (case login env (Some (js_trim (lf_email f))) (Some (lf_password f)) d of
           Inr r \<Rightarrow>
             let s = build_session r;
                 b1 = (if tok_truthy (Some (lr_token r)) then (cl_ls c1)\<lparr>ls_token := Some (lr_token r)\<rparr>
                       else cl_ls c1);
                 b2 = (if tok_truthy (Some (lr_refresh r)) then b1\<lparr>ls_refresh := Some (lr_refresh r)\<rparr>
                       else b1)
             in (dispatch (Login_Success s) (c1\<lparr>cl_ls := b2\<lparr>ls_user := Some s\<rparr>\<rparr>), redirect_by_role (uo_role s))
         | Inl _ \<Rightarrow> (dispatch (Login_Error None) c1, None)))"

text \<open>\<open>effectiveRole\<close> and the effect that redirects a signed-in visitor away from the login page.\<close>

definition login_effective_role :: "client \<Rightarrow> string option" where
  "login_effective_role c =
     (case to_role (uo_role (cl_store c)) of
        Some r \<Rightarrow> Some r
      | None \<Rightarrow> to_role (case ls_user (cl_ls c) of None \<Rightarrow> None | Some u \<Rightarrow> uo_role u))"

definition login_auto_redirect :: "client \<Rightarrow> string option" where
  "login_auto_redirect c =
     (if uo_isAuth (cl_store c) = Some True \<and> login_effective_role c \<noteq> None
      then redirect_by_role (login_effective_role c) else None)"

section \<open>The sign-up form\<close>

record signup_form =
  sf_email :: string
  sf_password :: string
  sf_confirm :: string
  sf_name :: string
  sf_role :: string

text \<open>The \<open>msg\<close> of each error answer of \<open>POST /users/register\<close>.\<close>

definition register_error_msg :: "register_body \<Rightarrow> http_error \<Rightarrow> string" where
  "register_error_msg b e =
     (case e of
        Bad_Request \<Rightarrow>
          if \<not> ok_email (rb_email b) \<or> \<not> js_truthy (rb_password b) \<or> \<not> js_truthy (rb_name b)
          then ''Name, valid email, and password required'' else ''Invalid role selected''
      | Conflict \<Rightarrow> ''User already exists''
      | Server_Error \<Rightarrow> ''Server error''
      | _ \<Rightarrow> ''Signup failed'')"

text \<open>
  \<open>handleSignUp\<close>: three client-side checks, then \<open>USER_SIGNUP_LOADING\<close> (a type the
  reducer has no case for), \<open>POST /users/register\<close> and a redirect to the login page, or
  \<open>SINGUP_ERROR\<close> with the server's message.
\<close>

definition handle_sign_up ::
  "int \<Rightarrow> signup_form \<Rightarrow> db \<Rightarrow> client \<Rightarrow> client \<times> db \<times> string option" where
  "handle_sign_up now f d c =
     (if sf_email f = [] \<or> sf_password f = [] \<or> sf_confirm f = [] \<or> sf_name f = [] \<or> sf_role f = []
      then (dispatch (Signup_Error (Some ''All fields are required'')) c, d, None)
      else if sf_password f \<noteq> sf_confirm f
      then (dispatch (Signup_Error (Some ''Passwords do not match'')) c, d, None)
      else if length (sf_password f) < 8
      then (dispatch (Signup_Error (Some ''Password must be at least 8 characters'')) c, d, None)
      else
        let c1 = dispatch (Unknown_Action ''USER_SIGNUP_LOADING'') c;
            b = \<lparr>rb_email = Some (sf_email f), rb_password = Some (sf_password f), rb_name = Some (sf_name f),
                 rb_role = Some (sf_role f), rb_age = None, rb_place = None\<rparr>
        in (case register now b d of
              (Inr _, d') \<Rightarrow> (c1, d', Some ''/login'')
            | (Inl e, d') \<Rightarrow> (dispatch (Signup_Error (Some (register_error_msg b e))) c1, d', None)))"

section \<open>Logging out\<close>

definition no_storage :: browser where
  "no_storage = \<lparr>ls_user = None, ls_token = None, ls_refresh = None\<rparr>"

text \<open>AdminNavTop's \<open>onLogout\<close>: remove the three keys, \<open>USER_LOGOUT\<close>, go to the login page.\<close>

definition admin_nav_logout :: "client \<Rightarrow> client \<times> string" where
  "admin_nav_logout c = (dispatch User_Logout (c\<lparr>cl_ls := no_storage\<rparr>), ''/login'')"

text \<open>TeacherNavTop's \<open>handleLogout\<close>: \<open>localStorage.clear()\<close>, \<open>USER_LOGOUT\<close>, the login page.\<close>

definition teacher_nav_logout :: "client \<Rightarrow> client \<times> string" where
  "teacher_nav_logout c = (let c1 = c\<lparr>cl_ls := no_storage\<rparr> in (dispatch User_Logout c1, ''/login''))"

text \<open>
  UserNavbar's \<open>handleLogout\<close>: \<open>UserAPI.logout()\<close> (\<open>POST /users/logout\<close>, whose
  answer is ignored, then \<open>clearSession()\<close>), \<open>clearSession()\<close> again, the login page.
  No action is dispatched.
\<close>

definition user_navbar_logout :: "client \<Rightarrow> client \<times> string" where
  "user_navbar_logout c = (c\<lparr>cl_ls := no_storage\<rparr>, ''/login'')"

text \<open>The \<open>logoutUser\<close> thunk of action.js: removes only the \<open>user\<close> key.\<close>

definition logout_user :: "client \<Rightarrow> client" where
  "logout_user c = dispatch User_Logout (c\<lparr>cl_ls := (cl_ls c)\<lparr>ls_user := None\<rparr>\<rparr>)"

section \<open>Route guards\<close>

text \<open>
  The role PrivateRoutes and App compute: the store's role, else the saved session's,
  upper-cased (not trimmed). The store object has no \<open>user\<close> key in any flow here,
  so \<open>storeUser.user.role\<close> is absent.
\<close>

definition guard_role :: "client \<Rightarrow> string" where
  "guard_role c =
     js_upper (js_str (js_or (uo_role (cl_store c))
                         (case ls_user (cl_ls c) of None \<Rightarrow> None | Some u \<Rightarrow> uo_role u)))"

datatype guard_outcome = To_Login | To_Home | Outlet

definition private_routes :: "string list \<Rightarrow> client \<Rightarrow> guard_outcome" where
  "private_routes allowed c =
     (let r = guard_role c in
      if r = [] then To_Login else if allowed \<noteq> [] \<and> r \<notin> set allowed then To_Home else Outlet)"

text \<open>App.js shows the student navbar unless the role is staff.\<close>

definition app_shows_user_navbar :: "client \<Rightarrow> bool" where
  "app_shows_user_navbar c \<longleftrightarrow> \<not> (guard_role c = ''ADMIN'' \<or> guard_role c = ''TEACHER'')"


section \<open>The client's invariant\<close>

text \<open>Every stored user has one of the three roles: what registration and updates guarantee.\<close>

definition roles_ok :: "db \<Rightarrow> bool" where
  "roles_ok d \<longleftrightarrow> (\<forall>u \<in> set (users d). u_role u \<in> set allowed_roles)"

text \<open>A session object that claims to be signed in holds a token, and its role is empty or one of the three.\<close>

definition obj_ok :: "user_obj \<Rightarrow> bool" where
  "obj_ok u \<longleftrightarrow> (uo_isAuth u = Some True \<longrightarrow> tok_truthy (uo_token u)) \<and>
     (case uo_role u of None \<Rightarrow> True | Some r \<Rightarrow> r = [] \<or> r \<in> set allowed_roles)"

definition client_ok :: "client \<Rightarrow> bool" where
  "client_ok c \<longleftrightarrow> obj_ok (cl_store c) \<and> (case ls_user (cl_ls c) of None \<Rightarrow> True | Some u \<Rightarrow> obj_ok u)"

text \<open>
  The states a browser and the backend reach together, starting from an empty browser:
  the user logs in, signs up, logs out with any of the three buttons or reloads the
  page, and meanwhile anybody may update users through \<open>PUT /users/:id\<close>.
\<close>

inductive session_reach :: "db \<times> client \<Rightarrow> bool" where
  start: "roles_ok d \<Longrightarrow> session_reach (d, \<lparr>cl_store = user_defaults, cl_ls = no_storage\<rparr>)"
| login: "session_reach (d, c) \<Longrightarrow> session_reach (d, fst (handle_login env f d c))"
| sign_up: "session_reach (d, c) \<Longrightarrow> handle_sign_up now f d c = (c', d', p) \<Longrightarrow> session_reach (d', c')"
| admin_logout: "session_reach (d, c) \<Longrightarrow> session_reach (d, fst (admin_nav_logout c))"
| teacher_logout: "session_reach (d, c) \<Longrightarrow> session_reach (d, fst (teacher_nav_logout c))"
| navbar_logout: "session_reach (d, c) \<Longrightarrow> session_reach (d, fst (user_navbar_logout c))"
| page_load: "session_reach (d, c) \<Longrightarrow> session_reach (d, reload c)"
| user_update: "session_reach (d, c) \<Longrightarrow> route_update_user env h i b d = (r, d') \<Longrightarrow> session_reach (d', c)"

section \<open>Example sessions\<close>

definition demo_client :: client where
  "demo_client = \<lparr>cl_store = user_defaults, cl_ls = no_storage\<rparr>"

definition demo_signup :: signup_form where
  "demo_signup = \<lparr>sf_email = ''sam@uni.edu'', sf_password = ''password1'', sf_confirm = ''password1'',
     sf_name = ''Sam'', sf_role = ''USER''\<rparr>"

definition demo_signed_db :: db where
  "demo_signed_db = fst (snd (handle_sign_up 0 demo_signup demo_db demo_client))"

definition demo_form :: login_form where
  "demo_form = \<lparr>lf_email = ''sam@uni.edu'', lf_password = ''password1'', lf_remember = True\<rparr>"


definition demo_session :: client where
  "demo_session = fst (handle_login demo_env demo_form demo_signed_db demo_client)"

definition demo_reply :: login_reply where
  "demo_reply = projr (login demo_env (Some ''sam@uni.edu'') (Some ''password1'') demo_signed_db)"

section \<open>Properties\<close>

lemma dispatch_simps [simp]:
  "cl_store (dispatch a c) = fst (user_reducer (cl_store c) a (cl_ls c))"
  "cl_ls (dispatch a c) = snd (user_reducer (cl_store c) a (cl_ls c))"
  by (simp_all add: dispatch_def split: prod.splits)

lemma dispatch_Unknown [simp]: "dispatch (Unknown_Action t) c = c"
  by (simp add: dispatch_def)

lemma up_allowed: "r \<in> set allowed_roles \<Longrightarrow> up (Some r) = r"
  unfolding allowed_roles_def by (auto, code_simp+)

lemma to_role_allowed: "r \<in> set allowed_roles \<Longrightarrow> to_role (Some r) = Some r"
  using up_allowed [of r] by (auto simp: to_role_def up_def allowed_roles_def split: if_splits)

lemma normalize_role_up: "normalize_role v = up v"
  by (simp add: normalize_role_def up_def Let_def)

lemma tok_truthy_Some_sign [simp]: "tok_truthy (Some (jwt_sign p s t n))"
  by (simp add: tok_truthy_def)

lemma obj_ok_defaults [simp]: "obj_ok user_defaults"
  by (simp add: obj_ok_def user_defaults_def)

lemma roles_ok_find:
  "roles_ok d \<Longrightarrow> find_user_by_email d e = Some u \<Longrightarrow> u_role u \<in> set allowed_roles"
  by (auto simp: roles_ok_def find_user_by_email_def dest: find_Some_in)


lemma obj_ok_step:
  assumes "obj_ok s" and "\<forall>src. a \<noteq> Login_Success src" and "\<forall>p. a \<noteq> Auth_Hydrate p"
  shows "obj_ok (fst (user_reducer s a b)) \<and> snd (user_reducer s a b) = b"
  using assms by (cases a) (auto simp: obj_ok_def user_defaults_def)

lemma build_session_login:
  assumes "login env e pw d = Inr r" and "roles_ok d"
  shows "uo_role (build_session r) = Some (pu_role (lr_user r)) \<and> pu_role (lr_user r) \<in> set allowed_roles \<and>
         uo_token (build_session r) = Some (lr_token r) \<and> tok_truthy (Some (lr_token r))"
proof -
  from login_Inr_token [OF assms(1)] obtain u where
    f: "find_user_by_email d (js_lower (js_str e)) = Some u"
    and usr: "lr_user r = (public_of u)\<lparr>pu_role := up (Some (u_role u))\<rparr>"
    and tok: "lr_token r = jwt_sign (login_payload u) (access_secret (env_config env)) (login_access_ttl (env_config env)) (env_now env)"
    by blast
  have a: "u_role u \<in> set allowed_roles" by (rule roles_ok_find [OF assms(2) f])
  then have "pu_role (lr_user r) = u_role u" using usr by (simp add: up_allowed)
  with a tok show ?thesis
    by (simp add: build_session_def Let_def to_role_allowed tok_or_def)
qed

lemma obj_ok_login_success:
  assumes "login env e pw d = Inr r" and "roles_ok d"
  shows "obj_ok (fst (user_reducer s (Login_Success (build_session r)) b)) \<and>
         snd (user_reducer s (Login_Success (build_session r)) b) =
           b\<lparr>ls_user := Some (fst (user_reducer s (Login_Success (build_session r)) b))\<rparr>"
  using build_session_login [OF assms]
  by (simp add: obj_ok_def Let_def js_nullish_def normalize_role_up up_allowed tok_or_def)

lemma client_ok_login_success:
  assumes "login env e pw d = Inr r" and "roles_ok d"
  shows "client_ok (dispatch (Login_Success (build_session r)) c)"
  using obj_ok_login_success [OF assms, of "cl_store c" "cl_ls c"]
  by (simp add: client_ok_def)

lemma handle_login_ok:
  assumes "client_ok c" and "roles_ok d"
  shows "client_ok (fst (handle_login env f d c))"
proof -
  let ?c1 = "dispatch Login_Loading c"
  have c1: "client_ok ?c1"
    using assms(1) obj_ok_step [of "cl_store c" Login_Loading "cl_ls c"] by (simp add: client_ok_def)
  show ?thesis
  proof (cases "login env (Some (js_trim (lf_email f))) (Some (lf_password f)) d")
    case (Inl e)
    with c1 obj_ok_step [of "cl_store ?c1" "Login_Error None" "cl_ls ?c1"] assms(1)
    show ?thesis by (simp add: handle_login_def client_ok_def)
  next
    case (Inr r)
    with client_ok_login_success [OF Inr assms(2)] assms(1)
    show ?thesis by (simp add: handle_login_def Let_def del: dispatch_simps)
  qed
qed


lemma register_roles_ok:
  assumes "register now b d = (r, d')" and "roles_ok d"
  shows "roles_ok d'"
proof (cases r)
  case (Inl e)
  with assms show ?thesis by (auto simp: register_def Let_def split: if_splits)
next
  case (Inr p)
  with register_Inr assms(1) obtain u where
    "d' = d\<lparr>users := users d @ [u]\<rparr>" and "u_role u \<in> set allowed_roles" by blast
  with assms(2) show ?thesis by (simp add: roles_ok_def)
qed

lemma update_user_roles_ok:
  assumes "update_user u t b d = (r, d')" and "roles_ok d"
  shows "roles_ok d'"
  using assms
  by (auto simp: update_user_def Let_def roles_ok_def apply_patch_def
           split: sum.splits if_splits option.splits)

lemma route_update_user_roles_ok:
  "route_update_user env h i b d = (r, d') \<Longrightarrow> roles_ok d \<Longrightarrow> roles_ok d'"
  by (auto simp: route_update_user_def guarded_def dest: update_user_roles_ok split: sum.splits)

lemma handle_sign_up_ok:
  assumes "handle_sign_up now f d c = (c', d', p)" and "client_ok c" and "roles_ok d"
  shows "client_ok c' \<and> roles_ok d'"
proof -
  have err: "client_ok (dispatch (Signup_Error m) x)" if "client_ok x" for m x
    using that obj_ok_step [of "cl_store x" "Signup_Error m" "cl_ls x"] by (simp add: client_ok_def)
  show ?thesis
    using assms err register_roles_ok [OF _ assms(3)]
    by (auto simp: handle_sign_up_def Let_def split: if_splits prod.splits sum.splits)
qed

lemma logout_ok:
  "client_ok (fst (admin_nav_logout c))" "client_ok (fst (teacher_nav_logout c))"
  "client_ok c \<Longrightarrow> client_ok (fst (user_navbar_logout c))"
  by (simp_all add: admin_nav_logout_def teacher_nav_logout_def user_navbar_logout_def client_ok_def
                    no_storage_def)

lemma reload_ok: "client_ok c \<Longrightarrow> client_ok (reload c)"
  by (auto simp: client_ok_def reload_def initial_user_def split: option.splits)

text \<open>C33. In every state a browser and the backend reach together, every stored user has one of the three roles, and the Redux session and the saved session are well formed: signed in only with a token, with an empty or valid role.\<close>

theorem session_reach_ok:
  assumes "session_reach s"
  shows "roles_ok (fst s) \<and> client_ok (snd s)"
  using assms
proof (induction rule: session_reach.induct)
  case (start d)
  then show ?case by (simp add: client_ok_def no_storage_def)
next
  case (login d c env f)
  then show ?case by (simp add: handle_login_ok)
next
  case (sign_up d c now f c' d' p)
  then show ?case using handle_sign_up_ok by simp
next
  case (user_update d c env h i b r d')
  then show ?case using route_update_user_roles_ok by simp
qed (simp_all add: logout_ok reload_ok)


lemma js_split_nonempty [simp]: "js_split c s \<noteq> []"
  by (induction s) (simp_all add: Let_def)

lemma js_join_Cons_Cons: "js_join c ((x # w) # ws) = x # js_join c (w # ws)"
  by (cases ws) simp_all

text \<open>Splitting a string at a separator and joining the pieces with it gives the string back, so capitalizeFirstLetter keeps every space of a name.\<close>

theorem js_join_split: "js_join c (js_split c s) = s"
proof (induction s)
  case Nil
  then show ?case by simp
next
  case (Cons x xs)
  obtain v ws where r: "js_split c xs = v # ws" using js_split_nonempty [of c xs] by (cases "js_split c xs") auto
  show ?case
  proof (cases "x = c")
    case True
    with Cons.IH r show ?thesis by simp
  next
    case False
    with Cons.IH r show ?thesis by (simp add: js_join_Cons_Cons)
  qed
qed

text \<open>The reducer's normalizeRole is the backend's up, and utils/roles.jsx's normalizeRole is up restricted to the three roles.\<close>

theorem role_normalisers:
  "normalize_role v = up v \<and> roles_normalize v = (if up v \<in> set allowed_roles then Some (up v) else None)"
  by (auto simp: normalize_role_up roles_normalize_def up_def allowed_roles_def Let_def)



text \<open>C36. The admin and teacher logout buttons send every guarded page to the login page, while the student navbar's logout clears the storage but not the Redux session, so the login page sends a signed-in student straight back to the dashboard and the guard still admits them.\<close>

theorem logout_buttons:
  "private_routes rs (fst (admin_nav_logout c)) = To_Login \<and>
   private_routes rs (fst (teacher_nav_logout c)) = To_Login \<and>
   login_auto_redirect (fst (admin_nav_logout c)) = None \<and>
   (uo_isAuth (cl_store c) = Some True \<longrightarrow> to_role (uo_role (cl_store c)) = Some r \<longrightarrow>
      login_auto_redirect (fst (user_navbar_logout c)) = redirect_by_role (Some r) \<and>
      private_routes rs (fst (user_navbar_logout c)) = private_routes rs c)"
  by (auto simp: admin_nav_logout_def teacher_nav_logout_def user_navbar_logout_def private_routes_def
                 guard_role_def login_auto_redirect_def login_effective_role_def user_defaults_def
                 no_storage_def to_role_def js_or_def)

text \<open>A successful sign-up leaves the Redux session untouched (its loading action has no case in the reducer), redirects to the login page and adds exactly one user with the lower-cased e-mail.\<close>

theorem sign_up_success_store:
  assumes "handle_sign_up now f d c = (c', d', Some p)"
  shows "c' = c \<and> p = ''/login'' \<and> (\<exists>u. users d' = users d @ [u] \<and> u_email u = js_lower (sf_email f))"
  using assms register_Inr
  by (fastforce simp: handle_sign_up_def Let_def split: if_splits prod.splits sum.splits)


text \<open>C34. A successful login through the form stores in Redux and localStorage exactly the access token the backend issued, with the user's role, redirects to the role's landing page, and that token passes the auth middleware during its lifetime.\<close>

theorem login_session_authenticates:
  assumes "is_valid_email (lf_email f)" and "is_valid_password (lf_password f)"
    and "uo_loading (cl_store c) \<noteq> Some True"
    and "login env (Some (js_trim (lf_email f))) (Some (lf_password f)) d = Inr r" and "roles_ok d"
    and "pu_id (lr_user r) \<noteq> []"
    and "env_config env' = env_config env" and "env_now env' < env_now env + login_access_ttl (env_config env)"
    and "lr_token r \<notin> set (env_blacklist env')"
  shows "uo_isAuth (cl_store (fst (handle_login env f d c))) = Some True \<and>
         uo_token (cl_store (fst (handle_login env f d c))) = Some (lr_token r) \<and>
         ls_token (cl_ls (fst (handle_login env f d c))) = Some (lr_token r) \<and>
         uo_role (cl_store (fst (handle_login env f d c))) = Some (pu_role (lr_user r)) \<and>
         snd (handle_login env f d c) = redirect_by_role (Some (pu_role (lr_user r))) \<and>
         (\<exists>n. auth env' (Bearer (lr_token r)) =
                Inr \<lparr>su_id = Some (pu_id (lr_user r)), su_name = n, su_role = pu_role (lr_user r)\<rparr>)"
proof -
  note s = build_session_login [OF assms(4,5)]
  have "\<exists>n. auth env' (Bearer (lr_token r)) =
          Inr \<lparr>su_id = Some (pu_id (lr_user r)), su_name = n, su_role = pu_role (lr_user r)\<rparr>"
    using assms(4,6-9) by (rule login_token_auth)
  with s assms(1-4) show ?thesis
    by (simp add: handle_login_def Let_def tok_or_def js_nullish_def normalize_role_up up_allowed)
qed

lemma demo_sign_up:
  "handle_sign_up 0 demo_signup demo_db demo_client = (demo_client, demo_signed_db, Some ''/login'')"
  unfolding demo_signed_db_def by code_simp

lemma demo_db_roles_ok: "roles_ok demo_db"
  unfolding roles_ok_def allowed_roles_def by code_simp

lemma demo_signed_roles_ok: "roles_ok demo_signed_db"
  unfolding roles_ok_def allowed_roles_def demo_signed_db_def by code_simp

lemma demo_session_reach: "session_reach (demo_signed_db, demo_session)"
proof -
  have "session_reach (demo_db, demo_client)"
    unfolding demo_client_def by (rule session_reach.start [OF demo_db_roles_ok])
  then have "session_reach (demo_signed_db, demo_client)"
    using demo_sign_up by (rule session_reach.sign_up)
  then show ?thesis unfolding demo_session_def by (rule session_reach.login)
qed

theorem session_reach_ok_witness: "roles_ok demo_signed_db \<and> client_ok demo_session"
  using session_reach_ok [OF demo_session_reach] by simp


theorem logout_buttons_witness:
  "login_auto_redirect (fst (user_navbar_logout demo_session)) = redirect_by_role (Some ''USER'') \<and>
   private_routes [''USER''] (fst (user_navbar_logout demo_session)) = private_routes [''USER''] demo_session"
proof -
  have "uo_isAuth (cl_store demo_session) = Some True" by code_simp
  moreover have "to_role (uo_role (cl_store demo_session)) = Some ''USER''" by code_simp
  ultimately show ?thesis using logout_buttons [of "[''USER'']" demo_session "''USER''"] by simp
qed

theorem sign_up_success_store_witness:
  "demo_client = demo_client \<and> ''/login'' = ''/login'' \<and>
   (\<exists>u. users demo_signed_db = users demo_db @ [u] \<and> u_email u = js_lower (sf_email demo_signup))"
  by (rule sign_up_success_store [OF demo_sign_up])

theorem login_session_authenticates_witness:
  "\<exists>n. auth demo_env (Bearer (lr_token demo_reply)) =
     Inr \<lparr>su_id = Some (pu_id (lr_user demo_reply)), su_name = n, su_role = pu_role (lr_user demo_reply)\<rparr>"
proof -
  have l: "login demo_env (Some (js_trim (lf_email demo_form))) (Some (lf_password demo_form)) demo_signed_db =
     Inr demo_reply"
    unfolding demo_reply_def by code_simp
  note wf = demo_signed_roles_ok
  have "is_valid_email (lf_email demo_form)" "is_valid_password (lf_password demo_form)"
       "uo_loading (cl_store demo_client) \<noteq> Some True" "pu_id (lr_user demo_reply) \<noteq> []"
    by code_simp+
  from login_session_authenticates [OF this(1-3) l wf this(4), of demo_env] show ?thesis
    by (simp add: demo_env_def default_config_def)
qed

end
