(* ===== verification/Client.thy ===== *)
theory Client
  imports Session
begin

text \<open>
  The API client of src/frontend/src/api.js: the session helpers over \<open>localStorage\<close>,
  the request interceptor that attaches the stored access token, and the response
  interceptor that answers a 401 by fetching a new access token from
  \<open>GET /regenerateToken\<close> and retrying the request once, or, when no new token comes,
  clears the session and sends the browser to \<open>/login\<close>. A backend route is a
  function from the \<open>Authorization\<close> header and the store to a result and the new
  store, as the backend theories define them; one request runs at a time, so the
  shared \<open>refreshingPromise\<close> and the toast flag play no part.
\<close>

section \<open>Session helpers\<close>

text \<open>\<open>readSession()?.token || localStorage.getItem("token")\<close>.\<close>

definition read_token :: "browser \<Rightarrow> token_text option" where
  "read_token b = tok_or (case ls_user b of None \<Rightarrow> None | Some u \<Rightarrow> uo_token u) (ls_token b)"

text \<open>\<open>session?.refreshToken || localStorage.getItem("refreshToken")\<close>.\<close>

definition read_refresh :: "browser \<Rightarrow> token_text option" where
  "read_refresh b = tok_or (case ls_user b of None \<Rightarrow> None | Some u \<Rightarrow> uo_refreshToken u) (ls_refresh b)"

text \<open>The request interceptor: \<open>Authorization: Bearer token\<close> when a token is stored.\<close>

definition request_header :: "browser \<Rightarrow> auth_header" where
  "request_header b =
     (case read_token b of
        None \<Rightarrow> No_Header
      | Some t \<Rightarrow> if t = Malformed [] then No_Header else Bearer t)"

text \<open>\<open>writeSession(next)\<close> with a session object; \<open>writeSession(null)\<close> is \<open>no_storage\<close>.\<close>

definition write_session :: "user_obj \<Rightarrow> browser \<Rightarrow> browser" where
  "write_session n b =
     (let b1 = b\<lparr>ls_user := Some n\<rparr>;
          b2 = (if tok_truthy (uo_token n) then b1\<lparr>ls_token := uo_token n\<rparr> else b1)
      in if tok_truthy (uo_refreshToken n) then b2\<lparr>ls_refresh := uo_refreshToken n\<rparr> else b2)"

section \<open>Refreshing and retrying\<close>

text \<open>
  \<open>refreshAccessToken\<close>: no refresh token, or a failed \<open>/regenerateToken\<close>, gives
  \<open>null\<close>; otherwise the session is rewritten with the new token and \<open>isAuth\<close>.
\<close>

definition refresh_access_token :: "request_env \<Rightarrow> browser \<Rightarrow> token_text option \<times> browser" where
  "refresh_access_token env b =
     (case read_refresh b of
        None \<Rightarrow> (None, b)
      | Some rt \<Rightarrow>
          if rt = Malformed [] then (None, b)
          else (case regenerate_token env (Bearer rt) of
                  Inl _ \<Rightarrow> (None, b)
                | Inr t \<Rightarrow>
                    if t = Malformed [] then (None, b)
                    else let s = (case ls_user b of None \<Rightarrow> empty_obj | Some u \<Rightarrow> u);
                             n = obj_spread s (empty_obj\<lparr>uo_token := Some t, uo_isAuth := Some True\<rparr>)
                         in (Some t, write_session n b)))"

text \<open>
  One call through the client: the request with the stored token; on a 401 of a first
  attempt the refresh, then the same request again with the token the interceptor now
  reads (its own 401 is passed on, \<open>_retry\<close> being set), or, without a new token,
  \<open>clearSession()\<close> and the redirect to \<open>/login\<close> (the last component).
\<close>

definition api_call ::
  "request_env \<Rightarrow> (auth_header \<Rightarrow> db \<Rightarrow> 'a result \<times> db) \<Rightarrow> browser \<Rightarrow> db \<Rightarrow>
   'a result \<times> browser \<times> db \<times> bool" where
  "api_call env route b d =
     (let (r, d1) = route (request_header b) d in
      if r = Inl Unauthorized then
        (case refresh_access_token env b of
           (Some t, b1) \<Rightarrow> (let (r2, d2) = route (request_header b1) d1 in (r2, b1, d2, False))
         | (None, b1) \<Rightarrow> (Inl Unauthorized, no_storage, d1, True))
      else (r, b, d1, False))"

text \<open>The same request made \<open>n\<close> times in a row: each result with whether it redirected.\<close>

fun api_repeat ::
  "nat \<Rightarrow> request_env \<Rightarrow> (auth_header \<Rightarrow> db \<Rightarrow> 'a result \<times> db) \<Rightarrow> browser \<Rightarrow> db \<Rightarrow>
   ('a result \<times> bool) list \<times> browser" where
  "api_repeat 0 env route b d = ([], b)"
| "api_repeat (Suc n) env route b d =
     (case api_call env route b d of
        (r, b1, d1, red) \<Rightarrow> (let (rs, b2) = api_repeat n env route b1 d1 in ((r, red) # rs, b2)))"

text \<open>\<open>UserAPI.login\<close>: the session object it writes after \<open>POST /users/login\<close>.\<close>

definition user_api_login ::
  "request_env \<Rightarrow> string option \<Rightarrow> string option \<Rightarrow> db \<Rightarrow> browser \<Rightarrow> login_reply result \<times> browser" where
  "user_api_login env e pw d b =
     (case login env e pw d of
        Inl err \<Rightarrow> (Inl err, b)
      | Inr r \<Rightarrow>
          (Inr r, write_session (empty_obj\<lparr>uo_userId := Some (pu_id (lr_user r)), uo_name := Some (pu_name (lr_user r)),
                     uo_email := Some (pu_email (lr_user r)), uo_role := Some (pu_role (lr_user r)),
                     uo_token := Some (lr_token r), uo_refreshToken := Some (lr_refresh r),
                     uo_isAuth := Some True\<rparr>) b))"

section \<open>Example\<close>

text \<open>The browser after the example login, its access token expired a week later.\<close>

definition demo_late_env :: request_env where
  "demo_late_env = demo_env\<lparr>env_now := 100000\<rparr>"

definition demo_browser :: browser where
  "demo_browser = cl_ls demo_session"

section \<open>Properties\<close>

lemma regenerate_token_signed: "regenerate_token env h = Inr t \<Longrightarrow> t \<noteq> Malformed m"
  by (auto simp: regenerate_token_def split: auth_header.splits if_splits option.splits)

lemma login_refresh_signed: "login env e pw d = Inr r \<Longrightarrow> lr_refresh r \<noteq> Malformed m"
  by (auto dest!: login_Inr_token simp: jwt_sign_def)

lemma refresh_write_session:
  fixes b :: browser
  assumes "t \<noteq> Malformed []"
  defines "n \<equiv> obj_spread (case ls_user b of None \<Rightarrow> empty_obj | Some u \<Rightarrow> u)
                  (empty_obj\<lparr>uo_token := Some t, uo_isAuth := Some True\<rparr>)"
  shows "read_refresh (write_session n b) = read_refresh b \<and> request_header (write_session n b) = Bearer t"
  using assms
  by (auto simp: n_def read_refresh_def request_header_def read_token_def write_session_def obj_spread_def
                 empty_obj_def js_nullish_def tok_or_def tok_truthy_def Let_def split: option.splits)

lemma api_call_refresh_rejected:
  assumes "login env0 e pw d0 = Inr r" and "read_refresh b = Some (lr_refresh r)"
    and "regenerate_token env (Bearer (lr_refresh r)) = Inr t"
    and "auth env (request_header b) = Inl err"
  shows "\<exists>b1. api_call env (\<lambda>h. guarded env h roles f) b d = (Inl Unauthorized, b1, d, False) \<and>
              read_refresh b1 = Some (lr_refresh r) \<and> auth env (request_header b1) = Inl Unauthorized"
proof -
  have err: "err = Unauthorized" using assms(4) by (rule auth_Inl_Unauthorized)
  have t: "t \<noteq> Malformed []" using assms(3) by (rule regenerate_token_signed)
  have rt: "lr_refresh r \<noteq> Malformed []" using assms(1) by (rule login_refresh_signed)
  have rej: "auth env (Bearer t) = Inl Unauthorized"
    using assms(1,3) by (rule regenerated_token_unauthorized)
  let ?n = "obj_spread (case ls_user b of None \<Rightarrow> empty_obj | Some u \<Rightarrow> u)
              (empty_obj\<lparr>uo_token := Some t, uo_isAuth := Some True\<rparr>)"
  have ref: "refresh_access_token env b = (Some t, write_session ?n b)"
    using assms(2,3) t rt by (simp add: refresh_access_token_def)
  note w = refresh_write_session [OF t, of b]
  show ?thesis
    using assms(2,4) err rej ref w
    by (simp add: api_call_def guarded_auth_Inl)
qed

text \<open>
  C37. Once the access token has expired, the client never recovers while the refresh
  token is valid: every request through the client is answered 401, the session is
  neither repaired nor cleared, and the browser is never sent to the login page,
  because every token /regenerateToken issues is itself rejected.
\<close>

theorem refresh_loop_never_recovers:
  assumes "login env0 e pw d0 = Inr r" and "read_refresh b = Some (lr_refresh r)"
    and "regenerate_token env (Bearer (lr_refresh r)) = Inr t"
    and "auth env (request_header b) = Inl err"
  shows "fst (api_repeat n env (\<lambda>h. guarded env h roles f) b d) = replicate n (Inl Unauthorized, False)"
  using assms(2,4)
proof (induction n arbitrary: b err)
  case 0
  then show ?case by simp
next
  case (Suc n)
  from api_call_refresh_rejected [OF assms(1) Suc.prems(1) assms(3) Suc.prems(2), of roles f d]
  obtain b1 where call: "api_call env (\<lambda>h. guarded env h roles f) b d = (Inl Unauthorized, b1, d, False)"
    and "read_refresh b1 = Some (lr_refresh r)" and "auth env (request_header b1) = Inl Unauthorized"
    by blast
  with Suc.IH [of b1 Unauthorized] show ?case
    by (cases "api_repeat n env (\<lambda>h. guarded env h roles f) b1 d") (simp add: call)
qed

theorem refresh_loop_never_recovers_witness:
  "fst (api_repeat 3 demo_late_env (\<lambda>h. guarded demo_late_env h [''USER''] (\<lambda>u d. (profile u d, d)))
        demo_browser demo_signed_db) = replicate 3 (Inl Unauthorized, False)"
proof (rule refresh_loop_never_recovers)
  show "login demo_env (Some ''sam@uni.edu'') (Some ''password1'') demo_signed_db = Inr demo_reply"
    unfolding demo_reply_def by code_simp
  show "read_refresh demo_browser = Some (lr_refresh demo_reply)"
    unfolding demo_reply_def demo_browser_def by code_simp
  show "regenerate_token demo_late_env (Bearer (lr_refresh demo_reply)) =
          Inr (projr (regenerate_token demo_late_env (Bearer (lr_refresh demo_reply))))"
    unfolding demo_reply_def by code_simp
  show "auth demo_late_env (request_header demo_browser) = Inl Unauthorized"
    unfolding demo_browser_def by code_simp
qed

end
