(* ===== verification/Server.thy ===== *)
theory Server
  imports Prelude
begin

text \<open>
  The routing of the Express application (src/backend/index.js): the four routers
  mounted under \<open>/users\<close>, \<open>/courses\<close>, \<open>/videos\<close> and \<open>/admin\<close>, with the method
  and path of every route they declare, and the application's own routes. A request
  whose method and path match no route falls through to Express's default handler,
  which answers 404.
\<close>

datatype http_method = GET | POST | PUT | PATCH | DELETE

text \<open>A path pattern segment: a literal or a \<open>:param\<close>, which matches one non-empty segment.\<close>

datatype seg = Lit string | Param

fun seg_match :: "seg list \<Rightarrow> string list \<Rightarrow> bool" where
  "seg_match [] [] = True"
| "seg_match (Lit a # ps) (x # xs) = (a = x \<and> seg_match ps xs)"
| "seg_match (Param # ps) (x # xs) = (x \<noteq> [] \<and> seg_match ps xs)"
| "seg_match _ _ = False"

definition backend_routes :: "(http_method \<times> seg list) list" where
  "backend_routes =
     [(GET, []), (GET, [Lit ''health'']), (GET, [Lit ''regenerateToken'']), (GET, [Lit ''__routes'']),
      (POST, [Lit ''users'', Lit ''register'']), (POST, [Lit ''users'', Lit ''login'']),
      (POST, [Lit ''users'', Lit ''logout'']), (GET, [Lit ''users'', Lit ''profile'']),
      (GET, [Lit ''users'', Lit ''enrolled'']), (GET, [Lit ''users'', Lit ''progress'']),
      (GET, [Lit ''users'', Lit ''certificates'']), (GET, [Lit ''users'']), (GET, [Lit ''users'', Param]),
      (PUT, [Lit ''users'', Param]), (DELETE, [Lit ''users'', Param]),
      (GET, [Lit ''courses'']), (GET, [Lit ''courses'', Param]), (POST, [Lit ''courses'']),
      (PUT, [Lit ''courses'', Param]), (DELETE, [Lit ''courses'', Param]),
      (POST, [Lit ''courses'', Param, Lit ''enroll'']), (GET, [Lit ''courses'', Param, Lit ''progress'']),
      (GET, [Lit ''videos'']), (GET, [Lit ''videos'', Param]), (POST, [Lit ''videos'']),
      (PUT, [Lit ''videos'', Param]), (DELETE, [Lit ''videos'', Param]),
      (POST, [Lit ''videos'', Param, Lit ''watched'']), (GET, [Lit ''videos'', Param, Lit ''progress'']),
      (GET, [Lit ''admin'', Lit ''stats''])]"

definition route_exists :: "http_method \<Rightarrow> string list \<Rightarrow> bool" where
  "route_exists m path \<longleftrightarrow> (\<exists>(m', p) \<in> set backend_routes. m' = m \<and> seg_match p path)"

section \<open>Lemmas\<close>

lemma no_patch_route: "\<not> route_exists PATCH path"
  by (auto simp: route_exists_def backend_routes_def)

end
