(* ===== verification/AdminStore.thy ===== *)
theory AdminStore
  imports Client Server
begin

text \<open>
  The admin slice of the Redux store (src/frontend/src/Redux/AdminReducer: reducer.js,
  action.js, actionType.js) and its thunks, composed with the backend routes they call.
  The three lists of the slice (courses under the legacy name \<open>data\<close>, users,
  videos) hold the JSON objects the backend answered with; one reducer case per list
  and per operation repeats the same code, so the operation and the list are the
  action's arguments here. A thunk dispatches \<open>PRODUCT_REQUEST\<close>, sends its request
  with \<open>authHeader()\<close>, and dispatches the success action with the answer's body or
  \<open>PRODUCT_FAILURE\<close> on any error status.
\<close>

section \<open>The slice and its reducer\<close>

datatype list_kind = Courses_List | Users_List | Videos_List

record admin_state =
  ad_data :: "json list"
  ad_users :: "json list"
  ad_videos :: "json list"
  ad_total :: json
  ad_page :: json
  ad_limit :: json
  ad_isLoading :: bool
  ad_isError :: bool

definition admin_initial :: admin_state where
  "admin_initial = \<lparr>ad_data = [], ad_users = [], ad_videos = [], ad_total = JNum 0, ad_page = JNum 1,
     ad_limit = JNum 10, ad_isLoading = False, ad_isError = False\<rparr>"

datatype admin_action =
    Product_Request
  | Product_Failure
  | Get_Success list_kind json
  | Add_Success list_kind json
  | Patch_Success list_kind json
  | Delete_Success list_kind json

definition ad_list :: "list_kind \<Rightarrow> admin_state \<Rightarrow> json list" where
  "ad_list k s = (case k of Courses_List \<Rightarrow> ad_data s | Users_List \<Rightarrow> ad_users s | Videos_List \<Rightarrow> ad_videos s)"

definition ad_set_list :: "list_kind \<Rightarrow> json list \<Rightarrow> admin_state \<Rightarrow> admin_state" where
  "ad_set_list k xs s =
     (case k of Courses_List \<Rightarrow> s\<lparr>ad_data := xs\<rparr> | Users_List \<Rightarrow> s\<lparr>ad_users := xs\<rparr>
      | Videos_List \<Rightarrow> s\<lparr>ad_videos := xs\<rparr>)"

text \<open>
  \<open>Array.isArray(payload) ? payload : payload.items || []\<close>; the thunks only ever
  produce arrays here, a non-array \<open>items\<close> value counts as empty.
\<close>

definition payload_items :: "json \<Rightarrow> json list" where
  "payload_items p =
     (case (if is_array p then p else jor (jget ''items'' p) (JArr [])) of JArr xs \<Rightarrow> xs | _ \<Rightarrow> [])"

fun admin_reducer :: "admin_state \<Rightarrow> admin_action \<Rightarrow> admin_state" where
  "admin_reducer s Product_Request = s\<lparr>ad_isLoading := True, ad_isError := False\<rparr>"
| "admin_reducer s Product_Failure = s\<lparr>ad_isLoading := False, ad_isError := True\<rparr>"
| "admin_reducer s (Get_Success k p) =
     (let meta = (if \<not> is_array p then p else JObj [])
      in (ad_set_list k (payload_items p) s)\<lparr>ad_isLoading := False,
            ad_total := jnullish (jget ''total'' meta) (ad_total s),
            ad_page := jnullish (jget ''page'' meta) (ad_page s),
            ad_limit := jnullish (jget ''limit'' meta) (ad_limit s)\<rparr>)"
| "admin_reducer s (Add_Success k p) = (ad_set_list k (p # ad_list k s) s)\<lparr>ad_isLoading := False\<rparr>"
| "admin_reducer s (Patch_Success k p) =
     (ad_set_list k (map (\<lambda>x. if jget ''id'' x = jget ''id'' p then p else x) (ad_list k s)) s)\<lparr>ad_isLoading := False\<rparr>"
| "admin_reducer s (Delete_Success k p) =
     (ad_set_list k (filter (\<lambda>x. jget ''id'' x \<noteq> Some p) (ad_list k s)) s)\<lparr>ad_isLoading := False\<rparr>"

section \<open>The abstract list\<close>

text \<open>
  What a list shows: for each id, the first object with that id. The mutations act on it
  as a finite map: an added or patched object is stored under its id, a deleted id is
  removed, a patch of an id that is not shown changes nothing.
\<close>

definition id_map :: "json list \<Rightarrow> string \<Rightarrow> json option" where
  "id_map xs i = find (\<lambda>x. jget ''id'' x = Some (JStr i)) xs"

fun abs_admin_step :: "list_kind \<Rightarrow> admin_action \<Rightarrow> (string \<Rightarrow> json option) \<Rightarrow> (string \<Rightarrow> json option)" where
  "abs_admin_step k (Add_Success k' p) m =
     (if k' = k then (case jget ''id'' p of Some (JStr i) \<Rightarrow> m(i \<mapsto> p) | _ \<Rightarrow> m) else m)"
| "abs_admin_step k (Patch_Success k' p) m =
     (if k' = k then (case jget ''id'' p of Some (JStr i) \<Rightarrow> if m i = None then m else m(i \<mapsto> p) | _ \<Rightarrow> m)
      else m)"
| "abs_admin_step k (Delete_Success k' p) m =
     (if k' = k then (case p of JStr i \<Rightarrow> m(i := None) | _ \<Rightarrow> m) else m)"
| "abs_admin_step k _ m = m"

text \<open>An action whose object, or deleted key, is identified by a string id.\<close>

fun action_has_id :: "admin_action \<Rightarrow> bool" where
  "action_has_id (Add_Success k p) = (\<exists>i. jget ''id'' p = Some (JStr i))"
| "action_has_id (Patch_Success k p) = (\<exists>i. jget ''id'' p = Some (JStr i))"
| "action_has_id (Delete_Success k p) = (\<exists>i. p = JStr i)"
| "action_has_id (Get_Success k p) = False"
| "action_has_id _ = True"

section \<open>Response bodies of the backend\<close>

definition course_json :: "course_row \<Rightarrow> (string \<times> json) list" where
  "course_json c =
     [(''id'', JStr (c_id c)), (''title'', JStr (c_title c)), (''description'', JStr (c_description c)),
      (''category'', JStr (c_category c)), (''price'', JNum (c_price c)), (''teacherId'', JStr (c_teacherId c)),
      (''createdAt'', JNum (c_created c))]"

text \<open>A course of \<open>GET /courses\<close>, with \<open>teacher\<close> and \<open>_count\<close> included.\<close>

definition course_list_json :: "db \<Rightarrow> course_row \<Rightarrow> json" where
  "course_list_json d c =
     JObj (course_json c @
       [(''teacher'', case find_user d (c_teacherId c) of
                        None \<Rightarrow> JNull
                      | Some u \<Rightarrow> JObj [(''id'', JStr (u_id u)), (''name'', JStr (u_name u)),
                                      (''email'', JStr (u_email u)), (''role'', JStr (u_role u))]),
        (''_count'', JObj [(''videos'', JNum (int (length (filter (\<lambda>v. v_courseId v = c_id c) (videos d))))),
                          (''enrollments'', JNum (int (length (filter (\<lambda>e. e_courseId e = c_id c) (enrollments d)))))])])"

text \<open>\<open>res.json({data: items, pagination: {total, page, limit, pages}})\<close>.\<close>

definition course_page_json :: "db \<Rightarrow> course_row page \<Rightarrow> json" where
  "course_page_json d pg =
     JObj [(''data'', JArr (map (course_list_json d) (pg_data pg))),
           (''pagination'', JObj [(''total'', JNum (int (pg_total pg))), (''page'', JNum (pg_page pg)),
                                 (''limit'', JNum (pg_limit pg)), (''pages'', JNum (int (pg_pages pg)))])]"

text \<open>\<open>res.status(201).json({msg, user})\<close> of \<open>POST /users/register\<close>.\<close>

definition register_json :: "user_public \<Rightarrow> json" where
  "register_json p =
     JObj [(''msg'', JStr ''Registration successful''),
           (''user'', JObj [(''id'', JStr (pu_id p)), (''name'', JStr (pu_name p)),
                           (''email'', JStr (pu_email p)), (''role'', JStr (pu_role p))])]"

text \<open>
  A \<open>PATCH\<close> request: the backend declares no route for the method (see
  \<open>backend_routes\<close>), so Express's fallback answers 404 for every path.
\<close>

definition backend_patch :: "string list \<Rightarrow> db \<Rightarrow> json result \<times> db" where
  "backend_patch path d = (Inl Not_Found, d)"

section \<open>The thunks\<close>

text \<open>\<open>authHeader()\<close>: the saved session's token if truthy, else the legacy key.\<close>

definition admin_auth_header :: "browser \<Rightarrow> auth_header" where
  "admin_auth_header b =
     (let t = (case ls_user b of
                 Some u \<Rightarrow> if tok_truthy (uo_token u) then uo_token u else ls_token b
               | None \<Rightarrow> ls_token b)
      in case t of None \<Rightarrow> No_Header | Some x \<Rightarrow> if x = Malformed [] then No_Header else Bearer x)"

record admin_client =
  ac_state :: admin_state
  ac_ls :: browser

definition ac_dispatch :: "admin_action \<Rightarrow> admin_client \<Rightarrow> admin_client" where
  "ac_dispatch a c = c\<lparr>ac_state := admin_reducer (ac_state c) a\<rparr>"

text \<open>
  \<open>getProduct(page, limit, search, order)\<close>: \<open>GET /courses\<close> with \<open>page\<close>, \<open>limit\<close>,
  \<open>search\<close> when given and \<open>sort: "price:" + order\<close>, a parameter the route does not read;
  the payload is \<open>{items: data.items || [], total: data.total ?? 0, page: data.page ?? page,
  limit: data.limit ?? limit}\<close>.
\<close>

definition get_product :: "nat \<Rightarrow> nat \<Rightarrow> string \<Rightarrow> string \<Rightarrow> db \<Rightarrow> admin_client \<Rightarrow> admin_client" where
  "get_product pg lmt search order d c =
     (let c1 = ac_dispatch Product_Request c;
          q = \<lparr>cq_search = search, cq_order = [], cq_page = show_nat pg, cq_limit = show_nat lmt,
               cq_category = [], cq_minPrice = None, cq_maxPrice = None\<rparr>;
          data = course_page_json d (list_courses q d);
          p = (if is_array data then data
               else JObj [(''items'', jor (jget ''items'' data) (JArr [])), (''total'', jnullish (jget ''total'' data) (JNum 0)),
                          (''page'', jnullish (jget ''page'' data) (JNum (int pg))),
                          (''limit'', jnullish (jget ''limit'' data) (JNum (int lmt)))])
      in ac_dispatch (Get_Success Courses_List p) c1)"

text \<open>\<open>addProduct(payload)\<close>: \<open>POST /courses\<close>; the created course is prepended.\<close>

definition add_product :: "request_env \<Rightarrow> course_body \<Rightarrow> db \<Rightarrow> admin_client \<Rightarrow> admin_client \<times> db" where
  "add_product env b d c =
     (let c1 = ac_dispatch Product_Request c in
      case route_create_course env (admin_auth_header (ac_ls c)) b d of
        (Inr co, d') \<Rightarrow> (ac_dispatch (Add_Success Courses_List (JObj (course_json co))) c1, d')
      | (Inl _, d') \<Rightarrow> (ac_dispatch Product_Failure c1, d'))"

text \<open>\<open>patchProduct\<close>, \<open>patchUser\<close>, \<open>patchVideo\<close>: \<open>axios.patch\<close> to the resource.\<close>

definition patch_resource :: "list_kind \<Rightarrow> string \<Rightarrow> db \<Rightarrow> admin_client \<Rightarrow> admin_client \<times> db" where
  "patch_resource k i d c =
     (let c1 = ac_dispatch Product_Request c;
          path = [case k of Courses_List \<Rightarrow> ''courses'' | Users_List \<Rightarrow> ''users'' | Videos_List \<Rightarrow> ''videos'', i]
      in case backend_patch path d of
           (Inr data, d') \<Rightarrow> (ac_dispatch (Patch_Success k data) c1, d')
         | (Inl _, d') \<Rightarrow> (ac_dispatch Product_Failure c1, d'))"

text \<open>\<open>deleteProduct\<close>, \<open>deleteUser\<close>, \<open>deleteVideo\<close>: \<open>DELETE\<close> the resource, then drop it by id.\<close>

definition delete_resource :: "request_env \<Rightarrow> list_kind \<Rightarrow> string \<Rightarrow> db \<Rightarrow> admin_client \<Rightarrow> admin_client \<times> db" where
  "delete_resource env k i d c =
     (let c1 = ac_dispatch Product_Request c;
          h = admin_auth_header (ac_ls c);
          (r, d') = (case k of Courses_List \<Rightarrow> route_delete_course env h i d
                     | Users_List \<Rightarrow> route_delete_user env h i d
                     | Videos_List \<Rightarrow> route_delete_video env h i d)
      in case r of
           Inr _ \<Rightarrow> (ac_dispatch (Delete_Success k (JStr i)) c1, d')
         | Inl _ \<Rightarrow> (ac_dispatch Product_Failure c1, d'))"

text \<open>\<open>addUser(payload)\<close>: \<open>POST /users/register\<close>; the whole body \<open>{msg, user}\<close> is prepended.\<close>

definition add_user :: "int \<Rightarrow> register_body \<Rightarrow> db \<Rightarrow> admin_client \<Rightarrow> admin_client \<times> db" where
  "add_user now b d c =
     (let c1 = ac_dispatch Product_Request c in
      case route_register now b d of
        (Inr p, d') \<Rightarrow> (ac_dispatch (Add_Success Users_List (register_json p)) c1, d')
      | (Inl _, d') \<Rightarrow> (ac_dispatch Product_Failure c1, d'))"

section \<open>The list thunks of users and videos\<close>


definition route_list_users :: "request_env \<Rightarrow> auth_header \<Rightarrow> string \<Rightarrow> string \<Rightarrow> db \<Rightarrow> user_row list result \<times> db" where
  "route_list_users env h search role = guarded env h [''ADMIN''] (\<lambda>_ d. (Inr (list_users search role d), d))"

text \<open>A user of \<open>GET /users\<close>: the selected columns.\<close>

definition user_list_json :: "user_row \<Rightarrow> json" where
  "user_list_json u =
     JObj [(''id'', JStr (u_id u)), (''name'', JStr (u_name u)), (''email'', JStr (u_email u)),
           (''role'', JStr (u_role u)), (''age'', case u_age u of None \<Rightarrow> JNull | Some a \<Rightarrow> JNum a),
           (''place'', case u_place u of None \<Rightarrow> JNull | Some p \<Rightarrow> JStr p), (''createdAt'', JNum (u_created u))]"

text \<open>A video as \<open>GET /videos\<close> and \<open>POST /videos\<close> answer it (\<open>updatedAt\<close> is not a column of the model).\<close>

definition video_json :: "video_row \<Rightarrow> json" where
  "video_json v =
     JObj [(''id'', JStr (v_id v)), (''title'', JStr (v_title v)), (''link'', JStr (v_link v)),
           (''views'', JNum (v_views v)), (''img'', JStr (v_img v)), (''description'', JStr (v_description v)),
           (''courseId'', JStr (v_courseId v)), (''createdAt'', JNum (v_created v))]"

definition video_page_json :: "video_row page \<Rightarrow> json" where
  "video_page_json pg =
     JObj [(''data'', JArr (map video_json (pg_data pg))),
           (''pagination'', JObj [(''total'', JNum (int (pg_total pg))), (''page'', JNum (pg_page pg)),
                                 (''limit'', JNum (pg_limit pg)), (''pages'', JNum (int (pg_pages pg)))])]"

text \<open>
  The payload \<open>Array.isArray(data) ? data : {items: data.items || [], total: data.total ?? 0,
  page, limit}\<close> that \<open>getUsers\<close> and \<open>getVideos\<close> dispatch.
\<close>

definition list_payload :: "json \<Rightarrow> nat \<Rightarrow> nat \<Rightarrow> json" where
  "list_payload data pg lmt =
     (if is_array data then data
      else JObj [(''items'', jor (jget ''items'' data) (JArr [])), (''total'', jnullish (jget ''total'' data) (JNum 0)),
                 (''page'', JNum (int pg)), (''limit'', JNum (int lmt))])"

text \<open>\<open>getUsers(page, limit, search, role)\<close>: \<open>GET /users\<close>; the route reads only \<open>search\<close> and \<open>role\<close>.\<close>

definition get_users :: "request_env \<Rightarrow> nat \<Rightarrow> nat \<Rightarrow> string \<Rightarrow> string \<Rightarrow> db \<Rightarrow> admin_client \<Rightarrow> admin_client" where
  "get_users env pg lmt search role d c =
     (let c1 = ac_dispatch Product_Request c in
      case fst (route_list_users env (admin_auth_header (ac_ls c)) search role d) of
        Inr us \<Rightarrow> ac_dispatch (Get_Success Users_List (list_payload (JArr (map user_list_json us)) pg lmt)) c1
      | Inl _ \<Rightarrow> ac_dispatch Product_Failure c1)"

text \<open>\<open>getVideos(courseId, page, limit)\<close>: \<open>GET /videos\<close>, a public route.\<close>

definition get_videos :: "string \<Rightarrow> nat \<Rightarrow> nat \<Rightarrow> db \<Rightarrow> admin_client \<Rightarrow> admin_client" where
  "get_videos cid pg lmt d c =
     (let c1 = ac_dispatch Product_Request c;
          q = \<lparr>vq_courseId = cid, vq_search = [], vq_page = show_nat pg, vq_limit = show_nat lmt\<rparr>
      in ac_dispatch (Get_Success Videos_List (list_payload (video_page_json (list_videos q d)) pg lmt)) c1)"

text \<open>\<open>addVideo(payload, courseId)\<close>: \<open>POST /videos\<close> with \<open>{...payload, courseId}\<close>.\<close>

definition add_video :: "request_env \<Rightarrow> video_body \<Rightarrow> string \<Rightarrow> db \<Rightarrow> admin_client \<Rightarrow> admin_client \<times> db" where
  "add_video env b cid d c =
     (let c1 = ac_dispatch Product_Request c in
      case route_create_video env (admin_auth_header (ac_ls c)) (b\<lparr>vb_courseId := Some cid\<rparr>) d of
        (Inr v, d') \<Rightarrow> (ac_dispatch (Add_Success Videos_List (video_json v)) c1, d')
      | (Inl _, d') \<Rightarrow> (ac_dispatch Product_Failure c1, d'))"

section \<open>Example\<close>

definition demo_admin_client :: admin_client where
  "demo_admin_client = \<lparr>ac_state = admin_initial, ac_ls = no_storage\<lparr>ls_token := Some (demo_token ''ad'' ''ADMIN'')\<rparr>\<rparr>"

section \<open>Properties\<close>

lemma ad_list_set [simp]: "ad_list k (ad_set_list k' xs s) = (if k = k' then xs else ad_list k s)"
  by (cases k; cases k') (simp_all add: ad_list_def ad_set_list_def)

lemma ad_list_flags [simp]:
  "ad_list k (s\<lparr>ad_isLoading := l\<rparr>) = ad_list k s" "ad_list k (s\<lparr>ad_isError := e\<rparr>) = ad_list k s"
  "ad_list k (s\<lparr>ad_total := t, ad_page := p, ad_limit := m\<rparr>) = ad_list k s"
  by (cases k; simp add: ad_list_def)+

lemma id_map_Cons:
  "jget ''id'' p = Some (JStr i) \<Longrightarrow> id_map (p # xs) = (id_map xs)(i \<mapsto> p)"
  by (auto simp: id_map_def)

lemma id_map_filter:
  "id_map (filter (\<lambda>x. jget ''id'' x \<noteq> Some (JStr i)) xs) = (id_map xs)(i := None)"
  by (induction xs) (auto simp: id_map_def fun_eq_iff)

lemma find_patch_other:
  "b \<noteq> i \<Longrightarrow> jget ''id'' p = Some (JStr i) \<Longrightarrow>
   find (\<lambda>x. jget ''id'' x = Some (JStr b)) (map (\<lambda>x. if jget ''id'' x = Some (JStr i) then p else x) xs) =
   find (\<lambda>x. jget ''id'' x = Some (JStr b)) xs"
  by (induction xs) auto

lemma find_patch_same:
  "jget ''id'' p = Some (JStr i) \<Longrightarrow>
   find (\<lambda>x. jget ''id'' x = Some (JStr i)) (map (\<lambda>x. if jget ''id'' x = Some (JStr i) then p else x) xs) =
   (if find (\<lambda>x. jget ''id'' x = Some (JStr i)) xs = None then None else Some p)"
  by (induction xs) auto

lemma id_map_patch:
  assumes "jget ''id'' p = Some (JStr i)"
  shows "id_map (map (\<lambda>x. if jget ''id'' x = Some (JStr i) then p else x) xs) =
         (if id_map xs i = None then id_map xs else (id_map xs)(i \<mapsto> p))"
proof (rule ext)
  fix b
  show "id_map (map (\<lambda>x. if jget ''id'' x = Some (JStr i) then p else x) xs) b =
        (if id_map xs i = None then id_map xs else (id_map xs)(i \<mapsto> p)) b"
    using find_patch_other [of b i p xs] find_patch_same [OF assms, of xs] assms
    by (cases "b = i") (auto simp: id_map_def)
qed

text \<open>
  C38. The admin store refines a finite map from ids to objects: every add, patch and
  delete whose object or key carries a string id changes what each list shows exactly
  as the corresponding map operation, and the other actions leave the lists' contents
  as they are.
\<close>

theorem admin_list_refines:
  assumes "action_has_id a"
  shows "id_map (ad_list k (admin_reducer s a)) = abs_admin_step k a (id_map (ad_list k s))"
  using assms
proof (cases a)
  case (Add_Success k' p)
  with assms show ?thesis by (auto simp: id_map_Cons)
next
  case (Patch_Success k' p)
  with assms show ?thesis by (auto simp: id_map_patch)
next
  case (Delete_Success k' p)
  with assms show ?thesis by (auto simp: id_map_filter)
qed simp_all

text \<open>
  C40. The admin course list never shows a course: \<open>getProduct\<close> reads \<open>data.items\<close>
  and \<open>data.total\<close>, but \<open>GET /courses\<close> answers \<open>{data, pagination}\<close>, so whatever
  the backend holds, the list is empty and the total 0.
\<close>

theorem get_product_shows_nothing:
  "ad_data (ac_state (get_product pg lmt search order d c)) = [] \<and>
   ad_total (ac_state (get_product pg lmt search order d c)) = JNum 0 \<and>
   ad_page (ac_state (get_product pg lmt search order d c)) = JNum (int pg)"
  by (simp add: get_product_def ac_dispatch_def course_page_json_def payload_items_def jor_def
                jnullish_def Let_def ad_set_list_def)

lemma patch_resource_fails:
  "patch_resource k i d c =
     (c\<lparr>ac_state := (ac_state c)\<lparr>ad_isLoading := False, ad_isError := True\<rparr>\<rparr>, d) \<and>
   \<not> route_exists PATCH [case k of Courses_List \<Rightarrow> ''courses'' | Users_List \<Rightarrow> ''users'' | Videos_List \<Rightarrow> ''videos'', i]"
  by (simp add: patch_resource_def backend_patch_def ac_dispatch_def no_patch_route)

lemma route_delete_course_gone:
  "route_delete_course env h i d = (Inr x, d') \<Longrightarrow> find_course d' i = None"
  by (auto simp: route_delete_course_def guarded_def delete_course_def delete_course_rows_def find_course_def
                 find_None_iff split: sum.splits option.splits if_splits)

text \<open>
  C39. A course deletion the admin store reports as done (no error flag) has removed the
  course from the backend and every object with its id from the admin course list.
\<close>

theorem delete_resource_consistent:
  assumes "delete_resource env Courses_List i d c = (c', d')" and "\<not> ad_isError (ac_state c')"
  shows "find_course d' i = None \<and> (\<forall>x \<in> set (ad_data (ac_state c')). jget ''id'' x \<noteq> Some (JStr i))"
proof (cases "route_delete_course env (admin_auth_header (ac_ls c)) i d")
  case (Pair r d1)
  show ?thesis
  proof (cases r)
    case (Inl e)
    with Pair assms show ?thesis by (auto simp: delete_resource_def ac_dispatch_def)
  next
    case (Inr x)
    with Pair assms route_delete_course_gone [of env "admin_auth_header (ac_ls c)" i d x d1]
    show ?thesis by (auto simp: delete_resource_def ac_dispatch_def ad_set_list_def ad_list_def)
  qed
qed

text \<open>
  The admin thunks' \<open>authHeader()\<close> and the API client's request interceptor attach
  the same \<open>Authorization\<close> header for every state of the storage.
\<close>

theorem auth_headers_agree: "admin_auth_header b = request_header b"
  by (simp add: admin_auth_header_def request_header_def read_token_def tok_or_def tok_truthy_def
           split: option.splits)

lemma add_user_entry_has_no_id:
  "route_register now b d = (Inr p, d') \<Longrightarrow>
   hd (ad_users (ac_state (fst (add_user now b d c)))) = register_json p \<and> jget ''id'' (register_json p) = None"
  by (simp add: add_user_def ac_dispatch_def register_json_def ad_set_list_def ad_list_def)

theorem admin_list_refines_witness:
  "id_map (ad_list Courses_List (admin_reducer admin_initial (Add_Success Courses_List (JObj [(''id'', JStr ''c1'')])))) =
   abs_admin_step Courses_List (Add_Success Courses_List (JObj [(''id'', JStr ''c1'')])) (id_map (ad_list Courses_List admin_initial))"
  by (rule admin_list_refines) simp

theorem delete_resource_consistent_witness:
  "find_course (snd (delete_resource demo_env Courses_List ''k8s'' demo_db demo_admin_client)) ''k8s'' = None \<and>
   list_all (\<lambda>x. jget ''id'' x \<noteq> Some (JStr ''k8s''))
     (ad_data (ac_state (fst (delete_resource demo_env Courses_List ''k8s'' demo_db demo_admin_client))))"
proof -
  have "\<not> ad_isError (ac_state (fst (delete_resource demo_env Courses_List ''k8s'' demo_db demo_admin_client)))"
    by code_simp
  from delete_resource_consistent [OF prod.collapse [symmetric] this] show ?thesis
    by (simp add: list_all_iff)
qed

lemma get_videos_shows_nothing:
  "ad_videos (ac_state (get_videos cid pg lmt d c)) = [] \<and> ad_total (ac_state (get_videos cid pg lmt d c)) = JNum 0"
  by (simp add: get_videos_def ac_dispatch_def video_page_json_def list_payload_def payload_items_def jor_def
                jnullish_def Let_def ad_set_list_def)

lemma get_users_lists:
  assumes "auth env (admin_auth_header (ac_ls c)) = Inr u" and "su_role u = ''ADMIN''"
  shows "ad_users (ac_state (get_users env pg lmt search role d c)) = map user_list_json (list_users search role d) \<and>
         \<not> ad_isError (ac_state (get_users env pg lmt search role d c))"
proof -
  have "route_list_users env (admin_auth_header (ac_ls c)) search role d = (Inr (list_users search role d), d)"
    unfolding route_list_users_def
    by (rule guarded_Inr [OF assms(1)]) (simp add: auth_role_upper [OF assms(1)] assms(2))
  then show ?thesis
    by (simp add: get_users_def ac_dispatch_def list_payload_def payload_items_def ad_set_list_def)
qed

lemma add_video_appends:
  assumes "route_create_video env (admin_auth_header (ac_ls c)) (b\<lparr>vb_courseId := Some cid\<rparr>) d = (Inr v, d')"
  shows "add_video env b cid d c = (c\<lparr>ac_state := (ac_state c)\<lparr>ad_videos := video_json v # ad_videos (ac_state c),
                                        ad_isLoading := False, ad_isError := False\<rparr>\<rparr>, d')"
  using assms by (simp add: add_video_def ac_dispatch_def ad_set_list_def ad_list_def)

end
