(* ===== verification/AdminPages.thy ===== *)
theory AdminPages
  imports AdminStore
begin

text \<open>
  The admin pages of the frontend (src/frontend/src/components/Adminitems): the forms
  \<open>AddCourse.jsx\<close> and \<open>AddUser.jsx\<close>, the live lists \<open>Courses.jsx\<close>, \<open>GetVideos.jsx\<close>
  and \<open>Discount.jsx\<close>. A page's React state is a record; a handler is a function of
  that record, the browser's storage (for the API client's interceptors) and the
  backend store, returning the toast it shows and where it navigates. A state change
  that re-runs \<open>load\<close> through a \<open>useEffect\<close> is followed by that load here.
\<close>

section \<open>What a handler shows\<close>

datatype ui_notice =
    No_Toast
  | Success_Toast
  | Warning_Toast
  | Invalid_Form_Toast
  | Request_Failed http_error
  | Script_Error string

section \<open>Paging shared by the lists\<close>

text \<open>
  The \<open>pagination\<close> object a list page keeps as \<open>meta\<close>: \<open>{total, page, pages}\<close>.
  The three lists repeat the same code for the paging buttons and for the page shown
  after a deletion; the helpers below are that code, each page's own definitions use them.
\<close>

record list_meta =
  lm_total :: nat
  lm_page :: int
  lm_pages :: nat

definition meta_initial :: list_meta where
  "meta_initial = \<lparr>lm_total = 0, lm_page = 1, lm_pages = 1\<rparr>"

definition meta_of_page :: "'a page \<Rightarrow> list_meta" where
  "meta_of_page pg = \<lparr>lm_total = pg_total pg, lm_page = pg_page pg, lm_pages = pg_pages pg\<rparr>"

text \<open>\<open>Math.ceil(n / l)\<close> for a positive \<open>l\<close>.\<close>

definition ceil_div :: "int \<Rightarrow> int \<Rightarrow> int" where
  "ceil_div n l = - ((- n) div l)"

text \<open>\<open>setPage((p) => Math.max(1, p - 1))\<close>.\<close>

definition page_prev :: "nat \<Rightarrow> nat" where
  "page_prev p = max 1 (p - 1)"

text \<open>\<open>setPage((p) => Math.min(meta.pages || 1, p + 1))\<close>.\<close>

definition page_next :: "list_meta \<Rightarrow> nat \<Rightarrow> nat" where
  "page_next m p = min (if lm_pages m = 0 then 1 else lm_pages m) (p + 1)"

text \<open>
  After a deletion: \<open>nextCount = meta.total - 1; lastPage = Math.max(1,
  Math.ceil(nextCount / limit)); if (page > lastPage) setPage(lastPage)\<close>.
\<close>

definition page_after_delete :: "list_meta \<Rightarrow> nat \<Rightarrow> nat \<Rightarrow> nat" where
  "page_after_delete m lmt p =
     (let lastPage = nat (max 1 (ceil_div (int (lm_total m) - 1) (int lmt)))
      in if p > lastPage then lastPage else p)"

section \<open>Admin \<open>AddCourse.jsx\<close>\<close>

record course_form =
  cf_title :: string
  cf_description :: string
  cf_category :: string
  cf_price :: string
  cf_img :: string
  cf_teacherId :: string

definition course_form_initial :: course_form where
  "course_form_initial = \<lparr>cf_title = [], cf_description = [], cf_category = [], cf_price = [],
     cf_img = [], cf_teacherId = []\<rparr>"

text \<open>The effect that fills \<open>teacherId\<close> from the stored session's \<open>userId\<close>.\<close>

definition course_form_prefill :: "browser \<Rightarrow> course_form \<Rightarrow> course_form" where
  "course_form_prefill b f =
     (case ls_user b of
        Some u \<Rightarrow> if js_truthy (uo_userId u) \<and> cf_teacherId f = [] then f\<lparr>cf_teacherId := js_str (uo_userId u)\<rparr> else f
      | None \<Rightarrow> f)"

definition course_form_valid :: "course_form \<Rightarrow> bool" where
  "course_form_valid f \<longleftrightarrow>
     js_trim (cf_title f) \<noteq> [] \<and> js_trim (cf_description f) \<noteq> [] \<and> js_trim (cf_category f) \<noteq> [] \<and>
     (case js_number_of (Some (cf_price f)) of Num p \<Rightarrow> 0 \<le> p | NaN \<Rightarrow> False) \<and>
     js_trim (cf_teacherId f) \<noteq> []"

text \<open>The payload; \<open>img\<close> is sent too, the route has no field for it.\<close>

definition course_form_body :: "course_form \<Rightarrow> course_body" where
  "course_form_body f =
     \<lparr>cb_title = Some (js_trim (cf_title f)), cb_description = Some (js_trim (cf_description f)),
      cb_category = Some (js_trim (cf_category f)), cb_price = Some (js_number_of (Some (cf_price f))),
      cb_teacherId = Some (js_trim (cf_teacherId f))\<rparr>"

text \<open>
  \<open>onSubmit\<close>: \<open>CourseAPI.create(payload)\<close> through the API client, then the legacy
  \<open>dispatch(addProduct(payload))\<close>, whose thunk posts the same payload again, then the
  toast and \<open>navigate("/admin/courses")\<close>. A failed request shows the error; when the
  interceptor gave up on the session the browser is sent to \<open>/login\<close>.
\<close>

definition add_course_submit ::
  "request_env \<Rightarrow> course_form \<Rightarrow> admin_client \<Rightarrow> db \<Rightarrow> ui_notice \<times> string option \<times> admin_client \<times> db" where
  "add_course_submit env f c d =
     (if \<not> course_form_valid f then (Invalid_Form_Toast, None, c, d)
      else
        let body = course_form_body f in
        case api_call env (\<lambda>h. route_create_course env h body) (ac_ls c) d of
          (Inl e, b1, d1, red) \<Rightarrow> (Request_Failed e, if red then Some ''/login'' else None, c\<lparr>ac_ls := b1\<rparr>, d1)
        | (Inr _, b1, d1, _) \<Rightarrow>
            (case add_product env body d1 (c\<lparr>ac_ls := b1\<rparr>) of
               (c2, d2) \<Rightarrow> (Success_Toast, Some ''/admin/courses'', c2, d2)))"

section \<open>Admin \<open>AddUser.jsx\<close>\<close>

record user_form =
  uf_name :: string
  uf_email :: string
  uf_password :: string
  uf_role :: string
  uf_age :: string
  uf_place :: string
  uf_image :: string

definition user_form_initial :: user_form where
  "user_form_initial = \<lparr>uf_name = [], uf_email = [], uf_password = [], uf_role = ''USER'', uf_age = [],
     uf_place = [], uf_image = []\<rparr>"

definition admin_form_roles :: "string list" where
  "admin_form_roles = [''USER'', ''TEACHER'', ''ADMIN'']"

definition user_form_valid :: "user_form \<Rightarrow> bool" where
  "user_form_valid f \<longleftrightarrow>
     js_includes (uf_email f) ''@'' \<and> 6 \<le> length (uf_password f) \<and> js_trim (uf_name f) \<noteq> [] \<and>
     js_upper (uf_role f) \<in> set admin_form_roles \<and>
     (uf_age f = [] \<or> (case js_number_of (Some (uf_age f)) of Num n \<Rightarrow> 0 \<le> n | NaN \<Rightarrow> False))"

text \<open>The payload: trimmed name and email, upper-cased role, \<open>age\<close> a number or absent.\<close>

definition user_form_payload :: "user_form \<Rightarrow> register_body" where
  "user_form_payload f =
     \<lparr>rb_email = Some (js_trim (uf_email f)), rb_password = Some (uf_password f),
      rb_name = Some (js_trim (uf_name f)),
      rb_role = Some (js_upper (if uf_role f = [] then ''USER'' else uf_role f)),
      rb_age = (if uf_age f = [] then None
                else case js_number_of (Some (uf_age f)) of Num n \<Rightarrow> Some n | NaN \<Rightarrow> None),
      rb_place = (if js_trim (uf_place f) = [] then None else Some (js_trim (uf_place f)))\<rparr>"

text \<open>The legacy body \<open>{...form, role}\<close>: the fields as typed, the role upper-cased.\<close>

definition user_form_legacy :: "user_form \<Rightarrow> register_body" where
  "user_form_legacy f =
     \<lparr>rb_email = Some (uf_email f), rb_password = Some (uf_password f), rb_name = Some (uf_name f),
      rb_role = rb_role (user_form_payload f),
      rb_age = (case js_number_of (Some (uf_age f)) of Num n \<Rightarrow> Some n | NaN \<Rightarrow> None),
      rb_place = Some (uf_place f)\<rparr>"

text \<open>The members of the \<open>UserAPI\<close> object (src/frontend/src/api.js).\<close>

definition user_api_members :: "string list" where
  "user_api_members = [''register'', ''login'', ''logout'', ''profile'', ''enrolled'', ''progress'',
     ''certificates'', ''list'', ''getById'', ''update'', ''remove'']"

text \<open>
  \<open>handleSubmit\<close>: \<open>await UserAPI.signup(payload)\<close>. Calling a member the object does
  not have throws a \<open>TypeError\<close> before any request is sent, and the \<open>catch\<close> shows its
  message. Were the member there, it would be \<open>POST /users/register\<close>, then the legacy
  \<open>addUser\<close> thunk, then \<open>navigate("/admin/users")\<close>.
\<close>

definition add_user_submit ::
  "int \<Rightarrow> user_form \<Rightarrow> admin_client \<Rightarrow> db \<Rightarrow> ui_notice \<times> string option \<times> admin_client \<times> db" where
  "add_user_submit now f c d =
     (if \<not> user_form_valid f then (Invalid_Form_Toast, None, c, d)
      else if ''signup'' \<notin> set user_api_members
      then (Script_Error ''UserAPI.signup is not a function'', None, c, d)
      else
        case route_register now (user_form_payload f) d of
          (Inl e, d1) \<Rightarrow> (Request_Failed e, None, c, d1)
        | (Inr _, d1) \<Rightarrow>
            (case add_user now (user_form_legacy f) d1 c of
               (c2, d2) \<Rightarrow> (Success_Toast, Some ''/admin/users'', c2, d2)))"

section \<open>Admin \<open>Courses.jsx\<close>\<close>

text \<open>
  The page's state: the rows and \<open>meta\<close> of the last load, the filters, \<open>limit\<close>
  (\<open>PAGE_SIZE = 8\<close> at first) and \<open>page\<close>, and the session read once when it mounts.
\<close>

record courses_view =
  cv_items :: "course_row list"
  cv_meta :: list_meta
  cv_search :: string
  cv_category :: string
  cv_order :: string
  cv_limit :: nat
  cv_page :: nat
  cv_me :: "user_obj option"

text \<open>\<open>CourseAPI.list({page, limit, search, order, category})\<close> as the route reads it.\<close>

definition courses_query :: "courses_view \<Rightarrow> course_query" where
  "courses_query v =
     \<lparr>cq_search = cv_search v, cq_order = cv_order v, cq_page = show_nat (cv_page v),
      cq_limit = show_nat (cv_limit v), cq_category = cv_category v, cq_minPrice = None, cq_maxPrice = None\<rparr>"

text \<open>\<open>load\<close>: \<open>GET /courses\<close> is public; \<open>items = data.data\<close>, \<open>meta = data.pagination\<close>.\<close>

definition courses_load :: "courses_view \<Rightarrow> db \<Rightarrow> courses_view" where
  "courses_load v d =
     (let pg = list_courses (courses_query v) d in v\<lparr>cv_items := pg_data pg, cv_meta := meta_of_page pg\<rparr>)"

definition courses_mount :: "browser \<Rightarrow> db \<Rightarrow> courses_view" where
  "courses_mount b d =
     courses_load \<lparr>cv_items = [], cv_meta = meta_initial, cv_search = [], cv_category = [], cv_order = [],
                   cv_limit = 8, cv_page = 1, cv_me = ls_user b\<rparr> d"

text \<open>
  A change of \<open>page\<close>, \<open>limit\<close> or a filter re-runs \<open>load\<close> through its effect; setting
  a state to the value it has re-renders nothing.
\<close>

definition courses_set :: "courses_view \<Rightarrow> courses_view \<Rightarrow> db \<Rightarrow> courses_view" where
  "courses_set v' v d = (if v' = v then v else courses_load v' d)"

datatype list_input = Set_Search string | Set_Category string | Set_Order string | Set_Limit nat
  | Page_Prev | Page_Next

text \<open>
  The search box, the two selects and the limit select reset \<open>page\<close> to 1. The limit
  select offers fixed numerals, so \<open>Number(e.target.value) || PAGE_SIZE\<close> is the
  chosen number, \<open>PAGE_SIZE\<close> for 0.
\<close>

definition limit_choice :: "nat \<Rightarrow> nat \<Rightarrow> nat" where
  "limit_choice n dflt = (if n = 0 then dflt else n)"

fun courses_input :: "list_input \<Rightarrow> courses_view \<Rightarrow> db \<Rightarrow> courses_view" where
  "courses_input (Set_Search s) v d = courses_set (v\<lparr>cv_search := s, cv_page := 1\<rparr>) v d"
| "courses_input (Set_Category s) v d = courses_set (v\<lparr>cv_category := s, cv_page := 1\<rparr>) v d"
| "courses_input (Set_Order s) v d = courses_set (v\<lparr>cv_order := s, cv_page := 1\<rparr>) v d"
| "courses_input (Set_Limit n) v d = courses_set (v\<lparr>cv_limit := limit_choice n 8, cv_page := 1\<rparr>) v d"
| "courses_input Page_Prev v d = courses_set (v\<lparr>cv_page := page_prev (cv_page v)\<rparr>) v d"
| "courses_input Page_Next v d = courses_set (v\<lparr>cv_page := page_next (cv_meta v) (cv_page v)\<rparr>) v d"

text \<open>\<open>canDelete(row)\<close>: an ADMIN, or a TEACHER whose \<open>userId\<close> is the row's \<open>teacherId\<close>.\<close>

definition my_role :: "user_obj option \<Rightarrow> string" where
  "my_role u = js_upper (js_str (case u of None \<Rightarrow> None | Some x \<Rightarrow> uo_role x))"

definition my_id :: "user_obj option \<Rightarrow> string" where
  "my_id u = js_str (case u of None \<Rightarrow> None | Some x \<Rightarrow> uo_userId x)"

definition courses_can_delete :: "user_obj option \<Rightarrow> course_row \<Rightarrow> bool" where
  "courses_can_delete u row \<longleftrightarrow>
     my_role u = ''ADMIN'' \<or> (my_role u = ''TEACHER'' \<and> c_teacherId row = my_id u)"

text \<open>
  \<open>doDelete(id, row)\<close>: the guard, the confirmation, \<open>CourseAPI.remove(id)\<close>, then the
  page after the deletion is loaded (by \<open>setPage\<close> or by \<open>load()\<close>).
\<close>

definition courses_delete ::
  "request_env \<Rightarrow> bool \<Rightarrow> course_row \<Rightarrow> courses_view \<Rightarrow> browser \<Rightarrow> db \<Rightarrow>
   ui_notice \<times> courses_view \<times> browser \<times> db" where
  "courses_delete env confirmed row v b d =
     (if \<not> courses_can_delete (cv_me v) row then (Warning_Toast, v, b, d)
      else if \<not> confirmed then (No_Toast, v, b, d)
      else case api_call env (\<lambda>h. route_delete_course env h (c_id row)) b d of
        (Inl e, b1, d1, _) \<Rightarrow> (Request_Failed e, v, b1, d1)
      | (Inr _, b1, d1, _) \<Rightarrow>
          (Success_Toast,
           courses_load (v\<lparr>cv_page := page_after_delete (cv_meta v) (cv_limit v) (cv_page v)\<rparr>) d1, b1, d1))"

section \<open>Admin \<open>GetVideos.jsx\<close>\<close>

record videos_view =
  vv_items :: "video_row list"
  vv_courses :: "course_row list"
  vv_meta :: list_meta
  vv_search :: string
  vv_courseId :: string
  vv_limit :: nat
  vv_page :: nat
  vv_me :: "user_obj option"

text \<open>\<open>VideoAPI.list({search, courseId: courseId || undefined, page, limit})\<close>.\<close>

definition videos_query :: "videos_view \<Rightarrow> video_query" where
  "videos_query v =
     \<lparr>vq_courseId = vv_courseId v, vq_search = vv_search v, vq_page = show_nat (vv_page v),
      vq_limit = show_nat (vv_limit v)\<rparr>"

definition videos_load :: "videos_view \<Rightarrow> db \<Rightarrow> videos_view" where
  "videos_load v d =
     (let pg = list_videos (videos_query v) d in v\<lparr>vv_items := pg_data pg, vv_meta := meta_of_page pg\<rparr>)"

text \<open>
  On mount the page also loads \<open>CourseAPI.list({page: 1, limit: 200})\<close>, the courses it
  offers as a filter and checks ownership against.
\<close>

definition videos_mount :: "browser \<Rightarrow> db \<Rightarrow> videos_view" where
  "videos_mount b d =
     videos_load \<lparr>vv_items = [], vv_courses = pg_data (list_courses \<lparr>cq_search = [], cq_order = [],
                     cq_page = ''1'', cq_limit = ''200'', cq_category = [], cq_minPrice = None,
                     cq_maxPrice = None\<rparr> d),
                  vv_meta = meta_initial, vv_search = [], vv_courseId = [], vv_limit = 10, vv_page = 1,
                  vv_me = ls_user b\<rparr> d"

definition videos_set :: "videos_view \<Rightarrow> videos_view \<Rightarrow> db \<Rightarrow> videos_view" where
  "videos_set v' v d = (if v' = v then v else videos_load v' d)"

fun videos_input :: "list_input \<Rightarrow> videos_view \<Rightarrow> db \<Rightarrow> videos_view" where
  "videos_input (Set_Search s) v d = videos_set (v\<lparr>vv_search := s, vv_page := 1\<rparr>) v d"
| "videos_input (Set_Category s) v d = videos_set (v\<lparr>vv_courseId := s, vv_page := 1\<rparr>) v d"
| "videos_input (Set_Order s) v d = v"
| "videos_input (Set_Limit n) v d = videos_set (v\<lparr>vv_limit := limit_choice n 10, vv_page := 1\<rparr>) v d"
| "videos_input Page_Prev v d = videos_set (v\<lparr>vv_page := page_prev (vv_page v)\<rparr>) v d"
| "videos_input Page_Next v d = videos_set (v\<lparr>vv_page := page_next (vv_meta v) (vv_page v)\<rparr>) v d"

text \<open>
  \<open>canDelete(video)\<close>: an ADMIN, or a TEACHER who owns the video's course as the
  \<open>courseMap\<close> built from the loaded courses has it (a later entry of an id wins).
\<close>

definition videos_can_delete :: "user_obj option \<Rightarrow> course_row list \<Rightarrow> video_row \<Rightarrow> bool" where
  "videos_can_delete u cs row \<longleftrightarrow>
     my_role u = ''ADMIN'' \<or>
     (my_role u = ''TEACHER'' \<and>
      map_of (rev (map (\<lambda>c. (c_id c, c_teacherId c)) cs)) (v_courseId row) = Some (my_id u))"

definition videos_delete ::
  "request_env \<Rightarrow> bool \<Rightarrow> video_row \<Rightarrow> videos_view \<Rightarrow> browser \<Rightarrow> db \<Rightarrow>
   ui_notice \<times> videos_view \<times> browser \<times> db" where
  "videos_delete env confirmed row v b d =
     (if \<not> videos_can_delete (vv_me v) (vv_courses v) row then (Warning_Toast, v, b, d)
      else if \<not> confirmed then (No_Toast, v, b, d)
      else case api_call env (\<lambda>h. route_delete_video env h (v_id row)) b d of
        (Inl e, b1, d1, _) \<Rightarrow> (Request_Failed e, v, b1, d1)
      | (Inr _, b1, d1, _) \<Rightarrow>
          (Success_Toast,
           videos_load (v\<lparr>vv_page := page_after_delete (vv_meta v) (vv_limit v) (vv_page v)\<rparr>) d1, b1, d1))"

section \<open>Admin \<open>Discount.jsx\<close>\<close>

text \<open>
  The promotions page talks to \<open>/promos\<close>, a path no router of the backend declares
  (see \<open>backend_routes\<close>): every request it sends, whatever its method, query or body,
  falls through to Express's 404, which \<open>unmatched_request\<close> is.
\<close>

definition unmatched_request :: "http_method \<Rightarrow> string list \<Rightarrow> db \<Rightarrow> json result \<times> db" where
  "unmatched_request m path d = (Inl Not_Found, d)"

record promo_form =
  pf_code :: string
  pf_title :: string
  pf_description :: string
  pf_percent :: string
  pf_image :: string
  pf_startsAt :: string
  pf_endsAt :: string
  pf_active :: bool

definition promo_form_initial :: promo_form where
  "promo_form_initial = \<lparr>pf_code = [], pf_title = [], pf_description = [], pf_percent = [], pf_image = [],
     pf_startsAt = [], pf_endsAt = [], pf_active = True\<rparr>"

record promos_view =
  pv_items :: json
  pv_meta :: list_meta
  pv_backendMissing :: bool
  pv_search :: string
  pv_status :: string
  pv_page :: nat
  pv_limit :: nat
  pv_form :: promo_form
  pv_showCreate :: bool

definition promos_initial :: promos_view where
  "promos_initial = \<lparr>pv_items = JArr [], pv_meta = meta_initial, pv_backendMissing = False, pv_search = [],
     pv_status = ''ALL'', pv_page = 1, pv_limit = 9, pv_form = promo_form_initial, pv_showCreate = False\<rparr>"

text \<open>The \<open>params\<close> memo, the one dependency of \<open>load\<close>.\<close>

definition promo_params :: "promos_view \<Rightarrow> nat \<times> nat \<times> string \<times> string" where
  "promo_params v = (pv_page v, pv_limit v, pv_search v, pv_status v)"

definition json_int :: "json option \<Rightarrow> int" where
  "json_int j = (case j of Some (JNum n) \<Rightarrow> n | _ \<Rightarrow> 0)"

text \<open>
  \<open>list = data?.data || data || []\<close> and \<open>pagination = data?.pagination ||
  {total: list.length, page: 1, pages: 1}\<close>.
\<close>

definition promo_list :: "json \<Rightarrow> json" where
  "promo_list data = jor (jget ''data'' data) (jor (Some data) (JArr []))"

definition promo_meta :: "json \<Rightarrow> list_meta" where
  "promo_meta data =
     (let fallback = \<lparr>lm_total = (case promo_list data of JArr xs \<Rightarrow> length xs | _ \<Rightarrow> 0), lm_page = 1,
                      lm_pages = 1\<rparr>
      in case jget ''pagination'' data of
           Some p \<Rightarrow> if json_truthy p
                     then \<lparr>lm_total = nat (json_int (jget ''total'' p)), lm_page = json_int (jget ''page'' p),
                           lm_pages = nat (json_int (jget ''pages'' p))\<rparr>
                     else fallback
         | None \<Rightarrow> fallback)"

text \<open>\<open>load\<close>: a 404 marks the backend missing and empties the list; another error is a toast.\<close>

definition promos_load ::
  "request_env \<Rightarrow> promos_view \<Rightarrow> browser \<Rightarrow> db \<Rightarrow> ui_notice \<times> promos_view \<times> browser \<times> db" where
  "promos_load env v b d =
     (let v0 = v\<lparr>pv_backendMissing := False\<rparr> in
      case api_call env (\<lambda>h. unmatched_request GET [''promos'']) b d of
        (Inr data, b1, d1, _) \<Rightarrow> (No_Toast, v0\<lparr>pv_items := promo_list data, pv_meta := promo_meta data\<rparr>, b1, d1)
      | (Inl e, b1, d1, _) \<Rightarrow>
          if status_code e = 404
          then (No_Toast, v0\<lparr>pv_backendMissing := True, pv_items := JArr [], pv_meta := meta_initial\<rparr>, b1, d1)
          else (Request_Failed e, v0, b1, d1))"

definition promos_set ::
  "request_env \<Rightarrow> promos_view \<Rightarrow> promos_view \<Rightarrow> browser \<Rightarrow> db \<Rightarrow> ui_notice \<times> promos_view \<times> browser \<times> db" where
  "promos_set env v' v b d = (if promo_params v' = promo_params v then (No_Toast, v', b, d) else promos_load env v' b d)"

fun promos_input ::
  "request_env \<Rightarrow> list_input \<Rightarrow> promos_view \<Rightarrow> browser \<Rightarrow> db \<Rightarrow> ui_notice \<times> promos_view \<times> browser \<times> db" where
  "promos_input env (Set_Search s) v b d = promos_set env (v\<lparr>pv_search := s, pv_page := 1\<rparr>) v b d"
| "promos_input env (Set_Category s) v b d = promos_set env (v\<lparr>pv_status := s, pv_page := 1\<rparr>) v b d"
| "promos_input env (Set_Order s) v b d = (No_Toast, v, b, d)"
| "promos_input env (Set_Limit n) v b d = promos_set env (v\<lparr>pv_limit := limit_choice n 9, pv_page := 1\<rparr>) v b d"
| "promos_input env Page_Prev v b d = promos_set env (v\<lparr>pv_page := page_prev (pv_page v)\<rparr>) v b d"
| "promos_input env Page_Next v b d = promos_set env (v\<lparr>pv_page := page_next (pv_meta v) (pv_page v)\<rparr>) v b d"

text \<open>
  \<open>onCreate\<close>: code and title required, \<open>Number(percent)\<close> finite; \<open>POST /promos\<close>; on
  success the form is closed and reset and page 1 is loaded.
\<close>

definition promo_create ::
  "request_env \<Rightarrow> promos_view \<Rightarrow> browser \<Rightarrow> db \<Rightarrow> ui_notice \<times> promos_view \<times> browser \<times> db" where
  "promo_create env v b d =
     (let f = pv_form v in
      if js_trim (pf_code f) = [] \<or> js_trim (pf_title f) = [] \<or> js_number_of (Some (pf_percent f)) = NaN
      then (Invalid_Form_Toast, v, b, d)
      else case api_call env (\<lambda>h. unmatched_request POST [''promos'']) b d of
        (Inl e, b1, d1, _) \<Rightarrow> (Request_Failed e, v, b1, d1)
      | (Inr _, b1, d1, _) \<Rightarrow>
          (let v1 = v\<lparr>pv_showCreate := False, pv_form := promo_form_initial\<rparr> in
           case (if lm_page (pv_meta v) \<noteq> 1 then promos_set env (v1\<lparr>pv_page := 1\<rparr>) v1 b1 d1
                 else promos_load env v1 b1 d1) of
             (_, v2, b2, d2) \<Rightarrow> (Success_Toast, v2, b2, d2)))"

text \<open>\<open>onDelete(id)\<close>: confirmation, \<open>DELETE /promos/:id\<close>, then the page after the deletion.\<close>

definition promo_delete ::
  "request_env \<Rightarrow> bool \<Rightarrow> string \<Rightarrow> promos_view \<Rightarrow> browser \<Rightarrow> db \<Rightarrow> ui_notice \<times> promos_view \<times> browser \<times> db" where
  "promo_delete env confirmed i v b d =
     (if \<not> confirmed then (No_Toast, v, b, d)
      else case api_call env (\<lambda>h. unmatched_request DELETE [''promos'', i]) b d of
        (Inl e, b1, d1, _) \<Rightarrow> (Request_Failed e, v, b1, d1)
      | (Inr _, b1, d1, _) \<Rightarrow>
          (let p = page_after_delete (pv_meta v) (pv_limit v) (pv_page v) in
           case (if pv_page v > p then promos_set env (v\<lparr>pv_page := p\<rparr>) v b1 d1 else promos_load env v b1 d1) of
             (_, v2, b2, d2) \<Rightarrow> (Success_Toast, v2, b2, d2)))"

text \<open>\<open>onToggle(row)\<close>: \<open>PATCH /promos/:id\<close> with the flipped flag, then \<open>load()\<close>.\<close>

definition promo_toggle ::
  "request_env \<Rightarrow> string \<Rightarrow> promos_view \<Rightarrow> browser \<Rightarrow> db \<Rightarrow> ui_notice \<times> promos_view \<times> browser \<times> db" where
  "promo_toggle env i v b d =
     (case api_call env (\<lambda>h. unmatched_request PATCH [''promos'', i]) b d of
        (Inl e, b1, d1, _) \<Rightarrow> (Request_Failed e, v, b1, d1)
      | (Inr _, b1, d1, _) \<Rightarrow>
          (case promos_load env v b1 d1 of (_, v2, b2, d2) \<Rightarrow> (Success_Toast, v2, b2, d2)))"

section \<open>Invariants and examples\<close>

text \<open>The paging state every list page keeps: \<open>page\<close> at least 1 and a positive \<open>limit\<close>.\<close>

definition courses_ok :: "courses_view \<Rightarrow> bool" where
  "courses_ok v \<longleftrightarrow> 0 < cv_page v \<and> 0 < cv_limit v"

definition videos_ok :: "videos_view \<Rightarrow> bool" where
  "videos_ok v \<longleftrightarrow> 0 < vv_page v \<and> 0 < vv_limit v"

definition promos_ok :: "promos_view \<Rightarrow> bool" where
  "promos_ok v \<longleftrightarrow> 0 < pv_page v \<and> 0 < pv_limit v"

text \<open>An admin form for a course of teacher \<open>tx\<close>, and a store with two of its courses.\<close>

definition demo_course_form :: course_form where
  "demo_course_form = course_form_initial\<lparr>cf_title := '' Go '', cf_description := ''Intro'', cf_category := ''Backend'',
     cf_price := ''49'', cf_teacherId := ''tx''\<rparr>"

definition demo_two_courses_db :: db where
  "demo_two_courses_db = demo_db\<lparr>courses := [demo_course, demo_course\<lparr>c_id := ''go'', c_created := 3\<rparr>]\<rparr>"

definition demo_admin_obj :: user_obj where
  "demo_admin_obj = empty_obj\<lparr>uo_role := Some ''ADMIN'', uo_userId := Some ''ad''\<rparr>"

text \<open>The admin's course list at one course per page, on page 2.\<close>

definition demo_courses_view :: courses_view where
  "demo_courses_view =
     courses_load \<lparr>cv_items = [], cv_meta = meta_initial, cv_search = [], cv_category = [], cv_order = [],
                   cv_limit = 1, cv_page = 2, cv_me = Some demo_admin_obj\<rparr> demo_two_courses_db"

section \<open>Lemmas\<close>

lemma admin_header_is_request_header: "admin_auth_header b = request_header b"
  by (simp add: admin_auth_header_def request_header_def read_token_def tok_or_def tok_truthy_def
           split: option.splits)

text \<open>A call through the client that succeeds is one answer of the route to the store as it was.\<close>

lemma api_call_Inr:
  assumes "api_call env route b d = (Inr x, b1, d1, red)"
    and "\<And>h d'. route h d = (Inl Unauthorized, d') \<Longrightarrow> d' = d"
  shows "\<exists>h. route h d = (Inr x, d1)"
proof (cases "route (request_header b) d")
  case (Pair r d0)
  show ?thesis
  proof (cases "r = Inl Unauthorized")
    case True
    then have d0: "d0 = d" using assms(2) Pair by blast
    obtain ot b2 where rf: "refresh_access_token env b = (ot, b2)" by fastforce
    show ?thesis
    proof (cases ot)
      case None
      with assms(1) Pair True rf show ?thesis by (simp add: api_call_def)
    next
      case (Some t)
      obtain r2 d2 where r2: "route (request_header b2) d0 = (r2, d2)" by fastforce
      with assms(1) Pair True rf Some have "r2 = Inr x" "d2 = d1" by (simp_all add: api_call_def)
      with r2 d0 show ?thesis by blast
    qed
  next
    case False
    with Pair assms(1) have "route (request_header b) d = (Inr x, d1)" by (simp add: api_call_def)
    then show ?thesis by blast
  qed
qed
lemma api_call_passes:
  "route (request_header b) d = (Inl e, d1) \<Longrightarrow> e \<noteq> Unauthorized \<Longrightarrow> api_call env route b d = (Inl e, b, d1, False)"
  by (simp add: api_call_def)

lemma api_call_first:
  "route (request_header b) d = (Inr x, d1) \<Longrightarrow> api_call env route b d = (Inr x, b, d1, False)"
  by (simp add: api_call_def)

lemma guarded_Inr_cases:
  assumes "guarded env h roles f d = (Inr x, d')"
  shows "\<exists>u. (\<forall>d0. guarded env h roles f d0 = f u d0) \<and> f u d = (Inr x, d')"
proof (cases "ebind (auth env h) (\<lambda>u. ebind (requires roles u) (\<lambda>_. Inr u))")
  case (Inl e)
  with assms show ?thesis by (simp add: guarded_def)
next
  case (Inr u)
  with assms show ?thesis by (auto simp add: guarded_def simp del: ebind_eq_Inr)
qed

lemma route_delete_course_Inl: "route_delete_course env h i d = (Inl e, d') \<Longrightarrow> d' = d"
  by (auto simp: route_delete_course_def guarded_def delete_course_def split: sum.splits option.splits if_splits)

lemma route_delete_course_Inr: "route_delete_course env h i d = (Inr x, d') \<Longrightarrow> d' = delete_course_rows i d"
  by (auto simp: route_delete_course_def guarded_def delete_course_def split: sum.splits option.splits if_splits)

lemma create_course_repeat:
  assumes "create_course now u b d = (Inr c, d1)"
  shows "d1 = d\<lparr>courses := courses d @ [c]\<rparr> \<and>
         create_course now u b d1 = (Inr (c\<lparr>c_id := fresh_id (map c_id (courses d1))\<rparr>),
                                     d1\<lparr>courses := courses d1 @ [c\<lparr>c_id := fresh_id (map c_id (courses d1))\<rparr>]\<rparr>)"
proof -
  have fu: "find_user (d\<lparr>courses := cs\<rparr>) i = find_user d i" for cs i by (simp add: find_user_def)
  show ?thesis
    using assms unfolding create_course_def Let_def fu
    by (auto simp: fu split: if_splits option.splits)
qed
lemma route_create_course_repeat:
  assumes "route_create_course env h b d = (Inr c, d1)"
  shows "\<exists>c'. route_create_course env h b d1 = (Inr c', d1\<lparr>courses := courses d1 @ [c']\<rparr>) \<and>
              courses d1 = courses d @ [c] \<and> c_title c' = c_title c \<and> c_id c' \<noteq> c_id c"
proof -
  obtain u where g: "\<forall>d0. route_create_course env h b d0 = create_course (env_now env) u b d0"
    and c: "create_course (env_now env) u b d = (Inr c, d1)"
    using guarded_Inr_cases [OF assms [unfolded route_create_course_def]]
    unfolding route_create_course_def by blast
  define c' where "c' = c\<lparr>c_id := fresh_id (map c_id (courses d1))\<rparr>"
  have d1: "d1 = d\<lparr>courses := courses d @ [c]\<rparr>"
    and r: "create_course (env_now env) u b d1 = (Inr c', d1\<lparr>courses := courses d1 @ [c']\<rparr>)"
    using create_course_repeat [OF c] unfolding c'_def by blast+
  have cs: "courses d1 = courses d @ [c]" using d1 by simp
  have "c_id c' \<noteq> c_id c"
  proof -
    have "c \<in> set (courses d1)" using cs by simp
    then show ?thesis unfolding c'_def using fresh_id_map_notin [of c_id "courses d1" c] by simp
  qed
  moreover have "route_create_course env h b d1 = (Inr c', d1\<lparr>courses := courses d1 @ [c']\<rparr>)"
    using g r by simp
  moreover have "c_title c' = c_title c" by (simp add: c'_def)
  ultimately show ?thesis using cs by blast
qed

lemma ceil_div_bounds:
  assumes "0 < l" "0 < n"
  shows "1 \<le> ceil_div n l \<and> (ceil_div n l - 1) * l < n"
proof -
  let ?q = "(- n) div l"
  have e: "?q * l + (- n) mod l = - n" by (rule div_mult_mod_eq)
  have m: "0 \<le> (- n) mod l" "(- n) mod l < l" using assms(1) by simp_all
  have "?q * l < 0" using e m assms(2) by linarith
  then have "?q < 0" using assms(1) by (simp add: mult_less_0_iff)
  moreover have "(- ?q - 1) * l < n"
  proof -
    have "(- ?q - 1) * l = - (?q * l) - l" by (simp add: algebra_simps)
    also have "\<dots> = n + (- n) mod l - l" using e by linarith
    finally show ?thesis using m by linarith
  qed
  ultimately show ?thesis by (simp add: ceil_div_def)
qed


lemma page_after_delete_pos: "0 < p \<Longrightarrow> 0 < page_after_delete m l p"
proof -
  have "0 < nat (max 1 x)" for x :: int by simp
  then show "0 < p \<Longrightarrow> 0 < page_after_delete m l p" by (simp add: page_after_delete_def Let_def)
qed

lemma page_after_delete_bound:
  assumes "0 < l" "0 < p" "2 \<le> lm_total m"
  shows "(int (page_after_delete m l p) - 1) * int l < int (lm_total m) - 1"
proof -
  define c where "c = ceil_div (int (lm_total m) - 1) (int l)"
  have c: "1 \<le> c" "(c - 1) * int l < int (lm_total m) - 1"
    using ceil_div_bounds [of "int l" "int (lm_total m) - 1"] assms unfolding c_def by simp_all
  have pd: "page_after_delete m l p = (if p > nat c then nat c else p)"
    using c(1) by (simp add: page_after_delete_def c_def Let_def)
  have "int (page_after_delete m l p) \<le> c" using c(1) pd by auto
  then have "(int (page_after_delete m l p) - 1) * int l \<le> (c - 1) * int l"
    by (intro mult_right_mono) simp_all
  with c(2) show ?thesis by linarith
qed

lemma page_prev_pos: "0 < page_prev p"
  by (simp add: page_prev_def)

lemma page_next_pos: "0 < page_next m p"
  by (simp add: page_next_def)

lemma limit_choice_pos: "0 < dflt \<Longrightarrow> 0 < limit_choice n dflt"
  by (simp add: limit_choice_def)

lemma paginate_nonempty:
  assumes "0 < l" "1 \<le> p" "(p - 1) * l < int (length xs)"
  shows "pg_data (paginate p l xs) \<noteq> []"
proof -
  have "0 \<le> (p - 1) * l" using assms(1,2) by simp
  then have "nat ((p - 1) * l) < length xs" using assms(3) by linarith
  with assms(1) show ?thesis by (simp add: paginate_def)
qed

lemma length_course_order [simp]: "length (course_order o' cs) = length cs"
  by (simp add: course_order_def)

lemma courses_query_page [simp]:
  "course_matches (courses_query (v\<lparr>cv_page := p\<rparr>)) = course_matches (courses_query v)"
  "cq_order (courses_query (v\<lparr>cv_page := p\<rparr>)) = cq_order (courses_query v)"
  by (simp_all add: courses_query_def course_matches_def fun_eq_iff)

lemma courses_load_paging [simp]:
  "cv_page (courses_load v d) = cv_page v" "cv_limit (courses_load v d) = cv_limit v"
  by (simp_all add: courses_load_def Let_def)

lemma videos_load_paging [simp]:
  "vv_page (videos_load v d) = vv_page v" "vv_limit (videos_load v d) = vv_limit v"
  by (simp_all add: videos_load_def Let_def)

lemma promos_load_paging [simp]:
  "pv_page (fst (snd (promos_load env v b d))) = pv_page v"
  "pv_limit (fst (snd (promos_load env v b d))) = pv_limit v"
  by (simp_all add: promos_load_def Let_def split: prod.splits sum.splits)

lemma promos_set_paging [simp]:
  "pv_page (fst (snd (promos_set env v' v b d))) = pv_page v'"
  "pv_limit (fst (snd (promos_set env v' v b d))) = pv_limit v'"
  by (simp_all add: promos_set_def)

lemma total_list_courses:
  "pg_total (list_courses q d) = length (filter (course_matches q) (courses d))"
  by (simp add: list_courses_def paginate_def)

section \<open>Properties\<close>

text \<open>
  C1. Every admin course is created twice: when the form is valid and the first
  \<open>POST /courses\<close> succeeds, the legacy \<open>addProduct\<close> thunk posts the same payload with
  the same token, so the store gains the course and a second one with the same title
  and another id.
\<close>

theorem add_course_submit_creates_twice:
  assumes "course_form_valid f"
    and "route_create_course env (request_header (ac_ls c)) (course_form_body f) d = (Inr co, d1)"
  shows "\<exists>co' c'. add_course_submit env f c d =
                   (Success_Toast, Some ''/admin/courses'', c', d1\<lparr>courses := courses d1 @ [co']\<rparr>) \<and>
                 courses d1 = courses d @ [co] \<and> c_title co' = c_title co \<and> c_id co' \<noteq> c_id co"
proof -
  obtain co' where r: "route_create_course env (request_header (ac_ls c)) (course_form_body f) d1 =
                         (Inr co', d1\<lparr>courses := courses d1 @ [co']\<rparr>)"
    and facts: "courses d1 = courses d @ [co]" "c_title co' = c_title co" "c_id co' \<noteq> c_id co"
    using route_create_course_repeat [OF assms(2)] by blast
  have a: "api_call env (\<lambda>h. route_create_course env h (course_form_body f)) (ac_ls c) d = (Inr co, ac_ls c, d1, False)"
    using assms(2) by (rule api_call_first)
  have "add_course_submit env f c d =
          (Success_Toast, Some ''/admin/courses'', fst (add_product env (course_form_body f) d1 c),
           d1\<lparr>courses := courses d1 @ [co']\<rparr>)"
    using assms(1) a r by (simp add: add_course_submit_def add_product_def admin_header_is_request_header)
  with facts show ?thesis by blast
qed

text \<open>
  C3. The admin "Add user" page never creates a user: \<open>UserAPI\<close> has no \<open>signup\<close>, so a
  valid form ends in a \<open>TypeError\<close> toast before any request, and the store and the
  admin slice are left as they were.
\<close>

theorem add_user_submit_never_registers:
  "add_user_submit now f c d =
     (if user_form_valid f then Script_Error ''UserAPI.signup is not a function'' else Invalid_Form_Toast, None, c, d)"
  by (simp add: add_user_submit_def user_api_members_def)

text \<open>
  C4. The promotions page has no backend: no route of the server matches a path under
  \<open>/promos\<close>, so every load marks the backend missing with an empty list, and creating,
  deleting or toggling a promotion fails with 404 and changes nothing.
\<close>

theorem promos_backend_missing:
  "\<not> route_exists m (''promos'' # path) \<and>
   promos_load env v b d = (No_Toast, v\<lparr>pv_backendMissing := True, pv_items := JArr [], pv_meta := meta_initial\<rparr>, b, d) \<and>
   promo_delete env True i v b d = (Request_Failed Not_Found, v, b, d) \<and>
   promo_toggle env i v b d = (Request_Failed Not_Found, v, b, d) \<and>
   snd (promo_create env v b d) = (v, b, d)"
proof -
  have a: "api_call env (\<lambda>h. unmatched_request m' p') b d = (Inl Not_Found, b, d, False)" for m' p'
    by (rule api_call_passes) (simp_all add: unmatched_request_def)
  have "\<not> route_exists m (''promos'' # path)"
    by (auto simp: route_exists_def backend_routes_def elim: seg_match.elims)
  with a show ?thesis
    by (simp add: promos_load_def promo_delete_def promo_toggle_def promo_create_def Let_def)
qed

text \<open>
  C2. After the admin deletes a listed course, the page the course list shows next is
  not empty as long as a course still matches the filters: the page is moved back to
  \<open>Math.ceil((total - 1) / limit)\<close> when it is past it, and the backend pages with the
  same limit.
\<close>

theorem courses_delete_page_nonempty:
  assumes wf: "keys_unique d" and ok: "courses_ok v"
    and cur: "cv_meta v = meta_of_page (list_courses (courses_query v) d)"
    and row: "row \<in> set (courses d)" "course_matches (courses_query v) row"
    and two: "2 \<le> lm_total (cv_meta v)"
    and del: "courses_delete env True row v b d = (Success_Toast, v', b', d')"
  shows "cv_items v' \<noteq> []"
proof -
  let ?P = "course_matches (courses_query v)"
  let ?p = "page_after_delete (cv_meta v) (cv_limit v) (cv_page v)"
  obtain r b1 d1 red where ac: "api_call env (\<lambda>h. route_delete_course env h (c_id row)) b d = (r, b1, d1, red)"
    by (metis prod_cases4)
  have cd: "courses_can_delete (cv_me v) row"
  proof (rule ccontr)
    assume "\<not> courses_can_delete (cv_me v) row"
    with del show False by (simp add: courses_delete_def)
  qed
  have del': "courses_delete env True row v b d =
                (case r of Inl e \<Rightarrow> (Request_Failed e, v, b1, d1)
                 | Inr _ \<Rightarrow> (Success_Toast, courses_load (v\<lparr>cv_page := ?p\<rparr>) d1, b1, d1))"
    using cd ac by (simp add: courses_delete_def split: sum.split)
  obtain x where r: "r = Inr x" using del del' by (cases r) auto
  have v': "v' = courses_load (v\<lparr>cv_page := ?p\<rparr>) d1" using del del' r by auto
  obtain h where "route_delete_course env h (c_id row) d = (Inr x, d1)"
    using api_call_Inr [OF ac [unfolded r]] route_delete_course_Inl by blast
  then have d1: "d1 = delete_course_rows (c_id row) d" by (rule route_delete_course_Inr)
  have total: "lm_total (cv_meta v) = length (filter ?P (courses d))"
    using cur by (simp add: meta_of_page_def total_list_courses)
  have "length (filter (\<lambda>c. c_id c \<noteq> c_id row \<and> ?P c) (courses d)) = length (filter ?P (courses d)) - 1"
    using wf row by (intro length_filter_remove_key) (simp_all add: keys_unique_def)
  then have left: "length (filter ?P (courses d1)) = lm_total (cv_meta v) - 1"
    using total by (simp add: d1 delete_course_rows_def filter_filter_conj conj_commute)
  have p1: "0 < ?p" using ok by (simp add: courses_ok_def page_after_delete_pos)
  have bound: "(int ?p - 1) * int (cv_limit v) < int (lm_total (cv_meta v)) - 1"
    using ok two by (intro page_after_delete_bound) (simp_all add: courses_ok_def)
  have "cv_items v' = pg_data (paginate (int ?p) (int (cv_limit v))
                        (course_order (cv_order v) (filter ?P (courses d1))))"
  proof -
    have q: "cq_page (courses_query (v\<lparr>cv_page := ?p\<rparr>)) = show_nat ?p"
      "cq_limit (courses_query (v\<lparr>cv_page := ?p\<rparr>)) = show_nat (cv_limit v)"
      "cq_order (courses_query v) = cv_order v"
      by (simp_all add: courses_query_def)
    show ?thesis using ok p1 by (simp add: v' courses_load_def Let_def list_courses_def q courses_ok_def)
  qed
  also have "\<dots> \<noteq> []"
    using ok p1 bound left two by (intro paginate_nonempty) (simp_all add: courses_ok_def)
  finally show ?thesis .
qed

text \<open>
  C5. The three admin lists keep their paging state sound: whatever the admin types,
  selects, pages or deletes, \<open>page\<close> stays at least 1 and \<open>limit\<close> positive.
\<close>

theorem list_pages_keep_paging:
  assumes "courses_ok v" "videos_ok w" "promos_ok p"
  shows "courses_ok (courses_input i v d) \<and> courses_ok (fst (snd (courses_delete env c row v b d))) \<and>
         videos_ok (videos_input i w d) \<and> videos_ok (fst (snd (videos_delete env c vr w b d))) \<and>
         promos_ok (fst (snd (promos_input env i p b d))) \<and> promos_ok (fst (snd (promo_delete env c j p b d)))"
proof -
  note ge = page_prev_pos page_next_pos page_after_delete_pos limit_choice_pos
  have "courses_ok (courses_input i v d)"
    using assms(1) by (cases i) (simp_all add: courses_ok_def courses_set_def ge)
  moreover have "courses_ok (fst (snd (courses_delete env c row v b d)))"
    using assms(1) by (simp add: courses_delete_def courses_ok_def ge split: prod.split sum.split)
  moreover have "videos_ok (videos_input i w d)"
    using assms(2) by (cases i) (simp_all add: videos_ok_def videos_set_def ge)
  moreover have "videos_ok (fst (snd (videos_delete env c vr w b d)))"
    using assms(2) by (simp add: videos_delete_def videos_ok_def ge split: prod.split sum.split)
  moreover have "promos_ok (fst (snd (promos_input env i p b d)))"
    using assms(3) by (cases i) (simp_all add: promos_ok_def promos_set_def ge)
  moreover have "promos_ok (fst (snd (promo_delete env c j p b d)))"
    using assms(3) by (simp add: promo_delete_def promos_ok_def ge Let_def case_prod_beta split: sum.split)
  ultimately show ?thesis by blast
qed

theorem add_course_submit_creates_twice_witness:
  "\<exists>co d1 co' c'.
     route_create_course demo_env (request_header (ac_ls demo_admin_client)) (course_form_body demo_course_form) demo_db
       = (Inr co, d1) \<and>
     add_course_submit demo_env demo_course_form demo_admin_client demo_db =
       (Success_Toast, Some ''/admin/courses'', c', d1\<lparr>courses := courses d1 @ [co']\<rparr>) \<and>
     courses d1 = courses demo_db @ [co] \<and> c_title co' = c_title co \<and> c_id co' \<noteq> c_id co"
proof -
  let ?R = "route_create_course demo_env (request_header (ac_ls demo_admin_client)) (course_form_body demo_course_form) demo_db"
  have v: "course_form_valid demo_course_form" by code_simp
  have "\<not> isl (fst ?R)" by code_simp
  then obtain co where "fst ?R = Inr co" by (cases "fst ?R") auto
  then have r: "?R = (Inr co, snd ?R)" by (metis prod.collapse)
  from add_course_submit_creates_twice [OF v r] r show ?thesis by blast
qed

theorem courses_delete_page_nonempty_witness:
  "cv_items (fst (snd (courses_delete demo_env True demo_course demo_courses_view (ac_ls demo_admin_client)
                         demo_two_courses_db))) \<noteq> []"
proof -
  let ?X = "courses_delete demo_env True demo_course demo_courses_view (ac_ls demo_admin_client) demo_two_courses_db"
  have wf: "keys_unique demo_two_courses_db" by code_simp
  have ok: "courses_ok demo_courses_view" by code_simp
  have cur: "cv_meta demo_courses_view = meta_of_page (list_courses (courses_query demo_courses_view) demo_two_courses_db)"
    by code_simp
  have row: "demo_course \<in> set (courses demo_two_courses_db)" by (simp add: demo_two_courses_db_def)
  have m: "course_matches (courses_query demo_courses_view) demo_course" by code_simp
  have two: "2 \<le> lm_total (cv_meta demo_courses_view)" by code_simp
  have "fst ?X = Success_Toast" by code_simp
  then have del: "?X = (Success_Toast, fst (snd ?X), fst (snd (snd ?X)), snd (snd (snd ?X)))"
    by (metis prod.collapse)
  show ?thesis by (rule courses_delete_page_nonempty [OF wf ok cur row m two del])
qed

theorem list_pages_keep_paging_witness:
  "courses_ok (courses_input Page_Next demo_courses_view demo_db) \<and>
   courses_ok (fst (snd (courses_delete demo_env True demo_course demo_courses_view (ac_ls demo_admin_client) demo_db))) \<and>
   videos_ok (videos_input Page_Next (videos_mount no_storage demo_db) demo_db) \<and>
   videos_ok (fst (snd (videos_delete demo_env True demo_video (videos_mount no_storage demo_db) (ac_ls demo_admin_client) demo_db))) \<and>
   promos_ok (fst (snd (promos_input demo_env Page_Next promos_initial (ac_ls demo_admin_client) demo_db))) \<and>
   promos_ok (fst (snd (promo_delete demo_env True ''p1'' promos_initial (ac_ls demo_admin_client) demo_db)))"
proof -
  have h: "courses_ok demo_courses_view" "videos_ok (videos_mount no_storage demo_db)" "promos_ok promos_initial"
    by code_simp+
  show ?thesis by (rule list_pages_keep_paging [OF h])
qed

end
