(* ===== verification/ContentForms.thy ===== *)
theory ContentForms
  imports AdminPages
begin

text \<open>
  The two forms that create catalog content through the API client: the admin
  \<open>AddVideos.jsx\<close> (src/frontend/src/components/Adminitems) and the teacher
  \<open>AddCourse.jsx\<close> (src/frontend/src/components/TeacherComponents). Each form's state is
  a record of the strings typed into it; validation, the payload and the submit handler
  follow the page's code, and the submit is composed with \<open>api_call\<close> and the backend
  route, so its effect on the store is the route's.
\<close>

section \<open>The URL check both forms share\<close>

text \<open>\<open>/^https?:\/\//i.test(s)\<close>.\<close>

definition http_url :: "string \<Rightarrow> bool" where
  "http_url s \<longleftrightarrow> js_starts_with (js_lower s) ''http://'' \<or> js_starts_with (js_lower s) ''https://''"

section \<open>Admin \<open>AddVideos.jsx\<close>\<close>

record video_form =
  vf_title :: string
  vf_link :: string
  vf_description :: string
  vf_img :: string
  vf_courseId :: string
  vf_views :: string

definition video_form_initial :: video_form where
  "video_form_initial = \<lparr>vf_title = [], vf_link = [], vf_description = [], vf_img = [], vf_courseId = [],
     vf_views = ''0''\<rparr>"

text \<open>
  The courses the select offers: \<open>CourseAPI.list({page: 1, limit: 100})\<close>, narrowed to
  the signed-in teacher's own courses when the stored role is TEACHER and a \<open>userId\<close> is
  stored.
\<close>

definition video_course_options :: "user_obj option \<Rightarrow> db \<Rightarrow> course_row list" where
  "video_course_options u d =
     (let list = pg_data (list_courses \<lparr>cq_search = [], cq_order = [], cq_page = ''1'', cq_limit = ''100'',
                                        cq_category = [], cq_minPrice = None, cq_maxPrice = None\<rparr> d)
      in if my_role u = ''TEACHER'' \<and> my_id u \<noteq> [] then filter (\<lambda>c. c_teacherId c = my_id u) list else list)"

definition video_form_valid :: "video_form \<Rightarrow> bool" where
  "video_form_valid f \<longleftrightarrow>
     js_trim (vf_title f) \<noteq> [] \<and> js_trim (vf_link f) \<noteq> [] \<and> js_trim (vf_courseId f) \<noteq> [] \<and>
     (case js_number_of (Some (vf_views f)) of Num v \<Rightarrow> 0 \<le> v | NaN \<Rightarrow> False) \<and>
     http_url (js_trim (vf_link f))"

text \<open>The payload: trimmed strings, \<open>views: Number(form.views) || 0\<close>.\<close>

definition video_form_body :: "video_form \<Rightarrow> video_body" where
  "video_form_body f =
     \<lparr>vb_title = Some (js_trim (vf_title f)), vb_link = Some (js_trim (vf_link f)),
      vb_views = Some (Num (num_or (js_number_of (Some (vf_views f))) 0)),
      vb_img = Some (js_trim (vf_img f)), vb_courseId = Some (js_trim (vf_courseId f)),
      vb_description = Some (js_trim (vf_description f))\<rparr>"

text \<open>\<open>onSubmit\<close>: \<open>VideoAPI.create(payload)\<close>, then \<open>navigate("/admin/videos")\<close>.\<close>

definition add_video_submit ::
  "request_env \<Rightarrow> video_form \<Rightarrow> browser \<Rightarrow> db \<Rightarrow> ui_notice \<times> string option \<times> browser \<times> db" where
  "add_video_submit env f b d =
     (if \<not> video_form_valid f then (Invalid_Form_Toast, None, b, d)
      else case api_call env (\<lambda>h. route_create_video env h (video_form_body f)) b d of
        (Inl e, b1, d1, red) \<Rightarrow> (Request_Failed e, if red then Some ''/login'' else None, b1, d1)
      | (Inr _, b1, d1, _) \<Rightarrow> (Success_Toast, Some ''/admin/videos'', b1, d1))"

section \<open>Teacher \<open>AddCourse.jsx\<close>\<close>

record teacher_course_form =
  tc_title :: string
  tc_description :: string
  tc_category :: string
  tc_price :: string
  tc_img :: string

definition teacher_course_initial :: teacher_course_form where
  "teacher_course_initial = \<lparr>tc_title = [], tc_description = [], tc_category = [], tc_price = [], tc_img = []\<rparr>"

text \<open>
  The \<open>errors\<close> memo, as the list of its keys in insertion order; the price is refused
  when \<open>Number.isNaN(p) || p < 0\<close> (\<open>js_number_of\<close> counts \<open>"Infinity"\<close> as not a number,
  which JavaScript's \<open>isNaN\<close> does not). The thumbnail is checked untrimmed.
\<close>

definition teacher_course_errors :: "teacher_course_form \<Rightarrow> string list" where
  "teacher_course_errors f =
     map fst (filter snd
       [(''title'', js_trim (tc_title f) = []), (''description'', js_trim (tc_description f) = []),
        (''category'', js_trim (tc_category f) = []),
        (''price'', (case js_number_of (Some (tc_price f)) of NaN \<Rightarrow> True | Num p \<Rightarrow> p < 0)),
        (''img'', tc_img f \<noteq> [] \<and> \<not> http_url (tc_img f))])"

definition teacher_course_valid :: "teacher_course_form \<Rightarrow> bool" where
  "teacher_course_valid f \<longleftrightarrow> teacher_course_errors f = []"

text \<open>The payload: no \<open>teacherId\<close>, \<open>price: Number(price) || 0\<close>; \<open>img\<close> has no course column.\<close>

definition teacher_course_body :: "teacher_course_form \<Rightarrow> course_body" where
  "teacher_course_body f =
     \<lparr>cb_title = Some (js_trim (tc_title f)), cb_description = Some (js_trim (tc_description f)),
      cb_category = Some (js_trim (tc_category f)),
      cb_price = Some (Num (num_or (js_number_of (Some (tc_price f))) 0)), cb_teacherId = None\<rparr>"

text \<open>\<open>handleSubmit\<close>: a warning on errors; \<open>CourseAPI.create(payload)\<close>, then \<open>/teacher/courses\<close>.\<close>

definition teacher_add_course_submit ::
  "request_env \<Rightarrow> teacher_course_form \<Rightarrow> browser \<Rightarrow> db \<Rightarrow> ui_notice \<times> string option \<times> browser \<times> db" where
  "teacher_add_course_submit env f b d =
     (if \<not> teacher_course_valid f then (Warning_Toast, None, b, d)
      else case api_call env (\<lambda>h. route_create_course env h (teacher_course_body f)) b d of
        (Inl e, b1, d1, red) \<Rightarrow> (Request_Failed e, if red then Some ''/login'' else None, b1, d1)
      | (Inr _, b1, d1, _) \<Rightarrow> (Success_Toast, Some ''/teacher/courses'', b1, d1))"

section \<open>Examples\<close>

text \<open>A video form for course \<open>k8s\<close>, a teacher's course form, and teacher \<open>tx\<close>'s browser.\<close>

definition demo_video_form :: video_form where
  "demo_video_form = video_form_initial\<lparr>vf_title := ''Services'', vf_link := '' HTTPS://x.io/s '',
     vf_courseId := ''k8s'', vf_views := ''7''\<rparr>"

definition demo_teacher_form :: teacher_course_form where
  "demo_teacher_form = teacher_course_initial\<lparr>tc_title := ''Helm'', tc_description := ''Charts'',
     tc_category := ''Ops'', tc_price := ''12''\<rparr>"

definition demo_teacher_browser :: browser where
  "demo_teacher_browser = no_storage\<lparr>ls_token := Some (demo_token ''tx'' ''TEACHER'')\<rparr>"

section \<open>Lemmas\<close>

lemma route_create_video_Inl: "route_create_video env h b d = (Inl e, d') \<Longrightarrow> d' = d"
  by (auto simp: route_create_video_def guarded_def create_video_def Let_def split: sum.splits option.splits if_splits)

lemma create_video_Inr:
  assumes "create_video now u b d = (Inr v, d')"
  shows "d' = d\<lparr>videos := videos d @ [v]\<rparr> \<and> v_link v = js_str (vb_link b) \<and>
         v_courseId v = js_str (vb_courseId b) \<and> v_views v = (case vb_views b of None \<Rightarrow> 0 | Some n \<Rightarrow> num_or n 0)"
proof (cases "find_course d (js_str (vb_courseId b))")
  case None
  with assms show ?thesis by (simp add: create_video_def split: if_splits)
next
  case (Some c)
  then have "c_id c = js_str (vb_courseId b)" by (auto simp: find_course_def dest: find_Some_in)
  with Some assms show ?thesis by (auto simp: create_video_def Let_def split: if_splits)
qed

lemma route_create_video_Inr:
  "route_create_video env h b d = (Inr v, d') \<Longrightarrow>
   d' = d\<lparr>videos := videos d @ [v]\<rparr> \<and> v_link v = js_str (vb_link b) \<and>
   v_courseId v = js_str (vb_courseId b) \<and> v_views v = (case vb_views b of None \<Rightarrow> 0 | Some n \<Rightarrow> num_or n 0)"
  unfolding route_create_video_def by (drule guarded_Inr_cases) (blast dest: create_video_Inr)

lemma num_or_nonneg: "0 \<le> n \<Longrightarrow> 0 \<le> num_or (Num n) 0"
  by (simp add: num_or_def)

section \<open>Properties\<close>

text \<open>
  C7. A video the admin AddVideos page reports as added has been appended to the store
  with an \<open>http(s)://\<close> link, a non-negative view count and the chosen course.
\<close>

theorem add_video_submit_http_link:
  assumes "add_video_submit env f b d = (Success_Toast, nav, b', d')"
  shows "\<exists>v. d' = d\<lparr>videos := videos d @ [v]\<rparr> \<and> http_url (v_link v) \<and> 0 \<le> v_views v \<and>
             v_courseId v = js_trim (vf_courseId f) \<and> nav = Some ''/admin/videos''"
proof -
  have valid: "video_form_valid f"
  proof (rule ccontr)
    assume "\<not> video_form_valid f"
    with assms show False by (simp add: add_video_submit_def)
  qed
  obtain r b1 d1 red where ac: "api_call env (\<lambda>h. route_create_video env h (video_form_body f)) b d = (r, b1, d1, red)"
    by (metis prod_cases4)
  obtain v where r: "r = Inr v" and nav: "nav = Some ''/admin/videos''" and d1: "d' = d1"
    using assms valid ac by (cases r) (auto simp: add_video_submit_def)
  obtain h where "route_create_video env h (video_form_body f) d = (Inr v, d1)"
    using api_call_Inr [OF ac [unfolded r]] route_create_video_Inl by blast
  note c = route_create_video_Inr [OF this]
  obtain n where n: "js_number_of (Some (vf_views f)) = Num n" "0 \<le> n"
    using valid by (auto simp: video_form_valid_def split: js_number.splits)
  have "0 \<le> v_views v" using c n by (simp add: video_form_body_def num_or_nonneg)
  moreover have "http_url (v_link v)" using c valid by (simp add: video_form_body_def video_form_valid_def)
  moreover have "v_courseId v = js_trim (vf_courseId f)" using c by (simp add: video_form_body_def)
  ultimately show ?thesis using c d1 nav by blast
qed

text \<open>
  C6. A valid course form submitted by a signed-in TEACHER whose account can teach adds
  exactly one course, owned by that teacher, with the trimmed title and a non-negative
  price, and leads to the teacher's course list.
\<close>

theorem teacher_add_course_owned:
  assumes "teacher_course_valid f" and "auth env (request_header b) = Inr u" and "su_role u = ''TEACHER''"
    and "requester_id u \<noteq> []" and "find_user d (requester_id u) = Some t" and "teaching_role (u_role t)"
  shows "\<exists>c. teacher_add_course_submit env f b d =
               (Success_Toast, Some ''/teacher/courses'', b, d\<lparr>courses := courses d @ [c]\<rparr>) \<and>
             c_teacherId c = requester_id u \<and> c_title c = js_trim (tc_title f) \<and> 0 \<le> c_price c"
proof -
  have tid: "u_id t = requester_id u" using assms(5) by (auto simp: find_user_def dest: find_Some_in)
  obtain p where p: "js_number_of (Some (tc_price f)) = Num p" "0 \<le> p"
    using assms(1) by (auto simp: teacher_course_valid_def teacher_course_errors_def split: js_number.splits if_splits)
  have title: "js_trim (tc_title f) \<noteq> []"
    using assms(1) by (auto simp: teacher_course_valid_def teacher_course_errors_def split: if_splits)
  define c where "c = \<lparr>c_id = fresh_id (map c_id (courses d)), c_title = js_trim (tc_title f),
                       c_description = js_trim (tc_description f), c_category = js_trim (tc_category f),
                       c_price = num_or (Num (num_or (Num p) 0)) 0, c_teacherId = u_id t, c_created = env_now env\<rparr>"
  have "create_course (env_now env) u (teacher_course_body f) d = (Inr c, d\<lparr>courses := courses d @ [c]\<rparr>)"
    using assms(3-6) title p by (simp add: create_course_def teacher_course_body_def c_def Let_def)
  then have "route_create_course env (request_header b) (teacher_course_body f) d = (Inr c, d\<lparr>courses := courses d @ [c]\<rparr>)"
  proof -
    have "guarded env (request_header b) teacher_roles (\<lambda>u. create_course (env_now env) u (teacher_course_body f)) d
            = create_course (env_now env) u (teacher_course_body f) d"
      by (rule guarded_Inr [OF assms(2)]) (simp add: auth_role_upper [OF assms(2)] assms(3))
    with \<open>create_course (env_now env) u (teacher_course_body f) d = _\<close> show ?thesis
      by (simp add: route_create_course_def)
  qed
  then have "teacher_add_course_submit env f b d = (Success_Toast, Some ''/teacher/courses'', b, d\<lparr>courses := courses d @ [c]\<rparr>)"
    using assms(1) by (simp add: teacher_add_course_submit_def api_call_first)
  moreover have "0 \<le> c_price c" using p by (simp add: c_def num_or_nonneg)
  ultimately show ?thesis using tid by (auto simp: c_def)
qed

theorem add_video_submit_http_link_witness:
  "\<exists>v. snd (snd (snd (add_video_submit demo_env demo_video_form (ac_ls demo_admin_client) demo_db))) =
         demo_db\<lparr>videos := videos demo_db @ [v]\<rparr> \<and> http_url (v_link v) \<and> 0 \<le> v_views v \<and>
         v_courseId v = ''k8s''"
proof -
  let ?X = "add_video_submit demo_env demo_video_form (ac_ls demo_admin_client) demo_db"
  have "fst ?X = Success_Toast" by code_simp
  then have x: "?X = (Success_Toast, fst (snd ?X), fst (snd (snd ?X)), snd (snd (snd ?X)))" by (metis prod.collapse)
  have "js_trim (vf_courseId demo_video_form) = ''k8s''" by code_simp
  with add_video_submit_http_link [OF x] show ?thesis by auto
qed

theorem teacher_add_course_owned_witness:
  "\<exists>c. teacher_add_course_submit demo_env demo_teacher_form demo_teacher_browser demo_db =
         (Success_Toast, Some ''/teacher/courses'', demo_teacher_browser, demo_db\<lparr>courses := courses demo_db @ [c]\<rparr>) \<and>
       c_teacherId c = ''tx'' \<and> c_title c = ''Helm'' \<and> 0 \<le> c_price c"
proof -
  let ?u = "\<lparr>su_id = Some ''tx'', su_name = None, su_role = ''TEACHER''\<rparr>"
  have v: "teacher_course_valid demo_teacher_form" by code_simp
  have a: "auth demo_env (request_header demo_teacher_browser) = Inr ?u" by code_simp
  have r: "su_role ?u = ''TEACHER''" "requester_id ?u \<noteq> []" by (simp_all add: requester_id_def)
  have t: "find_user demo_db (requester_id ?u) = Some (demo_user ''tx'' ''TEACHER'')"
    "teaching_role (u_role (demo_user ''tx'' ''TEACHER''))" by code_simp+
  have "requester_id ?u = ''tx''" "js_trim (tc_title demo_teacher_form) = ''Helm''" by code_simp+
  with teacher_add_course_owned [OF v a r t] show ?thesis by simp
qed

end
