(* ===== verification/Admin.thy ===== *)
theory Admin
  imports Catalog
begin

text \<open>
  The admin dashboard of src/backend/routes/admin.routes.js: \<open>GET /admin/stats\<close>
  (ADMIN only) answers the table totals, the course count per category (the twelve
  largest), the five courses with most videos, and four daily series of created rows over
  a rolling window of \<open>windowDays\<close> days. Timestamps are seconds; a day is
  \<open>t div 86400\<close> (the server's local midnight and SQLite's \<open>date()\<close> are both taken
  in UTC). \<open>Array.prototype.sort\<close> is stable, like \<open>sort_key\<close>; a JavaScript \<open>Map\<close>
  keeps keys in insertion order, like the association list \<open>cat_bump\<close> maintains.
\<close>

section \<open>Totals\<close>

record totals =
  tot_users :: nat
  tot_courses :: nat
  tot_videos :: nat
  tot_enrollments :: nat

definition stats_totals :: "db \<Rightarrow> totals" where
  "stats_totals d =
     \<lparr>tot_users = length (users d), tot_courses = length (courses d),
      tot_videos = length (videos d), tot_enrollments = length (enrollments d)\<rparr>"

section \<open>Category breakdown\<close>

text \<open>\<open>(c.category || "Uncategorized").trim() || "Uncategorized"\<close>.\<close>

definition category_key :: "string \<Rightarrow> string" where
  "category_key s =
     (let t = js_trim (if s = [] then ''Uncategorized'' else s) in
      if t = [] then ''Uncategorized'' else t)"

text \<open>\<open>catMap.set(key, (catMap.get(key) || 0) + 1)\<close> on a \<open>Map\<close> kept as an association list.\<close>

fun cat_bump :: "string \<Rightarrow> (string \<times> nat) list \<Rightarrow> (string \<times> nat) list" where
  "cat_bump k [] = [(k, 1)]"
| "cat_bump k ((k', n) # m) = (if k = k' then (k', n + 1) # m else (k', n) # cat_bump k m)"

definition cat_map :: "course_row list \<Rightarrow> (string \<times> nat) list" where
  "cat_map cs = foldl (\<lambda>m c. cat_bump (category_key (c_category c)) m) [] cs"

text \<open>\<open>.sort((a, b) => b.count - a.count).slice(0, 12)\<close>.\<close>

definition by_category :: "course_row list \<Rightarrow> (string \<times> nat) list" where
  "by_category cs = take 12 (sort_key (\<lambda>(k, n). - int n) (cat_map cs))"

section \<open>Top courses\<close>

record course_stat =
  cs_id :: string
  cs_title :: string
  cs_videos :: nat
  cs_enrollments :: nat

text \<open>A course with its \<open>_count\<close> of videos and enrollments.\<close>

definition course_stat :: "db \<Rightarrow> course_row \<Rightarrow> course_stat" where
  "course_stat d c =
     \<lparr>cs_id = c_id c, cs_title = c_title c,
      cs_videos = length (filter (\<lambda>v. v_courseId v = c_id c) (videos d)),
      cs_enrollments = length (filter (\<lambda>e. e_courseId e = c_id c) (enrollments d))\<rparr>"

definition top_courses_by_videos :: "db \<Rightarrow> course_stat list" where
  "top_courses_by_videos d = take 5 (sort_key (\<lambda>s. - int (cs_videos s)) (map (course_stat d) (courses d)))"

section \<open>Daily series\<close>

text \<open>\<open>Number(req.query.windowDays)\<close>, clamped to 1..180 when finite, else 30.\<close>

definition window_days :: "string option \<Rightarrow> int" where
  "window_days q = (case js_number_of q of NaN \<Rightarrow> 30 | Num n \<Rightarrow> max 1 (min 180 n))"

definition day_of :: "int \<Rightarrow> int" where
  "day_of t = t div 86400"

text \<open>
  \<open>[startISO, endISO)\<close> in seconds: from the midnight \<open>windowDays - 1\<close> days before
  today to the midnight after today.
\<close>

definition series_bounds :: "int \<Rightarrow> int \<Rightarrow> int \<times> int" where
  "series_bounds now w = (86400 * (day_of now - w + 1), 86400 * (day_of now + 1))"

text \<open>\<open>dailyCountSQLite\<close>: rows created in \<open>[s, e)\<close> grouped by day, days ascending.\<close>

definition daily_count :: "int list \<Rightarrow> int \<times> int \<Rightarrow> (int \<times> nat) list" where
  "daily_count ts se =
     (let ds = map day_of (filter (\<lambda>t. fst se \<le> t \<and> t < snd se) ts) in
      map (\<lambda>x. (x, count_list ds x)) (sort (remdups ds)))"

section \<open>The route\<close>

record stats =
  st_totals :: totals
  st_byCategory :: "(string \<times> nat) list"
  st_top :: "course_stat list"
  st_users :: "(int \<times> nat) list"
  st_courses :: "(int \<times> nat) list"
  st_videos :: "(int \<times> nat) list"
  st_enrollments :: "(int \<times> nat) list"

definition admin_stats :: "int \<Rightarrow> string option \<Rightarrow> db \<Rightarrow> stats" where
  "admin_stats now q d =
     (let se = series_bounds now (window_days q) in
      \<lparr>st_totals = stats_totals d, st_byCategory = by_category (courses d),
       st_top = top_courses_by_videos d,
       st_users = daily_count (map u_created (users d)) se,
       st_courses = daily_count (map c_created (courses d)) se,
       st_videos = daily_count (map v_created (videos d)) se,
       st_enrollments = daily_count (map e_created (enrollments d)) se\<rparr>)"

definition route_stats :: "request_env \<Rightarrow> auth_header \<Rightarrow> string option \<Rightarrow> db \<Rightarrow> stats result" where
  "route_stats env h q d = fst (guarded env h [''ADMIN''] (\<lambda>_ d. (Inr (admin_stats (env_now env) q d), d)) d)"

section \<open>Example data\<close>

definition demo_stat_course :: "string \<Rightarrow> string \<Rightarrow> course_row" where
  "demo_stat_course i cat =
     \<lparr>c_id = i, c_title = i, c_description = [], c_category = cat, c_price = 0,
      c_teacherId = ''tx'', c_created = 0\<rparr>"

definition demo_stat_courses :: "course_row list" where
  "demo_stat_courses = [demo_stat_course ''a'' ''Web'', demo_stat_course ''b'' '' '',
     demo_stat_course ''c'' ''Web'', demo_stat_course ''d'' [], demo_stat_course ''e'' ''Ops'']"

definition demo_many_courses :: "course_row list" where
  "demo_many_courses =
     map (\<lambda>i. demo_stat_course (show_nat i) (''k'' @ show_nat i)) [0..<13] @ [demo_stat_course ''x'' ''k0'']"

definition demo_stats_db :: db where
  "demo_stats_db =
     demo_db\<lparr>courses := map (\<lambda>i. demo_stat_course (show_nat i) ''Web'') [0..<6],
             videos := [demo_video\<lparr>v_courseId := ''5''\<rparr>]\<rparr>"

section \<open>Lemmas\<close>

lemma cat_bump_lookup:
  "map_of (cat_bump k m) x = (if x = k then Some (case map_of m k of None \<Rightarrow> 1 | Some n \<Rightarrow> n + 1) else map_of m x)"
  by (induction k m rule: cat_bump.induct) auto

lemma cat_bump_keys: "fst ` set (cat_bump k m) = insert k (fst ` set m)"
  by (induction k m rule: cat_bump.induct) auto

lemma cat_bump_distinct: "distinct (map fst m) \<Longrightarrow> distinct (map fst (cat_bump k m))"
  by (induction k m rule: cat_bump.induct) (auto simp: cat_bump_keys)

lemma foldl_cat_bump:
  assumes "distinct (map fst m)"
    and "\<forall>x. map_of m x = (if count_list ks0 x = 0 then None else Some (count_list ks0 x))"
  shows "distinct (map fst (foldl (\<lambda>m k. cat_bump k m) m ks)) \<and>
         (\<forall>x. map_of (foldl (\<lambda>m k. cat_bump k m) m ks) x =
              (if count_list (ks0 @ ks) x = 0 then None else Some (count_list (ks0 @ ks) x)))"
  using assms
proof (induction ks arbitrary: m ks0)
  case Nil
  then show ?case by simp
next
  case (Cons k ks)
  have "distinct (map fst (cat_bump k m))" using Cons.prems(1) by (rule cat_bump_distinct)
  moreover have "\<forall>x. map_of (cat_bump k m) x =
      (if count_list (ks0 @ [k]) x = 0 then None else Some (count_list (ks0 @ [k]) x))"
    using Cons.prems(2) by (auto simp: cat_bump_lookup split: option.splits)
  ultimately show ?case using Cons.IH [of "cat_bump k m" "ks0 @ [k]"] by simp
qed

lemma cat_map_foldl:
  "cat_map cs = foldl (\<lambda>m k. cat_bump k m) [] (map (\<lambda>c. category_key (c_category c)) cs)"
  by (simp add: cat_map_def foldl_map)

lemma count_list_map_filter: "count_list (map f xs) k = length (filter (\<lambda>x. f x = k) xs)"
  by (induction xs) auto

lemma cat_map_props:
  "distinct (map fst (cat_map cs)) \<and>
   (\<forall>k. map_of (cat_map cs) k =
          (let n = length (filter (\<lambda>c. category_key (c_category c) = k) cs) in
           if n = 0 then None else Some n))"
  using foldl_cat_bump [of "[]" "[]" "map (\<lambda>c. category_key (c_category c)) cs"]
  by (simp add: cat_map_foldl count_list_map_filter Let_def)



lemma distinct_map_sort_key: "distinct (map g (sort_key f xs)) \<longleftrightarrow> distinct (map g xs)"
  by (rule mset_eq_imp_distinct_iff) simp

lemma cat_map_mem:
  assumes "(k, n) \<in> set (cat_map cs)"
  shows "n = length (filter (\<lambda>c. category_key (c_category c) = k) cs) \<and> 0 < n"
proof -
  from cat_map_props [of cs] have "distinct (map fst (cat_map cs))" by simp
  from this assms have "map_of (cat_map cs) k = Some n" by (rule map_of_is_SomeI)
  with cat_map_props [of cs] show ?thesis by (auto simp: Let_def split: if_splits)
qed

lemma by_category_sub: "set (by_category cs) \<subseteq> set (cat_map cs)"
  unfolding by_category_def by (metis set_sort set_take_subset)

text \<open>
  C26. The series window is always between 1 and 180 days, whatever the query string
  holds.
\<close>

theorem window_days_bounds: "1 \<le> window_days q \<and> window_days q \<le> 180"
  by (simp add: window_days_def split: js_number.splits)

text \<open>
  The documented default of 30 days applies only to an absent or non-numeric
  \<open>windowDays\<close>; an empty \<open>windowDays=\<close> is \<open>Number("") = 0\<close> and gives a one-day
  window; numbers are clamped.
\<close>

theorem window_days_values:
  "window_days None = 30 \<and> window_days (Some ''abc'') = 30 \<and> window_days (Some '''') = 1 \<and>
   window_days (Some '' 45 '') = 45 \<and> window_days (Some ''-3'') = 1 \<and> window_days (Some ''999'') = 180"
  by code_simp

text \<open>
  The category breakdown lists at most twelve distinct categories in descending order
  of size, and the count reported for a category is the number of courses whose trimmed
  category (empty and blank ones as \<open>Uncategorized\<close>) it is.
\<close>

theorem by_category_counts:
  "length (by_category cs) \<le> 12 \<and> distinct (map fst (by_category cs)) \<and>
   sorted_wrt (\<ge>) (map snd (by_category cs)) \<and>
   list_all (\<lambda>(k, n). n = length (filter (\<lambda>c. category_key (c_category c) = k) cs) \<and> 0 < n)
     (by_category cs)"
proof (intro conjI)
  show "length (by_category cs) \<le> 12" by (simp add: by_category_def)
  show "distinct (map fst (by_category cs))"
    using cat_map_props [of cs]
    by (simp add: by_category_def take_map [symmetric] distinct_map_sort_key)
  show "sorted_wrt (\<ge>) (map snd (by_category cs))"
    using sorted_take_sort_key [of "\<lambda>(k, n). - int n" 12 "cat_map cs"]
    by (simp add: by_category_def sorted_map sorted_wrt_map split_def)
  show "list_all (\<lambda>(k, n). n = length (filter (\<lambda>c. category_key (c_category c) = k) cs) \<and> 0 < n)
     (by_category cs)"
    using by_category_sub [of cs] by (auto simp: list_all_iff dest: cat_map_mem)
qed

text \<open>
  The breakdown keeps the largest categories: a category left out of the twelve has
  no more courses than any category listed.
\<close>

theorem by_category_top:
  assumes "c \<in> set cs" and "category_key (c_category c) \<notin> fst ` set (by_category cs)"
    and "(k', n') \<in> set (by_category cs)"
  shows "length (filter (\<lambda>x. category_key (c_category x) = category_key (c_category c)) cs) \<le> n'"
proof -
  let ?k = "category_key (c_category c)"
  let ?n = "length (filter (\<lambda>x. category_key (c_category x) = ?k) cs)"
  have "0 < ?n" using assms(1) by (auto simp: length_filter_conv_card card_gt_0_iff in_set_conv_nth)
  with cat_map_props [of cs] have "map_of (cat_map cs) ?k = Some ?n" by (simp add: Let_def)
  then have y: "(?k, ?n) \<in> set (cat_map cs)" by (rule map_of_SomeD)
  have "(?k, ?n) \<notin> set (by_category cs)" using assms(2) by force
  from take_sort_key_top [OF y this [unfolded by_category_def] assms(3) [unfolded by_category_def]]
  show ?thesis by simp
qed

text \<open>
  The top-courses list holds at most five courses, sorted by descending number of
  videos, and a course left out has no more videos than any course listed.
\<close>

theorem top_courses_top5:
  assumes "c \<in> set (courses d)" and "course_stat d c \<notin> set (top_courses_by_videos d)"
    and "s \<in> set (top_courses_by_videos d)"
  shows "cs_videos (course_stat d c) \<le> cs_videos s \<and> length (top_courses_by_videos d) \<le> 5 \<and>
         sorted_wrt (\<ge>) (map cs_videos (top_courses_by_videos d))"
proof (intro conjI)
  have y: "course_stat d c \<in> set (map (course_stat d) (courses d))" using assms(1) by simp
  from take_sort_key_top [OF y assms(2) [unfolded top_courses_by_videos_def]
         assms(3) [unfolded top_courses_by_videos_def]]
  show "cs_videos (course_stat d c) \<le> cs_videos s" by simp
  show "length (top_courses_by_videos d) \<le> 5" by (simp add: top_courses_by_videos_def)
  show "sorted_wrt (\<ge>) (map cs_videos (top_courses_by_videos d))"
    using sorted_take_sort_key [of "\<lambda>s. - int (cs_videos s)" 5 "map (course_stat d) (courses d)"]
    by (simp add: top_courses_by_videos_def sorted_map sorted_wrt_map)
qed



text \<open>\<open>GET /admin/stats\<close> answers 403 to every authenticated non-admin.\<close>

theorem route_stats_admin_only:
  assumes "auth env h = Inr u" and "su_role u \<noteq> ''ADMIN''"
  shows "route_stats env h q d = Inl Forbidden"
  using assms auth_role_upper [OF assms(1)]
  by (simp add: route_stats_def guarded_def requires_def Let_def)

theorem by_category_top_witness:
  "length (filter (\<lambda>x. category_key (c_category x) = category_key (c_category (demo_stat_course ''12'' ''k12'')))
     demo_many_courses) \<le> 1"
proof (rule by_category_top [where k' = "''k1''"])
  show "demo_stat_course ''12'' ''k12'' \<in> set demo_many_courses" by code_simp
  show "category_key (c_category (demo_stat_course ''12'' ''k12'')) \<notin> fst ` set (by_category demo_many_courses)"
    by code_simp
  show "(''k1'', 1) \<in> set (by_category demo_many_courses)" by code_simp
qed

theorem top_courses_top5_witness:
  "cs_videos (course_stat demo_stats_db (demo_stat_course ''4'' ''Web'')) \<le>
     cs_videos (course_stat demo_stats_db (demo_stat_course ''5'' ''Web'')) \<and>
   length (top_courses_by_videos demo_stats_db) \<le> 5 \<and>
   sorted_wrt (\<ge>) (map cs_videos (top_courses_by_videos demo_stats_db))"
proof (rule top_courses_top5)
  show "demo_stat_course ''4'' ''Web'' \<in> set (courses demo_stats_db)" by code_simp
  show "course_stat demo_stats_db (demo_stat_course ''4'' ''Web'') \<notin> set (top_courses_by_videos demo_stats_db)"
    by code_simp
  show "course_stat demo_stats_db (demo_stat_course ''5'' ''Web'') \<in> set (top_courses_by_videos demo_stats_db)"
    by code_simp
qed


theorem route_stats_admin_only_witness:
  "route_stats demo_env (Bearer (demo_token ''ty'' ''TEACHER'')) None demo_db = Inl Forbidden"
  by (rule route_stats_admin_only [OF demo_token_auth(1)]) simp

end
