(* ===== verification/DashboardPages.thy ===== *)
theory DashboardPages
  imports ContentForms Admin
begin

text \<open>
  The pages that only read through the API client and show what they read: the
  student dashboard (components/UserComponents/UserDashboard.jsx), the payment modal
  (Pages/Payment/Payment.js), and the admin overview pages
  (components/Adminitems/Statistics.jsx and AdminDashboard.jsx). Requests the page sends
  together with \<open>Promise.all\<close> are sent one after the other here, each through
  \<open>api_call\<close>; the first failure in that order is the one the page reports.
\<close>

section \<open>Two user routes the pages reach\<close>

text \<open>\<open>GET /users/enrolled\<close> (any signed-in role) and \<open>GET /users/:id\<close> (ADMIN or TEACHER).\<close>

definition route_enrolled :: "request_env \<Rightarrow> auth_header \<Rightarrow> db \<Rightarrow> course_row list result \<times> db" where
  "route_enrolled env h = guarded env h [] (\<lambda>u d. (enrolled u d, d))"

definition route_get_user :: "request_env \<Rightarrow> auth_header \<Rightarrow> string \<Rightarrow> db \<Rightarrow> user_row result \<times> db" where
  "route_get_user env h i = guarded env h [''ADMIN'', ''TEACHER''] (\<lambda>_ d. (get_user i d, d))"

section \<open>Student \<open>UserDashboard.jsx\<close>\<close>

record dash_view =
  dv_user :: "user_row option"
  dv_enrolled :: "course_row list"
  dv_loading :: bool

definition dash_initial :: dash_view where
  "dash_initial = \<lparr>dv_user = None, dv_enrolled = [], dv_loading = True\<rparr>"

text \<open>
  \<open>load()\<close>: \<open>UserAPI.profile()\<close> and \<open>UserAPI.enrolled()\<close>; the user is \<open>me?.user || me\<close>
  (the profile route answers the row itself), the list the array answered. A 401 or 403
  shows "Session expired" and navigates to \<open>/login\<close>; another error only a toast.
\<close>

definition dashboard_load ::
  "request_env \<Rightarrow> browser \<Rightarrow> db \<Rightarrow> ui_notice \<times> string option \<times> dash_view \<times> browser \<times> db" where
  "dashboard_load env b d =
     (case api_call env (\<lambda>h d. (route_profile env h d, d)) b d of
        (r1, b1, d1, _) \<Rightarrow>
          (case api_call env (\<lambda>h. route_enrolled env h) b1 d1 of
             (r2, b2, d2, _) \<Rightarrow>
               (let fail = (\<lambda>e. (Request_Failed e,
                                  if status_code e = 401 \<or> status_code e = 403 then Some ''/login'' else None,
                                  dash_initial\<lparr>dv_loading := False\<rparr>, b2, d2))
                in case r1 of
                     Inl e \<Rightarrow> fail e
                   | Inr me \<Rightarrow>
                       (case r2 of
                          Inl e \<Rightarrow> fail e
                        | Inr cs \<Rightarrow> (No_Toast, None, \<lparr>dv_user = Some me, dv_enrolled = cs, dv_loading = False\<rparr>,
                                     b2, d2)))))"

text \<open>\<open>(user?.name || "Student").split(" ")[0]\<close>.\<close>

definition dashboard_first_name :: "dash_view \<Rightarrow> string" where
  "dashboard_first_name v =
     takeWhile (\<lambda>c. c \<noteq> CHR '' '')
       (case dv_user v of Some u \<Rightarrow> if u_name u = [] then ''Student'' else u_name u | None \<Rightarrow> ''Student'')"

section \<open>\<open>Payment.js\<close>\<close>

text \<open>
  The modal's state: the VPA typed and the course shown (\<open>{}\<close> until loaded).
  \<open>GET /courses/:id\<close> answers the course with its videos.
\<close>

record payment_view =
  pay_input :: string
  pay_course :: "(course_row \<times> video_row list) option"

definition payment_initial :: payment_view where
  "payment_initial = \<lparr>pay_input = [], pay_course = None\<rparr>"

text \<open>The effect that loads the course when the modal is open and the route has an id.\<close>

definition payment_fetch ::
  "request_env \<Rightarrow> bool \<Rightarrow> string \<Rightarrow> payment_view \<Rightarrow> browser \<Rightarrow> db \<Rightarrow> ui_notice \<times> payment_view \<times> browser \<times> db" where
  "payment_fetch env is_open cid v b d =
     (if is_open \<and> cid \<noteq> []
      then (case api_call env (\<lambda>h d. (get_course cid d, d)) b d of
              (Inr cv, b1, d1, _) \<Rightarrow> (No_Toast, v\<lparr>pay_course := Some cv\<rparr>, b1, d1)
            | (Inl e, b1, d1, _) \<Rightarrow> (Request_Failed e, v, b1, d1))
      else (No_Toast, v, b, d))"

text \<open>\<open>typeof course?.price === "number" ? course.price : 0\<close> and the lesson count.\<close>

definition payment_price :: "payment_view \<Rightarrow> int" where
  "payment_price v = (case pay_course v of Some (c, _) \<Rightarrow> c_price c | None \<Rightarrow> 0)"

definition payment_lessons :: "payment_view \<Rightarrow> nat" where
  "payment_lessons v = (case pay_course v of Some (_, vs) \<Rightarrow> length vs | None \<Rightarrow> 1)"

text \<open>The pay button is enabled when the VPA contains \<open>@\<close>.\<close>

definition payment_enabled :: "payment_view \<Rightarrow> bool" where
  "payment_enabled v \<longleftrightarrow> js_includes (pay_input v) ''@''"

text \<open>
  \<open>handlePayment\<close>: \<open>POST /users/addCourse/:id\<close>, then the toast, \<open>onClose()\<close> on both
  branches and the input cleared. No router declares that path.
\<close>

definition handle_payment ::
  "request_env \<Rightarrow> string \<Rightarrow> payment_view \<Rightarrow> browser \<Rightarrow> db \<Rightarrow> ui_notice \<times> payment_view \<times> browser \<times> db" where
  "handle_payment env cid v b d =
     (case api_call env (\<lambda>h. unmatched_request POST [''users'', ''addCourse'', cid]) b d of
        (Inl e, b1, d1, _) \<Rightarrow> (Request_Failed e, v\<lparr>pay_input := []\<rparr>, b1, d1)
      | (Inr _, b1, d1, _) \<Rightarrow> (Success_Toast, v\<lparr>pay_input := []\<rparr>, b1, d1))"

section \<open>Admin \<open>Statistics.jsx\<close>\<close>

record stats_view =
  sv_coursesTotal :: "nat option"
  sv_videosTotal :: "nat option"
  sv_usersTotal :: "nat option"

text \<open>
  \<open>load()\<close>: \<open>CourseAPI.list({page: 1, limit: 1})\<close> and \<open>VideoAPI.list({page: 1, limit:
  1})\<close> for their \<open>pagination.total\<close>; then \<open>GET /users/count\<close>, which the backend routes
  to \<open>GET /users/:id\<close> with id \<open>count\<close>; its \<open>data.total\<close> is read, a field a user row
  does not have, and an error is swallowed, so the users total stays \<open>null\<close>.
\<close>

definition statistics_load ::
  "request_env \<Rightarrow> stats_view \<Rightarrow> browser \<Rightarrow> db \<Rightarrow> ui_notice \<times> stats_view \<times> browser \<times> db" where
  "statistics_load env v b d =
     (let q = \<lparr>cq_search = [], cq_order = [], cq_page = ''1'', cq_limit = ''1'', cq_category = [],
               cq_minPrice = None, cq_maxPrice = None\<rparr>;
          vq = \<lparr>vq_courseId = [], vq_search = [], vq_page = ''1'', vq_limit = ''1''\<rparr>
      in case api_call env (\<lambda>h d. (Inr (list_courses q d), d)) b d of
           (r1, b1, d1, _) \<Rightarrow>
             (case api_call env (\<lambda>h d. (Inr (list_videos vq d), d)) b1 d1 of
                (r2, b2, d2, _) \<Rightarrow>
                  (case (r1, r2) of
                     (Inr p1, Inr p2) \<Rightarrow>
                       (case api_call env (\<lambda>h. route_get_user env h ''count'') b2 d2 of
                          (r3, b3, d3, _) \<Rightarrow>
                            (No_Toast, \<lparr>sv_coursesTotal = Some (pg_total p1), sv_videosTotal = Some (pg_total p2),
                                        sv_usersTotal = (case r3 of Inr _ \<Rightarrow> None | Inl _ \<Rightarrow> None)\<rparr>, b3, d3))
                   | (Inl e, _) \<Rightarrow> (Request_Failed e, v, b2, d2)
                   | (_, Inl e) \<Rightarrow> (Request_Failed e, v, b2, d2))))"

section \<open>Admin \<open>AdminDashboard.jsx\<close>\<close>

definition totals_initial :: totals where
  "totals_initial = \<lparr>tot_users = 0, tot_courses = 0, tot_videos = 0, tot_enrollments = 0\<rparr>"

text \<open>The effect: \<open>GET /admin/stats\<close>, then \<open>setTotals(data?.totals ?? {})\<close>; an error is a toast.\<close>

definition admin_dashboard_load ::
  "request_env \<Rightarrow> totals \<Rightarrow> browser \<Rightarrow> db \<Rightarrow> ui_notice \<times> totals \<times> browser \<times> db" where
  "admin_dashboard_load env t b d =
     (case api_call env (\<lambda>h d. (route_stats env h None d, d)) b d of
        (Inr s, b1, d1, _) \<Rightarrow> (No_Toast, st_totals s, b1, d1)
      | (Inl e, b1, d1, _) \<Rightarrow> (Request_Failed e, t, b1, d1))"

section \<open>Lemmas\<close>

text \<open>The payment posts to a path no route declares: it always fails with 404 and changes nothing.\<close>

lemma handle_payment_fails:
  "\<not> route_exists POST [''users'', ''addCourse'', cid] \<and>
   handle_payment env cid v b d = (Request_Failed Not_Found, v\<lparr>pay_input := []\<rparr>, b, d)"
proof -
  have "api_call env (\<lambda>h. unmatched_request POST [''users'', ''addCourse'', cid]) b d = (Inl Not_Found, b, d, False)"
    by (rule api_call_passes) (simp_all add: unmatched_request_def)
  moreover have "\<not> route_exists POST [''users'', ''addCourse'', cid]"
    by (auto simp: route_exists_def backend_routes_def elim: seg_match.elims)
  ultimately show ?thesis by (simp add: handle_payment_def)
qed

text \<open>
  For a request the backend authenticates, the dashboard shows the caller's profile and
  the courses of its enrollments, and the list pages the totals the statistics count.
\<close>

lemma dashboard_load_shows_enrolled:
  assumes "auth env (request_header b) = Inr u" and "current_user d u = Inr me"
  shows "dashboard_load env b d =
           (No_Toast, None, \<lparr>dv_user = Some me,
              dv_enrolled = List.maps (\<lambda>e. case find_course d (e_courseId e) of None \<Rightarrow> [] | Some c \<Rightarrow> [c])
                              (filter (\<lambda>e. e_userId e = u_id me) (enrollments d)),
              dv_loading = False\<rparr>, b, d)"
proof -
  have p: "route_profile env (request_header b) d = Inr me"
    using assms by (simp add: route_profile_def guarded_Inr profile_def)
  have e: "route_enrolled env (request_header b) d =
             (Inr (List.maps (\<lambda>e. case find_course d (e_courseId e) of None \<Rightarrow> [] | Some c \<Rightarrow> [c])
                     (filter (\<lambda>e. e_userId e = u_id me) (enrollments d))), d)"
    using assms by (simp add: route_enrolled_def guarded_Inr enrolled_def)
  show ?thesis
    using api_call_first [of "\<lambda>h d. (route_profile env h d, d)", OF p [THEN arg_cong [where f = "\<lambda>r. (r, d)"]]]
          api_call_first [of "route_enrolled env", OF e]
    by (simp add: dashboard_load_def Let_def)
qed

lemma admin_dashboard_shows_totals:
  assumes "auth env (request_header b) = Inr u" and "su_role u = ''ADMIN''"
  shows "admin_dashboard_load env t b d = (No_Toast, stats_totals d, b, d)"
proof -
  have "route_stats env (request_header b) None d = Inr (admin_stats (env_now env) None d)"
  proof -
    have "guarded env (request_header b) [''ADMIN''] (\<lambda>_ d. (Inr (admin_stats (env_now env) None d), d)) d
          = (Inr (admin_stats (env_now env) None d), d)"
      by (rule guarded_Inr [OF assms(1)]) (simp add: auth_role_upper [OF assms(1)] assms(2))
    then show ?thesis by (simp add: route_stats_def)
  qed
  then have "api_call env (\<lambda>h d. (route_stats env h None d, d)) b d = (Inr (admin_stats (env_now env) None d), b, d, False)"
    by (intro api_call_first) simp
  then show ?thesis by (simp add: admin_dashboard_load_def admin_stats_def Let_def)
qed

text \<open>
  The statistics page shows the number of courses and of videos in the store, and never a
  users total.
\<close>

lemma statistics_load_totals:
  "fst (snd (statistics_load env v b d)) =
     \<lparr>sv_coursesTotal = Some (length (courses d)), sv_videosTotal = Some (length (videos d)), sv_usersTotal = None\<rparr>"
proof -
  let ?q = "\<lparr>cq_search = [], cq_order = [], cq_page = ''1'', cq_limit = ''1'', cq_category = [],
             cq_minPrice = None, cq_maxPrice = None\<rparr>"
  let ?vq = "\<lparr>vq_courseId = [], vq_search = [], vq_page = ''1'', vq_limit = ''1''\<rparr>"
  have c: "api_call env (\<lambda>h d. (Inr (list_courses ?q d), d)) b d = (Inr (list_courses ?q d), b, d, False)"
    by (rule api_call_first) simp
  have v: "api_call env (\<lambda>h d. (Inr (list_videos ?vq d), d)) b d = (Inr (list_videos ?vq d), b, d, False)"
    by (rule api_call_first) simp
  have "pg_total (list_courses ?q d) = length (courses d)"
    by (simp add: total_list_courses course_matches_def)
  moreover have "pg_total (list_videos ?vq d) = length (videos d)"
    by (simp add: list_videos_def paginate_def)
  ultimately show ?thesis using c v
    by (simp add: statistics_load_def Let_def split: prod.split sum.split)
qed

end
