(* ===== verification/Seed.thy ===== *)
theory Seed
  imports Store
begin

text \<open>
  The seed script src/backend/prisma/seed.cjs as a function of the store. Each block of
  \<open>main()\<close> is one definition: the admin upsert and the teacher and student upserts,
  the two courses it reuses or creates, the two enrollments, the two mock tests of the
  first course, the two attempts and the certificate, each created only when the row
  it would duplicate is absent. The script either finishes (\<open>Inr\<close> of the store) or
  throws when a destructured course or test is \<open>undefined\<close> (\<open>Inl\<close> of the store as
  far as it had written it, since Prisma commits each call). \<open>orderBy: {createdAt:
  "asc"}\<close> is a stable sort on the creation time; mock tests carry no creation time
  in the model, so their order is insertion order, which is \<open>createdAt\<close> order for
  rows created with the default \<open>now()\<close>. Hashes are abstracted as in the store.
\<close>

record seed_env =
  env_admin_password :: "string option"
  env_seed_password :: "string option"
  seed_now :: int

section \<open>Users\<close>

text \<open>
  \<open>prisma.user.upsert({where: {email}, update, create})\<close>: the row with that e-mail,
  updated, or a created row with a fresh id.
\<close>

definition upsert_user ::
  "string \<Rightarrow> (user_row \<Rightarrow> user_row) \<Rightarrow> user_row \<Rightarrow> db \<Rightarrow> user_row \<times> db" where
  "upsert_user e upd new d =
     (case find_user_by_email d e of
        Some u \<Rightarrow> (upd u, d\<lparr>users := map (\<lambda>x. if u_email x = e then upd x else x) (users d)\<rparr>)
      | None \<Rightarrow> (let u = new\<lparr>u_id := fresh_id (map u_id (users d))\<rparr> in (u, d\<lparr>users := users d @ [u]\<rparr>)))"

definition new_user :: "string \<Rightarrow> string \<Rightarrow> pw_hash \<Rightarrow> string \<Rightarrow> int \<Rightarrow> user_row" where
  "new_user e n pw r now =
     \<lparr>u_id = [], u_email = e, u_password = pw, u_name = n, u_role = r, u_age = None,
      u_place = None, u_created = now\<rparr>"

definition admin_email :: string where
  "admin_email = js_lower ''admin@example.com''"

definition teacher_email :: string where
  "teacher_email = ''teacher.seed@example.com''"

definition student_email :: string where
  "student_email = ''student.seed@example.com''"

text \<open>The \<open>update\<close> clause of the admin upsert: password, name and role forced.\<close>

definition admin_update :: "pw_hash \<Rightarrow> user_row \<Rightarrow> user_row" where
  "admin_update pw u = u\<lparr>u_password := pw, u_name := ''System Admin'', u_role := ''ADMIN''\<rparr>"

text \<open>Blocks 1 and 2: the admin (its password, name and role forced) and the two users.\<close>

definition seed_users :: "seed_env \<Rightarrow> db \<Rightarrow> (user_row \<times> user_row) \<times> db" where
  "seed_users env d =
     (let pw = Bcrypt (js_str (js_or (env_admin_password env) (Some ''admin123'')));
          d1 = snd (upsert_user admin_email (admin_update pw)
                      (new_user admin_email ''System Admin'' pw ''ADMIN'' (seed_now env)) d);
          spw = Bcrypt (js_str (js_or (env_seed_password env) (Some ''seedpass123'')));
          (t, d2) = upsert_user teacher_email id (new_user teacher_email ''Seed Teacher'' spw ''TEACHER'' (seed_now env)) d1;
          (s, d3) = upsert_user student_email id (new_user student_email ''Seed Student'' spw ''USER'' (seed_now env)) d2
      in ((t, s), d3))"

section \<open>Courses\<close>

text \<open>\<open>prisma.course.findMany({take: 2, orderBy: {createdAt: "asc"}})\<close>.\<close>

definition first_courses :: "db \<Rightarrow> course_row list" where
  "first_courses d = take 2 (sort_key c_created (courses d))"

text \<open>\<open>createMany\<close>: the rows appended in order, each with a fresh id.\<close>

fun insert_courses :: "course_row list \<Rightarrow> db \<Rightarrow> db" where
  "insert_courses [] d = d"
| "insert_courses (c # cs) d =
     insert_courses cs (d\<lparr>courses := courses d @ [c\<lparr>c_id := fresh_id (map c_id (courses d))\<rparr>]\<rparr>)"

definition seed_course :: "string \<Rightarrow> string \<Rightarrow> string \<Rightarrow> int \<Rightarrow> course_row" where
  "seed_course ti de tid now =
     \<lparr>c_id = [], c_title = ti, c_description = de, c_category = ''Seeding'', c_price = 0,
      c_teacherId = tid, c_created = now\<rparr>"

text \<open>Block 3: reuse the two oldest courses, or create the missing ones owned by the teacher.\<close>

definition seed_courses :: "seed_env \<Rightarrow> user_row \<Rightarrow> db \<Rightarrow> course_row list \<times> db" where
  "seed_courses env t d =
     (let cs = first_courses d in
      if length cs < 2 then
        (let need = 2 - length cs;
             d1 = insert_courses
                    (take need [seed_course ''Seed Course A'' ''Intro course created by seed script.'' (u_id t) (seed_now env),
                                seed_course ''Seed Course B'' ''Second intro course created by seed script.'' (u_id t) (seed_now env)]) d
         in (first_courses d1, d1))
      else (cs, d))"

section \<open>Enrollments, tests, attempts, certificate\<close>

text \<open>Block 4: \<open>ensureEnrollment\<close>, \<open>findFirst\<close> then \<open>create\<close>.\<close>

definition ensure_enrollment :: "int \<Rightarrow> string \<Rightarrow> string \<Rightarrow> db \<Rightarrow> db" where
  "ensure_enrollment now u c d =
     (if find (\<lambda>e. e_userId e = u \<and> e_courseId e = c) (enrollments d) \<noteq> None then d
      else d\<lparr>enrollments := enrollments d @
             [\<lparr>e_id = fresh_id (map e_id (enrollments d)), e_userId = u, e_courseId = c,
               e_progress = 0, e_status = ''ACTIVE'', e_created = now\<rparr>]\<rparr>)"

definition course_tests :: "string \<Rightarrow> db \<Rightarrow> mocktest_row list" where
  "course_tests c d = filter (\<lambda>t. t_courseId t = c) (mocktests d)"

fun insert_tests :: "mocktest_row list \<Rightarrow> db \<Rightarrow> db" where
  "insert_tests [] d = d"
| "insert_tests (t # ts) d =
     insert_tests ts (d\<lparr>mocktests := mocktests d @ [t\<lparr>t_id := fresh_id (map t_id (mocktests d))\<rparr>]\<rparr>)"

text \<open>Block 5: reuse the first two tests of the course, or create the missing ones.\<close>

definition seed_tests :: "string \<Rightarrow> db \<Rightarrow> mocktest_row list \<times> db" where
  "seed_tests c d =
     (let ex = course_tests c d in
      if 2 \<le> length ex then (take 2 ex, d)
      else
        (let mk = (\<lambda>ti. \<lparr>t_id = [], t_title = ti, t_courseId = c\<rparr>);
             to_make = (if length ex = 0 then [mk ''K8s Basics Quiz'', mk ''K8s Deployments Quiz'']
                        else if length ex = 1 then [mk ''K8s Deployments Quiz''] else []);
             d1 = insert_tests to_make d
         in (take 2 (course_tests c d1), d1)))"

text \<open>Block 6: \<open>ensureAttempt\<close>.\<close>

definition ensure_attempt :: "string \<Rightarrow> string \<Rightarrow> int \<Rightarrow> db \<Rightarrow> db" where
  "ensure_attempt u t sc d =
     (if find (\<lambda>a. a_userId a = u \<and> a_testId a = t) (attempts d) \<noteq> None then d
      else d\<lparr>attempts := attempts d @
             [\<lparr>a_id = fresh_id (map a_id (attempts d)), a_userId = u, a_testId = t, a_score = sc\<rparr>]\<rparr>)"

text \<open>Block 7: the certificate of the student for the second course.\<close>

definition ensure_certificate :: "string \<Rightarrow> string \<Rightarrow> db \<Rightarrow> db" where
  "ensure_certificate u c d =
     (if find (\<lambda>x. ce_userId x = u \<and> ce_courseId x = c) (certificates d) \<noteq> None then d
      else d\<lparr>certificates := certificates d @
             [\<lparr>ce_id = fresh_id (map ce_id (certificates d)), ce_userId = u, ce_courseId = c,
               ce_grade = ''A'', ce_fileUrl = ''https://example.com/certificates/seed-student-sql-essentials.pdf''\<rparr>]\<rparr>)"

section \<open>The script\<close>

text \<open>
  \<open>main()\<close>: \<open>Inl\<close> is the rejected promise (a \<open>TypeError\<close> on \<open>courseA.id\<close> or
  \<open>test1.id\<close> when the list has fewer than two rows), with the writes made so far.
\<close>

definition seed :: "seed_env \<Rightarrow> db \<Rightarrow> db + db" where
  "seed env d =
     (let ((t, s), d1) = seed_users env d;
          (cs, d2) = seed_courses env t d1
      in case cs of
           [a, b] \<Rightarrow>
             (let d3 = ensure_enrollment (seed_now env) (u_id s) (c_id b)
                         (ensure_enrollment (seed_now env) (u_id s) (c_id a) d2);
                  (ts, d4) = seed_tests (c_id a) d3
              in case ts of
                   [t1, t2] \<Rightarrow>
                     Inr (ensure_certificate (u_id s) (c_id b)
                            (ensure_attempt (u_id s) (t_id t2) 85 (ensure_attempt (u_id s) (t_id t1) 78 d4)))
                 | _ \<Rightarrow> Inl d4)
         | _ \<Rightarrow> Inl d2)"

definition demo_seed_env :: seed_env where
  "demo_seed_env = \<lparr>env_admin_password = None, env_seed_password = None, seed_now = 0\<rparr>"

text \<open>A store where the teacher's e-mail already belongs to a student.\<close>

definition demo_seed_clash_db :: db where
  "demo_seed_clash_db = empty_db\<lparr>users := [new_user teacher_email ''Sam'' (Bcrypt ''pw'') ''USER'' 0\<lparr>u_id := ''u1''\<rparr>]\<rparr>"

section \<open>Lemmas\<close>

subsection \<open>Frame: each block writes one table\<close>

lemma insert_courses_frame [simp]:
  "users (insert_courses cs d) = users d"
  "enrollments (insert_courses cs d) = enrollments d"
  "mocktests (insert_courses cs d) = mocktests d"
  by (induction cs arbitrary: d) simp_all

lemma insert_courses_length:
  "length (courses (insert_courses cs d)) = length (courses d) + length cs"
  by (induction cs arbitrary: d) simp_all

lemma insert_tests_frame [simp]:
  "users (insert_tests ts d) = users d" "courses (insert_tests ts d) = courses d"
  "enrollments (insert_tests ts d) = enrollments d" "attempts (insert_tests ts d) = attempts d"
  "certificates (insert_tests ts d) = certificates d"
  by (induction ts arbitrary: d) simp_all

lemma insert_tests_course_tests:
  "length (course_tests c (insert_tests ts d)) = length (course_tests c d) + length (filter (\<lambda>t. t_courseId t = c) ts)"
  by (induction ts arbitrary: d) (simp_all add: course_tests_def)

lemma ensure_frame [simp]:
  "users (ensure_enrollment n u c d) = users d" "courses (ensure_enrollment n u c d) = courses d"
  "mocktests (ensure_enrollment n u c d) = mocktests d"
  "users (ensure_attempt u t sc d) = users d" "courses (ensure_attempt u t sc d) = courses d"
  "enrollments (ensure_attempt u t sc d) = enrollments d" "mocktests (ensure_attempt u t sc d) = mocktests d"
  "users (ensure_certificate u c d) = users d" "courses (ensure_certificate u c d) = courses d"
  "enrollments (ensure_certificate u c d) = enrollments d" "mocktests (ensure_certificate u c d) = mocktests d"
  "attempts (ensure_certificate u c d) = attempts d"
  by (simp_all add: ensure_enrollment_def ensure_attempt_def ensure_certificate_def)

lemma seed_courses_frame [simp]:
  "users (snd (seed_courses env t d)) = users d" "enrollments (snd (seed_courses env t d)) = enrollments d"
  "mocktests (snd (seed_courses env t d)) = mocktests d"
  by (simp_all add: seed_courses_def Let_def)

lemma seed_tests_frame [simp]:
  "users (snd (seed_tests c d)) = users d" "courses (snd (seed_tests c d)) = courses d"
  "enrollments (snd (seed_tests c d)) = enrollments d"
  "attempts (snd (seed_tests c d)) = attempts d" "certificates (snd (seed_tests c d)) = certificates d"
  by (simp_all add: seed_tests_def Let_def)

subsection \<open>The ensure helpers\<close>









subsection \<open>Courses and tests: two of each\<close>

lemma length_first_courses: "length (first_courses d) = min 2 (length (courses d))"
  by (simp add: first_courses_def)

lemma seed_courses_fst: "fst (seed_courses env t d) = first_courses (snd (seed_courses env t d))"
  by (simp add: seed_courses_def Let_def)

lemma seed_courses_two: "2 \<le> length (courses (snd (seed_courses env t d)))"
  by (simp add: seed_courses_def Let_def insert_courses_length length_first_courses min_def
                del: insert_courses.simps)

lemma seed_courses_result:
  assumes "seed_courses env t d = (cs, d1)"
  shows "cs = first_courses d1 \<and> length cs = 2"
  using seed_courses_fst [of env t d] seed_courses_two [of env t d] assms
  by (simp add: length_first_courses)


lemma seed_tests_fst: "fst (seed_tests c d) = take 2 (course_tests c (snd (seed_tests c d)))"
  by (simp add: seed_tests_def Let_def)

lemma seed_tests_two: "2 \<le> length (course_tests c (snd (seed_tests c d)))"
proof (cases "2 \<le> length (course_tests c d)")
  case True
  then show ?thesis by (simp add: seed_tests_def)
next
  case False
  then have "length (course_tests c d) = 0 \<or> length (course_tests c d) = 1" by arith
  then show ?thesis using False
    by (auto simp: seed_tests_def Let_def insert_tests_course_tests simp del: insert_tests.simps)
qed

lemma seed_tests_result:
  assumes "seed_tests c d = (ts, d1)"
  shows "ts = take 2 (course_tests c d1) \<and> 2 \<le> length (course_tests c d1)"
  using seed_tests_fst [of c d] seed_tests_two [of c d] assms by simp


subsection \<open>Upserts\<close>






lemma admin_update_idem [simp]: "admin_update pw (admin_update pw u) = admin_update pw u"
  by (simp add: admin_update_def)

lemma admin_update_email [simp]: "u_email (admin_update pw u) = u_email u"
  by (simp add: admin_update_def)




subsection \<open>The script as a whole\<close>

lemma length_2_conv: "length xs = 2 \<longleftrightarrow> (\<exists>a b. xs = [a, b])"
  by (auto simp: numeral_2_eq_2 length_Suc_conv)

lemma seed_run:
  assumes "seed_users env d = ((t, s), d1)" and "seed_courses env t d1 = ([a, b], d2)"
    and "seed_tests (c_id a) (ensure_enrollment (seed_now env) (u_id s) (c_id b)
           (ensure_enrollment (seed_now env) (u_id s) (c_id a) d2)) = ([t1, t2], d4)"
  shows "seed env d = Inr (ensure_certificate (u_id s) (c_id b)
           (ensure_attempt (u_id s) (t_id t2) 85 (ensure_attempt (u_id s) (t_id t1) 78 d4)))"
  using assms by (simp only: seed_def Let_def prod.case list.case)

lemma seed_stages:
  obtains t s d1 a b d2 t1 t2 d4 where "seed_users env d = ((t, s), d1)"
    and "seed_courses env t d1 = ([a, b], d2)"
    and "seed_tests (c_id a) (ensure_enrollment (seed_now env) (u_id s) (c_id b)
           (ensure_enrollment (seed_now env) (u_id s) (c_id a) d2)) = ([t1, t2], d4)"
proof -
  obtain t s d1 where U: "seed_users env d = ((t, s), d1)" by (metis surj_pair)
  obtain cs d2 where C: "seed_courses env t d1 = (cs, d2)" by (metis surj_pair)
  have "length cs = 2" using seed_courses_result [OF C] by (rule conjunct2)
  then obtain a b where ab: "cs = [a, b]" by (auto simp only: length_2_conv)
  obtain ts d4 where T: "seed_tests (c_id a) (ensure_enrollment (seed_now env) (u_id s) (c_id b)
           (ensure_enrollment (seed_now env) (u_id s) (c_id a) d2)) = (ts, d4)" by (metis surj_pair)
  have "length ts = 2" using seed_tests_result [OF T] by (simp add: min_def)
  then obtain t1 t2 where ts: "ts = [t1, t2]" by (auto simp only: length_2_conv)
  show thesis by (rule that [OF U C [unfolded ab] T [unfolded ts]])
qed



text \<open>
  C24. The seed script never throws: whatever the store holds, the two courses and the
  two mock tests it destructures exist, so \<open>main()\<close> finishes.
\<close>

theorem seed_finishes: "\<exists>d'. seed env d = Inr d'"
proof -
  obtain t s d1 a b d2 t1 t2 d4 where "seed_users env d = ((t, s), d1)"
    and "seed_courses env t d1 = ([a, b], d2)"
    and "seed_tests (c_id a) (ensure_enrollment (seed_now env) (u_id s) (c_id b)
           (ensure_enrollment (seed_now env) (u_id s) (c_id a) d2)) = ([t1, t2], d4)"
    by (rule seed_stages)
  then show ?thesis by (blast dest: seed_run)
qed



text \<open>
  The upsert of the teacher keeps whatever row has its e-mail, whatever its role, and the
  courses the script creates are owned by that row: on a store where the address belongs
  to a student, the spec's invariant that every course is owned by a teacher or an admin
  is broken by the seed.
\<close>

theorem seed_owner_not_teacher:
  "owners_teach demo_seed_clash_db \<and> \<not> owners_teach (projr (seed demo_seed_env demo_seed_clash_db))"
  by code_simp

end
