(* ===== verification/SlugRoutes.thy ===== *)
theory SlugRoutes
  imports Catalog "HOL-Library.Char_ord" "HOL-Library.List_Lexorder" "HOL-Library.Product_Lexorder"
begin

text \<open>
  The second courses router, src/frontend/src/routes/course.routes.jsx: an Express router
  over a \<open>Course\<close> table that has a unique \<open>slug\<close> column, a nullable category and an
  \<open>updatedAt\<close> stamp. Its rows are \<open>scourse\<close> records kept beside the rest of the store
  (users and videos are the store's tables); the router's handlers are functions of
  that pair, behind the same \<open>auth\<close> and \<open>requires\<close> middleware as the backend.
  \<open>clamp\<close> and \<open>slugify\<close> are modelled on the ASCII subset; the slug uniqueness loop
  is a \<open>function\<close> whose termination is proved with a measure. A Prisma error
  (an unknown \<open>orderBy\<close> field, a \<open>NaN\<close> price, a delete that a foreign key
  restricts) is the \<open>catch\<close> branch, status 500.
\<close>

record scourse =
  sc_id :: string
  sc_title :: string
  sc_description :: string
  sc_category :: "string option"
  sc_price :: int
  sc_slug :: "string option"
  sc_teacherId :: string
  sc_created :: int
  sc_updated :: int

record slug_db =
  sd_db :: db
  sd_courses :: "scourse list"

section \<open>Small utilities\<close>

text \<open>\<open>Math.min(Math.max(Number(n) || 0, min), max)\<close>.\<close>

definition clamp :: "js_number \<Rightarrow> int \<Rightarrow> int \<Rightarrow> int" where
  "clamp n lo hi = min (max (case n of NaN \<Rightarrow> 0 | Num k \<Rightarrow> k) lo) hi"

text \<open>A query parameter with a numeric default: absent is the default itself.\<close>

definition query_number :: "string option \<Rightarrow> int \<Rightarrow> js_number" where
  "query_number q dflt = (case q of None \<Rightarrow> Num dflt | Some s \<Rightarrow> js_number_of (Some s))"

text \<open>The class \<open>[a-z0-9]\<close>.\<close>

definition slug_char :: "char \<Rightarrow> bool" where
  "slug_char c \<longleftrightarrow> (let n = (of_char c :: nat) in (97 \<le> n \<and> n \<le> 122) \<or> (48 \<le> n \<and> n \<le> 57))"

text \<open>
  \<open>.replace(/[^a-z0-9]+/g, "-")\<close>: each maximal run of other characters becomes one
  dash; the flag says whether the previous character belonged to such a run.
\<close>

fun slug_runs :: "bool \<Rightarrow> string \<Rightarrow> string" where
  "slug_runs r [] = []"
| "slug_runs r (c # cs) =
     (if slug_char c then c # slug_runs False cs
      else if r then slug_runs True cs else CHR ''-'' # slug_runs True cs)"

text \<open>\<open>.replace(/(^-|-$)+/g, "")\<close>: a leading and a trailing dash removed.\<close>

definition dash_trim :: "string \<Rightarrow> string" where
  "dash_trim s =
     (let s1 = (if s \<noteq> [] \<and> hd s = CHR ''-'' then tl s else s)
      in if s1 \<noteq> [] \<and> last s1 = CHR ''-'' then butlast s1 else s1)"

text \<open>\<open>slugify(s)\<close>: \<open>String(s || "").trim().toLowerCase()\<close>, then the two replacements.\<close>

definition slugify :: "string option \<Rightarrow> string" where
  "slugify s = dash_trim (slug_runs False (js_lower (js_trim (js_str s))))"

text \<open>
  What the router means by a slug: \<open>[a-z0-9]\<close> words joined by single dashes, that is,
  its characters are of the class or dashes, and with a dash put at each end it has no
  two dashes in a row.
\<close>

fun no_double_dash :: "string \<Rightarrow> bool" where
  "no_double_dash (a # b # cs) = (\<not> (a = CHR ''-'' \<and> b = CHR ''-'') \<and> no_double_dash (b # cs))"
| "no_double_dash _ = True"

definition is_slug :: "string \<Rightarrow> bool" where
  "is_slug s \<longleftrightarrow>
     list_all (\<lambda>c. slug_char c \<or> c = CHR ''-'') s \<and> no_double_dash (CHR ''-'' # s @ [CHR ''-''])"

section \<open>The current user\<close>

text \<open>
  \<open>getCurrentUserOrThrow\<close>: \<open>req.user.id || req.user.userId || req.user.sub\<close> is the
  middleware's \<open>id\<close> (\<open>toSafeUser\<close> sets no other of these keys and no \<open>email\<close>), so
  an identity is looked up by id (404 when gone) and its absence is 401.
\<close>

definition current_user_or_throw :: "db \<Rightarrow> safe_user \<Rightarrow> user_row result" where
  "current_user_or_throw d u =
     (if js_truthy (su_id u) then
        (case find_user d (js_str (su_id u)) of None \<Rightarrow> Inl Not_Found | Some me \<Rightarrow> Inr me)
      else Inl Unauthorized)"

section \<open>The slug uniqueness loop\<close>

text \<open>
  \<open>while (await prisma.course.findUnique({where: {slug: nextSlug}})) { i += 1;
  nextSlug = `${slugify(title)}-${i}` }\<close> over the slugs in use, \<open>base\<close> being
  \<open>slugify(title)\<close>. Each probe that finds its candidate taken either moves to a longer
  candidate or, once the number has more digits than any slug in use has characters,
  to a free one; the measure counts this down.
\<close>

function unique_slug :: "string list \<Rightarrow> string \<Rightarrow> nat \<Rightarrow> string \<Rightarrow> string" where
  "unique_slug used base i cand =
     (if cand \<in> set used then unique_slug used base (i + 1) (base @ ''-'' @ show_nat (i + 1))
      else cand)"
  by pat_completeness auto
termination
proof (relation "measure (\<lambda>(used, base, i, cand).
                   (if cand \<in> set used then 1 else 0) + (10 ^ max_len used + 1 - i))")
  show "wf (measure (\<lambda>(used, base, i, cand).
                   (if cand \<in> set used then 1 else 0) + (10 ^ max_len used + 1 - i)))" by simp
next
  fix used :: "string list" and base :: string and i :: nat and cand :: string
  let ?c = "base @ ''-'' @ show_nat (i + 1)"
  assume "cand \<in> set used"
  show "((used, base, i + 1, ?c), (used, base, i, cand)) \<in> measure (\<lambda>(used, base, i, cand).
                   (if cand \<in> set used then 1 else 0) + (10 ^ max_len used + 1 - i))"
  proof (cases "?c \<in> set used")
    case True
    then have "i + 1 < 10 ^ max_len used" by (rule numbered_in_use_bound)
    with True \<open>cand \<in> set used\<close> show ?thesis by simp
  next
    case False
    with \<open>cand \<in> set used\<close> show ?thesis by simp
  qed
qed

declare unique_slug.simps [simp del]

text \<open>The slugs of the table, \<open>null\<close> ones left out.\<close>

definition slugs_in_use :: "scourse list \<Rightarrow> string list" where
  "slugs_in_use cs = concat (map (\<lambda>c. case sc_slug c of None \<Rightarrow> [] | Some s \<Rightarrow> [s]) cs)"

text \<open>\<open>POST /\<close>: \<open>slug ? slugify(slug) : slugify(title)\<close>, made unique, or \<open>null\<close> when empty.\<close>

definition create_slug :: "scourse list \<Rightarrow> string option \<Rightarrow> string option \<Rightarrow> string option" where
  "create_slug cs title slug =
     (let next = (if js_truthy slug then slugify slug else slugify title) in
      if next = [] then None else Some (unique_slug (slugs_in_use cs) (slugify title) 1 next))"


section \<open>Reading courses\<close>

record sc_query =
  sq_search :: "string option"
  sq_category :: "string option"
  sq_teacherId :: "string option"
  sq_minPrice :: "string option"
  sq_maxPrice :: "string option"
  sq_order :: "string option"
  sq_page :: "string option"
  sq_limit :: "string option"

text \<open>The \<open>whereAND\<close> filters: search in title or description, exact category and teacher.\<close>

definition sc_matches :: "sc_query \<Rightarrow> scourse \<Rightarrow> bool" where
  "sc_matches q c \<longleftrightarrow>
     (\<not> js_truthy (sq_search q) \<or> contains_ci (sc_title c) (js_str (sq_search q)) \<or>
        contains_ci (sc_description c) (js_str (sq_search q))) \<and>
     (\<not> js_truthy (sq_category q) \<or> sc_category c = sq_category q) \<and>
     (\<not> js_truthy (sq_teacherId q) \<or> Some (sc_teacherId c) = sq_teacherId q)"

text \<open>
  \<open>priceFilter\<close>: a bound is used when the parameter is present and not \<open>""\<close>; a bound
  that is not a number is rejected by Prisma.
\<close>

definition price_bound :: "string option \<Rightarrow> int option result" where
  "price_bound p =
     (case p of
        None \<Rightarrow> Inr None
      | Some s \<Rightarrow> if s = [] then Inr None
                  else (case js_number_of (Some s) of NaN \<Rightarrow> Inl Server_Error | Num n \<Rightarrow> Inr (Some n)))"

text \<open>
  \<open>String(order).split(":")\<close> with the defaults \<open>createdAt\<close> and \<open>desc\<close> for the parts that
  are missing.
\<close>

definition order_parts :: "string option \<Rightarrow> string \<times> string" where
  "order_parts ord =
     (let s = (case ord of None \<Rightarrow> ''createdAt:desc'' | Some s \<Rightarrow> s);
          f = takeWhile (\<lambda>c. c \<noteq> CHR '':'') s;
          rest = dropWhile (\<lambda>c. c \<noteq> CHR '':'') s
      in (f, if rest = [] then ''desc'' else takeWhile (\<lambda>c. c \<noteq> CHR '':'') (tl rest)))"

text \<open>
  \<open>orderBy: [{[ordField]: dir}]\<close>: the sort key of a column of the table, \<open>None\<close> for a
  name that is not a column (Prisma rejects it). Strings compare by code point; a
  \<open>null\<close> sorts after every value in ascending order, as PostgreSQL sorts them.
\<close>

definition sc_order_key :: "string \<Rightarrow> (scourse \<Rightarrow> bool \<times> int \<times> string) option" where
  "sc_order_key f =
     (if f = ''createdAt'' then Some (\<lambda>c. (False, sc_created c, []))
      else if f = ''updatedAt'' then Some (\<lambda>c. (False, sc_updated c, []))
      else if f = ''price'' then Some (\<lambda>c. (False, sc_price c, []))
      else if f = ''title'' then Some (\<lambda>c. (False, 0, sc_title c))
      else if f = ''description'' then Some (\<lambda>c. (False, 0, sc_description c))
      else if f = ''id'' then Some (\<lambda>c. (False, 0, sc_id c))
      else if f = ''teacherId'' then Some (\<lambda>c. (False, 0, sc_teacherId c))
      else if f = ''category'' then Some (\<lambda>c. (sc_category c = None, 0, js_str (sc_category c)))
      else if f = ''slug'' then Some (\<lambda>c. (sc_slug c = None, 0, js_str (sc_slug c)))
      else None)"

record sc_page =
  sp_data :: "scourse list"
  sp_page :: int
  sp_limit :: int
  sp_total :: nat
  sp_totalPages :: nat

text \<open>\<open>GET /\<close>: filter, order, \<open>skip\<close> and \<open>take\<close>, with the count of all matches.\<close>

definition list_scourses :: "sc_query \<Rightarrow> slug_db \<Rightarrow> sc_page result" where
  "list_scourses q sd =
     (let pageNum = clamp (query_number (sq_page q) 1) 1 10000;
          limitNum = clamp (query_number (sq_limit q) 12) 1 100;
          skip = (pageNum - 1) * limitNum
      in case (price_bound (sq_minPrice q), price_bound (sq_maxPrice q)) of
           (Inr lo, Inr hi) \<Rightarrow>
             (let (f, dir) = order_parts (sq_order q) in
              case sc_order_key f of
                None \<Rightarrow> Inl Server_Error
              | Some k \<Rightarrow>
                  let m = filter (\<lambda>c. sc_matches q c \<and>
                                      (case lo of None \<Rightarrow> True | Some n \<Rightarrow> n \<le> sc_price c) \<and>
                                      (case hi of None \<Rightarrow> True | Some n \<Rightarrow> sc_price c \<le> n)) (sd_courses sd);
                      sorted = (if dir = ''asc'' then sort_key k m else rev (sort_key k m))
                  in Inr \<lparr>sp_data = take (nat limitNum) (drop (nat skip) sorted), sp_page = pageNum,
                          sp_limit = limitNum, sp_total = length m,
                          sp_totalPages = (length m + nat limitNum - 1) div nat limitNum\<rparr>)
         | _ \<Rightarrow> Inl Server_Error)"

definition find_sc :: "scourse list \<Rightarrow> string \<Rightarrow> scourse option" where
  "find_sc cs i = find (\<lambda>c. sc_id c = i) cs"

text \<open>\<open>GET /:id\<close>: the course with its videos, oldest first.\<close>

definition get_scourse :: "string \<Rightarrow> slug_db \<Rightarrow> (scourse \<times> video_row list) result" where
  "get_scourse i sd =
     (case find_sc (sd_courses sd) i of
        None \<Rightarrow> Inl Not_Found
      | Some c \<Rightarrow> Inr (c, sort_key v_created (filter (\<lambda>v. v_courseId v = i) (videos (sd_db sd)))))"

section \<open>Writing courses\<close>

record sc_body =
  sb_title :: "string option"
  sb_description :: "string option"
  sb_category :: "string option"
  sb_price :: "js_number option"
  sb_slug :: "string option"

text \<open>
  \<open>POST /\<close>: the current user, the required fields, the slug, then \<open>course.create\<close>
  owned by the current user; \<open>Number(price)\<close> that is \<open>NaN\<close> is refused by Prisma.
\<close>

definition create_scourse :: "int \<Rightarrow> safe_user \<Rightarrow> sc_body \<Rightarrow> slug_db \<Rightarrow> scourse result \<times> slug_db" where
  "create_scourse now u b sd =
     (case current_user_or_throw (sd_db sd) u of
        Inl e \<Rightarrow> (Inl e, sd)
      | Inr me \<Rightarrow>
          if \<not> js_truthy (sb_title b) \<or> \<not> js_truthy (sb_description b) then (Inl Bad_Request, sd)
          else
            let slug = create_slug (sd_courses sd) (sb_title b) (sb_slug b) in
            (case sb_price b of
               Some NaN \<Rightarrow> (Inl Server_Error, sd)
             | p \<Rightarrow>
                 let c = \<lparr>sc_id = fresh_id (map sc_id (sd_courses sd)), sc_title = js_str (sb_title b),
                          sc_description = js_str (sb_description b),
                          sc_category = (if js_truthy (sb_category b) then sb_category b else None),
                          sc_price = (case p of Some (Num n) \<Rightarrow> n | _ \<Rightarrow> 0),
                          sc_slug = slug, sc_teacherId = u_id me, sc_created = now, sc_updated = now\<rparr>
                 in (Inr c, sd\<lparr>sd_courses := sd_courses sd @ [c]\<rparr>)))"

text \<open>
  The slug part of \<open>PUT /:id\<close>: absent leaves the column, an empty slug clears it, a
  slug that another course holds is 409.
\<close>

definition update_slug :: "scourse list \<Rightarrow> string \<Rightarrow> string option \<Rightarrow> string option option result" where
  "update_slug cs i slug =
     (case slug of
        None \<Rightarrow> Inr None
      | Some _ \<Rightarrow>
          let next = slugify slug in
          if next = [] then Inr (Some None)
          else (case find (\<lambda>c. sc_slug c = Some next) cs of
                  Some clash \<Rightarrow> if sc_id clash \<noteq> i then Inl Conflict else Inr (Some (Some next))
                | None \<Rightarrow> Inr (Some (Some next))))"

text \<open>The \<open>data\<close> object of \<open>PUT /:id\<close> applied to the row.\<close>

definition sc_patch :: "int \<Rightarrow> sc_body \<Rightarrow> string option option \<Rightarrow> scourse \<Rightarrow> scourse" where
  "sc_patch now b sl c =
     c\<lparr>sc_title := (if js_truthy (sb_title b) then js_str (sb_title b) else sc_title c),
       sc_description := (if js_truthy (sb_description b) then js_str (sb_description b) else sc_description c),
       sc_category := (case sb_category b of None \<Rightarrow> sc_category c | Some x \<Rightarrow> Some x),
       sc_price := (case sb_price b of Some (Num n) \<Rightarrow> n | _ \<Rightarrow> sc_price c),
       sc_slug := (case sl of None \<Rightarrow> sc_slug c | Some s \<Rightarrow> s),
       sc_updated := now\<rparr>"

text \<open>\<open>PUT /:id\<close>: the owner teacher or an ADMIN (the stored role) may update.\<close>

definition update_scourse ::
  "int \<Rightarrow> safe_user \<Rightarrow> string \<Rightarrow> sc_body \<Rightarrow> slug_db \<Rightarrow> scourse result \<times> slug_db" where
  "update_scourse now u i b sd =
     (case current_user_or_throw (sd_db sd) u of
        Inl e \<Rightarrow> (Inl e, sd)
      | Inr me \<Rightarrow>
          (case find_sc (sd_courses sd) i of
             None \<Rightarrow> (Inl Not_Found, sd)
           | Some ex \<Rightarrow>
               if u_role me \<noteq> ''ADMIN'' \<and> sc_teacherId ex \<noteq> u_id me then (Inl Forbidden, sd)
               else (case update_slug (sd_courses sd) i (sb_slug b) of
                       Inl e \<Rightarrow> (Inl e, sd)
                     | Inr sl \<Rightarrow>
                         if sb_price b = Some NaN then (Inl Server_Error, sd)
                         else (Inr (sc_patch now b sl ex),
                               sd\<lparr>sd_courses := map (\<lambda>c. if sc_id c = i then sc_patch now b sl c else c)
                                                   (sd_courses sd)\<rparr>))))"

text \<open>Rows of the store that reference a course; Prisma restricts its deletion.\<close>

definition sc_referenced :: "db \<Rightarrow> string \<Rightarrow> bool" where
  "sc_referenced d i \<longleftrightarrow>
     list_ex (\<lambda>v. v_courseId v = i) (videos d) \<or> list_ex (\<lambda>e. e_courseId e = i) (enrollments d) \<or>
     list_ex (\<lambda>t. t_courseId t = i) (mocktests d) \<or> list_ex (\<lambda>c. ce_courseId c = i) (certificates d)"

text \<open>\<open>DELETE /:id\<close>: 404 for an unknown id, then a plain \<open>course.delete\<close>.\<close>

definition delete_scourse :: "string \<Rightarrow> slug_db \<Rightarrow> unit result \<times> slug_db" where
  "delete_scourse i sd =
     (case find_sc (sd_courses sd) i of
        None \<Rightarrow> (Inl Not_Found, sd)
      | Some _ \<Rightarrow>
          if sc_referenced (sd_db sd) i then (Inl Server_Error, sd)
          else (Inr (), sd\<lparr>sd_courses := filter (\<lambda>c. sc_id c \<noteq> i) (sd_courses sd)\<rparr>))"

section \<open>Routes\<close>

definition route_create_scourse :: "request_env \<Rightarrow> auth_header \<Rightarrow> sc_body \<Rightarrow> slug_db \<Rightarrow> scourse result \<times> slug_db" where
  "route_create_scourse env h b = guarded env h teacher_roles (\<lambda>u. create_scourse (env_now env) u b)"

definition route_update_scourse ::
  "request_env \<Rightarrow> auth_header \<Rightarrow> string \<Rightarrow> sc_body \<Rightarrow> slug_db \<Rightarrow> scourse result \<times> slug_db" where
  "route_update_scourse env h i b = guarded env h teacher_roles (\<lambda>u. update_scourse (env_now env) u i b)"

definition route_delete_scourse :: "request_env \<Rightarrow> auth_header \<Rightarrow> string \<Rightarrow> slug_db \<Rightarrow> unit result \<times> slug_db" where
  "route_delete_scourse env h i = guarded env h [''ADMIN''] (\<lambda>u. delete_scourse i)"



section \<open>Well-formed tables and examples\<close>

text \<open>
  The table as the schema keeps it: ids are keys and a slug belongs to one course
  (\<open>slug\<close> is a unique column; \<open>null\<close> slugs may repeat).
\<close>

definition sc_wf :: "scourse list \<Rightarrow> bool" where
  "sc_wf cs \<longleftrightarrow> distinct (map sc_id cs) \<and>
     (\<forall>c \<in> set cs. \<forall>c' \<in> set cs. sc_slug c \<noteq> None \<and> sc_slug c = sc_slug c' \<longrightarrow> sc_id c = sc_id c')"

definition demo_sc :: scourse where
  "demo_sc = \<lparr>sc_id = ''k8s'', sc_title = ''Intro'', sc_description = ''d'', sc_category = None,
     sc_price = 0, sc_slug = Some ''intro'', sc_teacherId = ''tx'', sc_created = 1, sc_updated = 1\<rparr>"

definition demo_sdb :: slug_db where
  "demo_sdb = \<lparr>sd_db = demo_db, sd_courses = [demo_sc]\<rparr>"

definition demo_tx :: safe_user where
  "demo_tx = \<lparr>su_id = Some ''tx'', su_name = None, su_role = ''TEACHER''\<rparr>"

text \<open>A course whose title has no letter or digit, asking for a slug that is taken.\<close>

definition demo_sc_body :: sc_body where
  "demo_sc_body = \<lparr>sb_title = Some ''!!!'', sb_description = Some ''d'', sb_category = None,
     sb_price = None, sb_slug = Some ''Intro''\<rparr>"

section \<open>Lemmas\<close>

subsection \<open>The slug format\<close>

lemma slug_char_dash [simp]: "\<not> slug_char CHR ''-''"
  by (simp add: slug_char_def)

lemma no_double_dash_Cons:
  "no_double_dash (a # xs) \<longleftrightarrow> no_double_dash xs \<and> \<not> (xs \<noteq> [] \<and> a = CHR ''-'' \<and> hd xs = CHR ''-'')"
  by (cases xs) auto

lemma no_double_dash_append:
  "no_double_dash (xs @ ys) \<longleftrightarrow> no_double_dash xs \<and> no_double_dash ys \<and>
     \<not> (xs \<noteq> [] \<and> ys \<noteq> [] \<and> last xs = CHR ''-'' \<and> hd ys = CHR ''-'')"
  by (induction xs) (auto simp: no_double_dash_Cons)

lemma slug_runs_chars: "list_all (\<lambda>c. slug_char c \<or> c = CHR ''-'') (slug_runs r s)"
  by (induction r s rule: slug_runs.induct) auto

lemma slug_runs_True_hd: "slug_runs True s = [] \<or> hd (slug_runs True s) \<noteq> CHR ''-''"
  by (induction s) auto

lemma slug_runs_no_double_dash: "no_double_dash (slug_runs r s)"
proof (induction r s rule: slug_runs.induct)
  case (2 r c cs)
  then show ?case using slug_runs_True_hd [of cs] by (auto simp: no_double_dash_Cons)
qed simp

text \<open>Trimming the dashes of a string without double dashes leaves a slug or nothing.\<close>

lemma dash_trim_slug:
  assumes "no_double_dash s" and "list_all P s"
  shows "dash_trim s = [] \<or> (list_all P (dash_trim s) \<and> no_double_dash (CHR ''-'' # dash_trim s @ [CHR ''-'']))"
proof -
  define s1 where "s1 = (if s \<noteq> [] \<and> hd s = CHR ''-'' then tl s else s)"
  have s1: "no_double_dash s1 \<and> list_all P s1 \<and> (s1 = [] \<or> hd s1 \<noteq> CHR ''-'')"
  proof (cases "s \<noteq> [] \<and> hd s = CHR ''-''")
    case True
    then obtain t where "s = CHR ''-'' # t" by (cases s) auto
    with assms show ?thesis by (auto simp: s1_def no_double_dash_Cons)
  next
    case False
    with assms show ?thesis by (auto simp: s1_def)
  qed
  show ?thesis
  proof (cases "s1 \<noteq> [] \<and> last s1 = CHR ''-''")
    case True
    then have split: "s1 = butlast s1 @ [CHR ''-'']" by (metis append_butlast_last_id)
    then have "no_double_dash (butlast s1) \<and> (butlast s1 = [] \<or> last (butlast s1) \<noteq> CHR ''-'')"
      using s1 no_double_dash_append [of "butlast s1" "[CHR ''-'']"] by auto
    moreover have "butlast s1 = [] \<or> hd (butlast s1) = hd s1"
      by (metis split hd_append)
    moreover have "list_all P (butlast s1)" using s1 by (simp add: list_all_iff in_set_butlastD)
    ultimately show ?thesis using True s1
      by (auto simp: dash_trim_def s1_def [symmetric] Let_def no_double_dash_Cons no_double_dash_append)
  next
    case False
    then show ?thesis using s1
      by (auto simp: dash_trim_def s1_def [symmetric] Let_def no_double_dash_Cons no_double_dash_append)
  qed
qed

subsection \<open>The uniqueness loop\<close>

lemma unique_slug_free: "unique_slug used base i cand \<notin> set used"
  by (induction used base i cand rule: unique_slug.induct) (subst unique_slug.simps, simp)


subsection \<open>Slugs are fixed points\<close>

lemma slug_class_char:
  "slug_char c \<or> c = CHR ''-'' \<Longrightarrow> \<not> js_space c \<and> js_lower_char c = c"
  by (auto simp: slug_char_def js_space_def js_lower_char_def Let_def)

lemma slug_runs_slug:
  "list_all (\<lambda>c. slug_char c \<or> c = CHR ''-'') t \<Longrightarrow> no_double_dash t \<Longrightarrow>
   t = [] \<or> hd t \<noteq> CHR ''-'' \<or> \<not> r \<Longrightarrow> slug_runs r t = t"
proof (induction t arbitrary: r)
  case (Cons c cs)
  then show ?case by (auto simp: no_double_dash_Cons)
qed simp

lemma is_slug_parts:
  assumes "is_slug t"
  shows "list_all (\<lambda>c. slug_char c \<or> c = CHR ''-'') t \<and> no_double_dash t \<and>
         (t = [] \<or> hd t \<noteq> CHR ''-'' \<and> last t \<noteq> CHR ''-'')"
  using assms no_double_dash_append [of "CHR ''-'' # t" "[CHR ''-'']"]
  by (auto simp: is_slug_def no_double_dash_Cons)

lemma slugify_slug: "is_slug t \<Longrightarrow> slugify (Some t) = t"
proof -
  assume "is_slug t"
  note p = is_slug_parts [OF this]
  have ns: "list_all (\<lambda>c. \<not> js_space c \<and> js_lower_char c = c) t"
    unfolding list_all_iff
  proof
    fix c assume "c \<in> set t"
    with p show "\<not> js_space c \<and> js_lower_char c = c" by (intro slug_class_char) (simp add: list_all_iff)
  qed
  then have "js_trim t = t" by (intro js_trim_id) (simp add: list_all_iff)
  moreover have "js_lower t = t" using ns by (auto simp: js_lower_def list_all_iff intro: map_idI)
  moreover have "slug_runs False t = t" using p by (intro slug_runs_slug) simp_all
  moreover have "dash_trim t = t" using p by (auto simp: dash_trim_def)
  ultimately show ?thesis by (simp add: slugify_def)
qed


subsection \<open>The table stays well formed\<close>

lemma slugs_in_use_iff: "x \<in> set (slugs_in_use cs) \<longleftrightarrow> (\<exists>c \<in> set cs. sc_slug c = Some x)"
  by (induction cs) (auto simp: slugs_in_use_def split: option.splits)

lemma create_slug_fresh: "create_slug cs t s = Some x \<Longrightarrow> x \<notin> set (slugs_in_use cs)"
  by (auto simp: create_slug_def Let_def unique_slug_free split: if_splits)

lemma sc_wf_snoc:
  assumes "sc_wf cs" and "sc_id c \<notin> set (map sc_id cs)"
    and "\<And>x. sc_slug c = Some x \<Longrightarrow> x \<notin> set (slugs_in_use cs)"
  shows "sc_wf (cs @ [c])"
  unfolding sc_wf_def
proof (intro conjI ballI impI)
  show "distinct (map sc_id (cs @ [c]))" using assms(1,2) by (simp add: sc_wf_def)
next
  fix x y assume x: "x \<in> set (cs @ [c])" and y: "y \<in> set (cs @ [c])"
    and e: "sc_slug x \<noteq> None \<and> sc_slug x = sc_slug y"
  define z where "z = the (sc_slug x)"
  have z: "sc_slug x = Some z" "sc_slug y = Some z"
    using e unfolding z_def by (metis option.collapse)+
  have "x \<in> set cs \<Longrightarrow> y = c \<Longrightarrow> False"
    using assms(3) z slugs_in_use_iff [of z cs] by auto
  moreover have "y \<in> set cs \<Longrightarrow> x = c \<Longrightarrow> False"
    using assms(3) z slugs_in_use_iff [of z cs] by auto
  moreover have "x \<in> set cs \<Longrightarrow> y \<in> set cs \<Longrightarrow> sc_id x = sc_id y"
    using assms(1) e unfolding sc_wf_def by blast
  ultimately show "sc_id x = sc_id y" using x y by auto
qed

lemma sc_wf_filter: "sc_wf cs \<Longrightarrow> sc_wf (filter P cs)"
  unfolding sc_wf_def by (simp add: distinct_map_filter) blast


lemma create_scourse_shape:
  "snd (create_scourse now u b sd) = sd \<or>
   (\<exists>c. snd (create_scourse now u b sd) = sd\<lparr>sd_courses := sd_courses sd @ [c]\<rparr> \<and>
        sc_id c = fresh_id (map sc_id (sd_courses sd)) \<and>
        sc_slug c = create_slug (sd_courses sd) (sb_title b) (sb_slug b))"
  by (auto simp: create_scourse_def Let_def split: sum.split option.split js_number.split)

lemma create_scourse_wf:
  assumes "sc_wf (sd_courses sd)"
  shows "sc_wf (sd_courses (snd (create_scourse now u b sd)))"
  using create_scourse_shape [of now u b sd]
proof
  assume "snd (create_scourse now u b sd) = sd"
  with assms show ?thesis by simp
next
  assume "\<exists>c. snd (create_scourse now u b sd) = sd\<lparr>sd_courses := sd_courses sd @ [c]\<rparr> \<and>
        sc_id c = fresh_id (map sc_id (sd_courses sd)) \<and>
        sc_slug c = create_slug (sd_courses sd) (sb_title b) (sb_slug b)"
  then obtain c where c: "snd (create_scourse now u b sd) = sd\<lparr>sd_courses := sd_courses sd @ [c]\<rparr>"
    and i: "sc_id c = fresh_id (map sc_id (sd_courses sd))"
    and s: "sc_slug c = create_slug (sd_courses sd) (sb_title b) (sb_slug b)" by blast
  have "sc_wf (sd_courses sd @ [c])"
  proof (rule sc_wf_snoc [OF assms])
    show "sc_id c \<notin> set (map sc_id (sd_courses sd))" unfolding i by (rule fresh_id_notin)
    show "\<And>x. sc_slug c = Some x \<Longrightarrow> x \<notin> set (slugs_in_use (sd_courses sd))"
      using s create_slug_fresh by simp
  qed
  with c show ?thesis by simp
qed

lemma update_slug_found:
  "update_slug cs i sl = Inr (Some (Some x)) \<Longrightarrow>
   find (\<lambda>c. sc_slug c = Some x) cs = None \<or>
   (\<exists>clash. find (\<lambda>c. sc_slug c = Some x) cs = Some clash \<and> sc_id clash = i)"
  unfolding update_slug_def Let_def
  by (cases sl; cases "find (\<lambda>c. sc_slug c = Some (slugify sl)) cs") (auto split: if_splits)

lemma update_slug_owner:
  assumes "update_slug cs i sl = Inr (Some (Some x))" and "sc_wf cs"
    and "c \<in> set cs" and "sc_slug c = Some x"
  shows "sc_id c = i"
  using update_slug_found [OF assms(1)]
proof
  assume "find (\<lambda>c. sc_slug c = Some x) cs = None"
  with assms(3,4) show ?thesis by (simp add: find_None_iff)
next
  assume "\<exists>clash. find (\<lambda>c. sc_slug c = Some x) cs = Some clash \<and> sc_id clash = i"
  then obtain clash where f: "find (\<lambda>c. sc_slug c = Some x) cs = Some clash" and ci: "sc_id clash = i"
    by blast
  from f have "clash \<in> set cs \<and> sc_slug clash = Some x" by (rule find_Some_in)
  with assms(2,3,4) ci show ?thesis unfolding sc_wf_def by (metis option.distinct(1))
qed

lemma sc_patch_id [simp]: "sc_id (sc_patch now b sl c) = sc_id c"
  by (simp add: sc_patch_def)

lemma sc_patch_slug: "sc_slug (sc_patch now b sl c) = (case sl of None \<Rightarrow> sc_slug c | Some s \<Rightarrow> s)"
  by (simp add: sc_patch_def)

lemma sc_wf_slug_key:
  "sc_wf cs \<Longrightarrow> c1 \<in> set cs \<Longrightarrow> c2 \<in> set cs \<Longrightarrow> sc_slug c1 = Some x \<Longrightarrow> sc_slug c2 = Some x \<Longrightarrow>
   sc_id c1 = sc_id c2"
  unfolding sc_wf_def by (metis option.distinct(1))

lemma update_wf:
  assumes "sc_wf cs" and "update_slug cs i slug = Inr sl"
  shows "sc_wf (map (\<lambda>c. if sc_id c = i then sc_patch now b sl c else c) cs)"
proof -
  let ?g = "\<lambda>c. if sc_id c = i then sc_patch now b sl c else c"
  have ids: "map sc_id (map ?g cs) = map sc_id cs" by (induction cs) auto
  have key: "sc_id c1 = sc_id c2"
    if c: "c1 \<in> set cs" "c2 \<in> set cs" and z: "sc_slug (?g c1) = Some z" "sc_slug (?g c2) = Some z"
    for c1 c2 z
  proof (cases "sc_id c1 = i \<and> sc_id c2 = i")
    case True
    then show ?thesis by simp
  next
    case False
    show ?thesis
    proof (cases sl)
      case None
      have "sc_slug c1 = Some z" "sc_slug c2 = Some z"
        using z None by (simp_all add: sc_patch_slug split: if_splits)
      with c assms(1) show ?thesis by (blast intro: sc_wf_slug_key)
    next
      case (Some s)
      show ?thesis
      proof (cases s)
        case None
        with \<open>sl = Some s\<close> z c False assms(1) show ?thesis
          by (cases "sc_id c1 = i"; cases "sc_id c2 = i") (auto simp: sc_patch_slug intro: sc_wf_slug_key)
      next
        case (Some x)
        then have sx: "sl = Some (Some x)" using \<open>sl = Some s\<close> by simp
        note own = update_slug_owner [OF assms(2) [unfolded sx] assms(1)]
        show ?thesis
        proof (cases "sc_id c1 = i")
          case True
          with False have "sc_id c2 \<noteq> i" by simp
          moreover from True \<open>sc_id c2 \<noteq> i\<close> z sx have "sc_slug c2 = Some x" by (simp add: sc_patch_slug)
          ultimately show ?thesis using own c(2) by blast
        next
          case c1i: False
          show ?thesis
          proof (cases "sc_id c2 = i")
            case True
            from True c1i z sx have "sc_slug c1 = Some x" by (simp add: sc_patch_slug)
            with own c(1) c1i show ?thesis by blast
          next
            case False
            with c1i z have "sc_slug c1 = Some z" "sc_slug c2 = Some z" by simp_all
            with c assms(1) show ?thesis by (blast intro: sc_wf_slug_key)
          qed
        qed
      qed
    qed
  qed
  show ?thesis
    unfolding sc_wf_def
  proof (intro conjI ballI impI)
    show "distinct (map sc_id (map ?g cs))" unfolding ids using assms(1) by (simp add: sc_wf_def)
  next
    fix x y assume x: "x \<in> set (map ?g cs)" and y: "y \<in> set (map ?g cs)"
      and e: "sc_slug x \<noteq> None \<and> sc_slug x = sc_slug y"
    from x obtain c1 where c1: "c1 \<in> set cs" "x = ?g c1" by auto
    from y obtain c2 where c2: "c2 \<in> set cs" "y = ?g c2" by auto
    define z where "z = the (sc_slug x)"
    have "sc_slug x = Some z" "sc_slug y = Some z"
      using e unfolding z_def by (metis option.collapse)+
    with c1 c2 key [of c1 c2 z] show "sc_id x = sc_id y" by simp
  qed
qed

lemma update_scourse_wf:
  "sc_wf (sd_courses sd) \<Longrightarrow> sc_wf (sd_courses (snd (update_scourse now u i b sd)))"
  by (auto simp: update_scourse_def update_wf split: sum.split option.split)

lemma delete_scourse_wf:
  "sc_wf (sd_courses sd) \<Longrightarrow> sc_wf (sd_courses (snd (delete_scourse i sd)))"
  by (auto simp: delete_scourse_def sc_wf_filter split: option.split)

lemma slugify_form: "slugify s = [] \<or> is_slug (slugify s)"
  using dash_trim_slug [OF slug_runs_no_double_dash slug_runs_chars,
                        of False "js_lower (js_trim (js_str s))"]
  unfolding slugify_def is_slug_def by blast

subsection \<open>Properties\<close>

text \<open>
  C29. Every slug the router computes has the slug format: \<open>slugify\<close> returns either
  the empty string (stored as \<open>null\<close>) or lower-case letters and digits in words joined
  by single dashes, with no dash at either end.
\<close>

theorem slugify_is_slug: "slugify s = [] \<or> is_slug (slugify s)"
  by (rule slugify_form)

text \<open>
  C30. \<open>slugify\<close> is idempotent: slugifying a slug it produced gives the slug back, so a
  slug sent back unchanged in \<open>PUT /:id\<close> is stored unchanged.
\<close>

theorem slugify_idempotent: "slugify (Some (slugify s)) = slugify s"
proof (cases "slugify s = []")
  case True
  then show ?thesis by (simp add: slugify_def js_trim_def js_lower_def dash_trim_def)
next
  case False
  with slugify_form [of s] show ?thesis by (simp add: slugify_slug)
qed

text \<open>
  C31. The slug uniqueness loop of \<open>POST /\<close> terminates after a bounded number of
  probes: started at \<open>i\<close>, it returns either its first candidate or \<open>base-k\<close> for a
  \<open>k\<close> past \<open>i\<close> and at most \<open>max (i + 1) (10 ^ L)\<close>, \<open>L\<close> the length of the longest
  slug in use; and what it returns is not in use.
\<close>

theorem unique_slug_probes:
  "(\<exists>k. i \<le> k \<and> k \<le> max (i + 1) (10 ^ max_len used) \<and>
        unique_slug used base i cand = (if k = i then cand else base @ ''-'' @ show_nat k)) \<and>
   unique_slug used base i cand \<notin> set used"
proof (induction used base i cand rule: unique_slug.induct)
  case (1 used base i cand)
  let ?c = "base @ ''-'' @ show_nat (i + 1)"
  have step: "unique_slug used base i cand =
                (if cand \<in> set used then unique_slug used base (i + 1) ?c else cand)"
    by (rule unique_slug.simps)
  show ?case
  proof (cases "cand \<in> set used")
    case False
    then show ?thesis using step by auto
  next
    case True
    note IH = "1.IH" [OF True]
    show ?thesis
    proof (cases "?c \<in> set used")
      case False
      have "unique_slug used base (i + 1) ?c = ?c"
        using False by (subst unique_slug.simps) simp
      with True step False show ?thesis by (intro conjI exI [of _ "i + 1"]) auto
    next
      case c: True
      then have "i + 1 < 10 ^ max_len used" by (rule numbered_in_use_bound)
      from IH obtain k where k: "i + 1 \<le> k" "k \<le> max (i + 2) (10 ^ max_len used)"
        and r: "unique_slug used base (i + 1) ?c = (if k = i + 1 then ?c else base @ ''-'' @ show_nat k)"
        by auto
      have "k \<le> max (i + 1) (10 ^ max_len used)" using k \<open>i + 1 < 10 ^ max_len used\<close> by simp
      with k r True step IH show ?thesis by (intro conjI exI [of _ k]) auto
    qed
  qed
qed

text \<open>
  C32. The router keeps the course table well formed: creating, updating and deleting a
  course through the guarded routes leaves ids unique and each slug held by at most
  one course, whatever the request.
\<close>

theorem scourse_routes_preserve_wf:
  assumes "sc_wf (sd_courses sd)"
  shows "sc_wf (sd_courses (snd (route_create_scourse env h b sd))) \<and>
         sc_wf (sd_courses (snd (route_update_scourse env h i b sd))) \<and>
         sc_wf (sd_courses (snd (route_delete_scourse env h i sd)))"
  unfolding route_create_scourse_def route_update_scourse_def route_delete_scourse_def
  using assms
  by (intro conjI guarded_preserves [where P = "\<lambda>sd. sc_wf (sd_courses sd)"])
     (simp_all add: create_scourse_wf update_scourse_wf delete_scourse_wf)

theorem scourse_routes_preserve_wf_witness:
  "sc_wf (sd_courses (snd (route_create_scourse demo_env No_Header demo_sc_body demo_sdb))) \<and>
   sc_wf (sd_courses (snd (route_update_scourse demo_env No_Header ''k8s'' demo_sc_body demo_sdb))) \<and>
   sc_wf (sd_courses (snd (route_delete_scourse demo_env No_Header ''k8s'' demo_sdb)))"
proof -
  have "sc_wf (sd_courses demo_sdb)" by code_simp
  then show ?thesis by (rule scourse_routes_preserve_wf)
qed

text \<open>
  The retry slug is built from the title even when the client chose the slug: a title
  with no letter or digit and a taken slug give the course the slug \<open>-2\<close>, which is
  not of the slug format.
\<close>

theorem create_numbered_slug_malformed:
  "sc_slug (projr (fst (create_scourse 5 demo_tx demo_sc_body demo_sdb))) = Some ''-2'' \<and>
   \<not> is_slug ''-2''"
  by code_simp

end
