(* ===== verification/UserThunks.thy ===== *)
theory UserThunks
  imports Client
begin

text \<open>
  The three thunks of src/frontend/src/Redux/UserReducer/action.js that talk to the
  store and the backend without a page around them: \<open>hydrateUserFromStorage\<close>, which
  replays the saved session into the Redux slice, \<open>loginFetch\<close>, which posts to
  \<open>/users/login\<close> through the module's own axios instance (no interceptors, so no
  token and no refresh) and saves the object it builds from the answer, and
  \<open>signUpFetch\<close>, which posts to \<open>/users/register\<close>. Each is a function of the
  client (the Redux slice and \<open>localStorage\<close>, as in Session) and of the backend
  handler it calls. A network failure (\<open>ERR_NETWORK\<close>) has no counterpart in the
  backend model and is not modelled.
\<close>

section \<open>Hydration\<close>

text \<open>\<open>hydrateUserFromStorage\<close>: nothing without a saved object, else \<open>AUTH_HYDRATE\<close> with its role normalised.\<close>

definition hydrate_user_from_storage :: "client \<Rightarrow> client" where
  "hydrate_user_from_storage c =
     (case ls_user (cl_ls c) of
        None \<Rightarrow> c
      | Some saved \<Rightarrow>
          let nx = (if js_truthy (uo_role saved) then saved\<lparr>uo_role := Some (normalize_role (uo_role saved))\<rparr>
                    else saved)
          in dispatch (Auth_Hydrate nx) c)"

section \<open>Login\<close>

text \<open>
  The object \<open>mapped\<close> that \<open>loginFetch\<close> builds from the answer
  \<open>{msg, user, token, refreshToken}\<close> of \<open>POST /users/login\<close>: \<open>data.accessToken\<close> is
  absent, so the token is \<open>data.token\<close>; the answer's user has no \<open>city\<close>, \<open>place\<close>,
  \<open>age\<close> or \<open>job\<close>, so those are empty; the refresh token is not kept.
\<close>

definition login_mapped :: "login_reply \<Rightarrow> user_obj" where
  "login_mapped r =
     (let u = lr_user r in
      \<lparr>uo_email = Some (pu_email u), uo_name = Some (capitalize_first_letter (Some (pu_name u))),
       uo_role = Some (normalize_role (Some (pu_role u))),
       uo_token = tok_or (Some (lr_token r)) (Some (Malformed [])),
       uo_isAuth = Some True, uo_isError = Some [], uo_loading = Some False, uo_success = Some False,
       uo_isUser = Some (normalize_role (Some (pu_role u)) = ''USER''),
       uo_userId = Some (pu_id u), uo_place = Some [], uo_age = Some [], uo_job = Some [],
       uo_message = Some ''Login successful'', uo_refreshToken = None\<rparr>)"

text \<open>
  The message of the \<open>catch\<close> branch: the answer's \<open>msg\<close> (the backend sends no
  \<open>message\<close>), replaced by the fixed hint on a 404. The login handler answers 400,
  401 or, from its own \<open>catch\<close>, 500 with \<open>"Server error"\<close>.
\<close>

definition login_fetch_error_msg :: "http_error \<Rightarrow> string" where
  "login_fetch_error_msg e =
     (if e = Not_Found then ''404: API endpoint not found. Check /users/login path.''
      else case e of
        Bad_Request \<Rightarrow> ''Email and password required''
      | Unauthorized \<Rightarrow> ''Invalid credentials''
      | _ \<Rightarrow> ''Server error'')"

text \<open>\<open>loginFetch(value)\<close>: \<open>LOGIN_LOADING\<close>, the request, then \<open>writeLocalStorage("user", mapped)\<close> and \<open>LOGIN_SUCCESS\<close>, or \<open>LOGIN_ERROR\<close> with the message.\<close>

definition login_fetch ::
  "request_env \<Rightarrow> string option \<Rightarrow> string option \<Rightarrow> db \<Rightarrow> client \<Rightarrow> client" where
  "login_fetch env email password d c =
     (let c1 = dispatch Login_Loading c in
      case login env email password d of
        Inr r \<Rightarrow>
          let m = login_mapped r in
          dispatch (Login_Success m) (c1\<lparr>cl_ls := (cl_ls c1)\<lparr>ls_user := Some m\<rparr>\<rparr>)
      | Inl e \<Rightarrow> dispatch (Login_Error (Some (login_fetch_error_msg e))) c1)"

section \<open>Sign-up\<close>

text \<open>\<open>signUpFetch(value)\<close>: \<open>SIGNUP_LOADING\<close>, \<open>POST /users/register\<close> with the value as body, then \<open>SINGUP_SUCCESS\<close> or \<open>SINGUP_ERROR\<close> with the answer's \<open>msg\<close>.\<close>

definition sign_up_fetch :: "int \<Rightarrow> register_body \<Rightarrow> db \<Rightarrow> client \<Rightarrow> client \<times> db" where
  "sign_up_fetch now b d c =
     (let c1 = dispatch Signup_Loading c in
      case route_register now b d of
        (Inr _, d') \<Rightarrow> (dispatch Signup_Success c1, d')
      | (Inl e, d') \<Rightarrow> (dispatch (Signup_Error (Some (register_error_msg b e))) c1, d'))"

section \<open>Properties\<close>

lemma normalize_role_allowed: "r \<in> set allowed_roles \<Longrightarrow> normalize_role (Some r) = r"
  by (simp add: normalize_role_up up_allowed)

lemma obj_spread_self [simp]: "obj_spread a a = a"
  by (simp add: obj_spread_def js_nullish_def split: option.splits)

lemma role_norm_fixed:
  "uo_role n = Some ro \<Longrightarrow> ro \<in> set allowed_roles \<Longrightarrow> n\<lparr>uo_role := Some (normalize_role (uo_role n))\<rparr> = n"
  by (cases n) (simp add: normalize_role_allowed)

lemma login_mapped_login:
  assumes "login env e pw d = Inr r" and "roles_ok d"
  shows "uo_role (login_mapped r) = Some (pu_role (lr_user r)) \<and> pu_role (lr_user r) \<in> set allowed_roles \<and>
         uo_token (login_mapped r) = Some (lr_token r) \<and> tok_truthy (Some (lr_token r))"
  using build_session_login [OF assms]
  by (simp add: login_mapped_def Let_def tok_or_def normalize_role_allowed)

lemma login_Inl_cases:
  "login env e pw d = Inl er \<Longrightarrow> er = Bad_Request \<or> er = Unauthorized"
  by (auto simp: login_def Let_def split: if_splits option.splits)

lemma register_Inl_same:
  "register now b d = (Inl er, d') \<Longrightarrow> d' = d"
  by (auto simp: register_def Let_def split: if_splits option.splits)

lemma request_header_saved:
  "ls_user b = Some n \<Longrightarrow> uo_token n = Some t \<Longrightarrow> tok_truthy (Some t) \<Longrightarrow> request_header b = Bearer t"
  by (simp add: request_header_def read_token_def tok_or_def) (simp add: tok_truthy_def)

text \<open>A successful \<open>loginFetch\<close> signs the slice in with the backend's token and role, saves the same object, makes the API client send that token, but keeps only the refresh token the browser had before.\<close>

theorem login_fetch_session:
  assumes "login env e pw d = Inr r" and "roles_ok d"
    and "c' = login_fetch env e pw d c"
  shows "uo_isAuth (cl_store c') = Some True \<and> uo_role (cl_store c') = Some (pu_role (lr_user r)) \<and>
         ls_user (cl_ls c') = Some (cl_store c') \<and> request_header (cl_ls c') = Bearer (lr_token r) \<and>
         read_refresh (cl_ls c') = tok_or (uo_refreshToken (cl_store c)) (ls_refresh (cl_ls c)) \<and>
         client_ok c'"
proof -
  note m = login_mapped_login [OF assms(1,2)]
  have store: "uo_isAuth (cl_store c') = Some True \<and> uo_role (cl_store c') = Some (pu_role (lr_user r)) \<and>
               uo_token (cl_store c') = Some (lr_token r) \<and> ls_user (cl_ls c') = Some (cl_store c') \<and>
               uo_refreshToken (cl_store c') = uo_refreshToken (cl_store c) \<and> ls_refresh (cl_ls c') = ls_refresh (cl_ls c)"
    using m assms(1,3)
    by (simp add: login_fetch_def dispatch_def Let_def tok_or_def js_nullish_def normalize_role_allowed)
  then have "request_header (cl_ls c') = Bearer (lr_token r)"
    using m request_header_saved [of "cl_ls c'" "cl_store c'" "lr_token r"] by simp
  moreover have "read_refresh (cl_ls c') = tok_or (uo_refreshToken (cl_store c)) (ls_refresh (cl_ls c))"
    using store by (simp add: read_refresh_def)
  moreover have "client_ok c'"
    using store m by (simp add: client_ok_def obj_ok_def)
  ultimately show ?thesis using store by simp
qed

text \<open>A failed \<open>loginFetch\<close> shows the backend's reason and marks the slice signed out, but leaves the storage alone, so the API client keeps sending whatever token was saved before.\<close>

theorem login_fetch_failure:
  assumes "login env e pw d = Inl er" and "c' = login_fetch env e pw d c"
  shows "cl_ls c' = cl_ls c \<and> read_token (cl_ls c') = read_token (cl_ls c) \<and>
         uo_isAuth (cl_store c') = Some False \<and>
         uo_isError (cl_store c') \<in> {Some ''Email and password required'', Some ''Invalid credentials''}"
  using assms login_Inl_cases [OF assms(1)]
  by (auto simp: login_fetch_def dispatch_def Let_def login_fetch_error_msg_def js_truthy_def js_str_def)

text \<open>The session \<open>loginFetch\<close> saves survives a page load: the slice read back from storage and hydrated again is the one the login left.\<close>

theorem login_fetch_hydrate_roundtrip:
  assumes "login env e pw d = Inr r" and "roles_ok d"
  shows "hydrate_user_from_storage (reload (login_fetch env e pw d c)) = login_fetch env e pw d c"
proof -
  let ?c = "login_fetch env e pw d c"
  let ?s = "cl_store ?c"
  note s = login_fetch_session [OF assms refl, of c]
  have a: "pu_role (lr_user r) \<in> set allowed_roles"
    using login_mapped_login [OF assms] by simp
  have rl: "reload ?c = ?c"
    using s by (simp add: reload_def initial_user_def)
  have t: "js_truthy (uo_role ?s)"
    using s a by (auto simp: js_truthy_def allowed_roles_def)
  have fx: "?s\<lparr>uo_role := Some (normalize_role (uo_role ?s))\<rparr> = ?s"
    using role_norm_fixed [of ?s] s a by simp
  have "hydrate_user_from_storage ?c = \<lparr>cl_store = ?s, cl_ls = cl_ls ?c\<rparr>"
    using s t fx by (simp add: hydrate_user_from_storage_def dispatch_def)
  then show ?thesis using rl by simp
qed

text \<open>\<open>signUpFetch\<close> never touches storage; on success it adds exactly one user and reports success, on failure it leaves the store and shows the handler's \<open>msg\<close>.\<close>

theorem sign_up_fetch_result:
  assumes "sign_up_fetch now b d c = (c', d')"
  shows "cl_ls c' = cl_ls c \<and> uo_loading (cl_store c') = Some False \<and>
         (case fst (register now b d) of
            Inr _ \<Rightarrow> uo_success (cl_store c') = Some True \<and>
                     (\<exists>u. users d' = users d @ [u] \<and> u_email u = js_lower (js_str (rb_email b)))
          | Inl er \<Rightarrow> d' = d \<and> uo_isError (cl_store c') = Some (register_error_msg b er))"
proof (cases "register now b d")
  case (Pair res d1)
  show ?thesis
  proof (cases res)
    case (Inl er)
    with Pair assms register_Inl_same [of now b d er d1] show ?thesis
      by (auto simp: sign_up_fetch_def route_register_def dispatch_def Let_def)
  next
    case (Inr p)
    with Pair register_Inr [of now b d p d1] obtain u where
      "d1 = d\<lparr>users := users d @ [u]\<rparr>" "u_email u = js_lower (js_str (rb_email b))" by blast
    with Inr Pair assms show ?thesis
      by (auto simp: sign_up_fetch_def route_register_def dispatch_def Let_def)
  qed
qed

text \<open>The demo account of Session signs in through \<open>loginFetch\<close>: the API client then sends the issued token, and a failed attempt with a wrong password keeps the empty storage.\<close>

lemma demo_login_fetch:
  "request_header (cl_ls (login_fetch demo_env (Some ''sam@uni.edu'') (Some ''password1'') demo_signed_db demo_client)) =
     Bearer (lr_token demo_reply) \<and>
   cl_ls (login_fetch demo_env (Some ''sam@uni.edu'') (Some ''wrongpass'') demo_signed_db demo_client) = no_storage"
proof -
  have l: "login demo_env (Some ''sam@uni.edu'') (Some ''password1'') demo_signed_db = Inr demo_reply"
    unfolding demo_reply_def by code_simp
  have f: "login demo_env (Some ''sam@uni.edu'') (Some ''wrongpass'') demo_signed_db = Inl Unauthorized"
    by code_simp
  show ?thesis
    using login_fetch_session [OF l demo_signed_roles_ok refl, of demo_client]
          login_fetch_failure [OF f refl, of demo_client]
    by (simp add: demo_client_def)
qed

end
