(* ===== verification/Spec2Isabelle.thy ===== *)
theory Spec2Isabelle
  imports Users Progress DashboardPages Seed SlugRoutes UserThunks
begin

text \<open>
  \<^bold>\<open>A verification model of the e-learning platform's backend and client state.\<close>

  \<^bold>\<open>The program.\<close> An Express server (src/backend/index.js) mounts four routers over one
  Prisma client (src/backend/prismaClient.js): users (src/backend/routes/users.routes.js:
  registration, login, self-service reads, admin user management), courses
  (src/backend/routes/courses.route.js: catalog, ownership-checked mutation, enrollment,
  course progress), videos (src/backend/routes/videos.route.js: catalog, mutation through
  the parent course, watch tracking) and admin statistics
  (src/backend/routes/admin.routes.js). Every protected route runs the middleware of
  src/backend/middlewares/users.middleware.js: \<open>auth\<close> verifies the bearer access token
  and sets \<open>req.user = {id, name, role}\<close>, \<open>requires(...)\<close> checks the role. Access
  tokens come from \<open>POST /users/login\<close> and from \<open>GET /regenerateToken\<close> (index.js).
  The React client under src/frontend keeps the session in Redux reducers and guards its
  pages by role.

  \<^bold>\<open>The library.\<close> Backend:
  \<^item> \<open>Prelude\<close>: HTTP errors as the datatype \<open>http_error\<close>, results \<open>http_error + 'a\<close>
    with \<open>ebind\<close>, the JavaScript string and number operations the code applies
    (\<open>toUpperCase\<close>, \<open>toLowerCase\<close>, \<open>trim\<close>, \<open>includes\<close>, \<open>||\<close> on strings,
    \<open>parseInt\<close>, \<open>Number(x)\<close>, \<open>toFixed(1)\<close>), JSON values read without a schema, decimal
    printing \<open>show_nat\<close> with the lemma that \<open>parseInt\<close> reads it back.
  \<^item> \<open>Store\<close>: the Prisma tables as a record \<open>db\<close> of row lists; \<open>fresh_id\<close> for
    generated ids; point reads; the well-formedness predicates \<open>keys_unique\<close>,
    \<open>pairs_unique\<close>, \<open>refs_ok\<close> and the spec's course invariant \<open>owners_teach\<close>.
  \<^item> \<open>Auth\<close>: tokens (\<open>jwt_sign\<close>, \<open>jwt_verify\<close>), \<open>to_safe_user\<close>, \<open>auth\<close>,
    \<open>requires\<close>, the route combinator \<open>guarded\<close> (auth, then requires, then the
    handler), \<open>regenerate_token\<close>.
  \<^item> \<open>Users\<close>: \<open>register\<close>, \<open>login\<close>, \<open>get_current_user\<close>, the scoped reads,
    \<open>list_users\<close>, \<open>update_user\<close>, \<open>delete_user\<close> and their routes.
  \<^item> \<open>Catalog\<close>: course listing with filters and pagination, \<open>create_course\<close>,
    \<open>update_course\<close>, \<open>delete_course\<close> (the transactional cascade), the video
    operations and their routes; ownership is \<open>not_owner\<close>, the check every mutation
    repeats.
  \<^item> \<open>Progress\<close>: \<open>enroll\<close>, \<open>mark_watched\<close>, \<open>video_progress\<close>,
    \<open>course_progress\<close> with \<open>completion_rate\<close>.
  \<^item> \<open>Admin\<close>: \<open>GET /admin/stats\<close> (admin.routes.js) as a function of the store and the
    clock: totals, categories, top courses and the daily series of its window.
  \<^item> \<open>Server\<close>: the route table of index.js (\<open>backend_routes\<close>, \<open>route_exists\<close>); a
    request no route matches is Express's 404.
  \<^item> \<open>Seed\<close>: prisma/seed.cjs as \<open>seed :: seed_env \<Rightarrow> db \<Rightarrow> db + db\<close>, \<open>Inl\<close> the store
    left by a \<open>TypeError\<close>, \<open>Inr\<close> the finished store.
  A handler is a function from its inputs and the store to a result and the new store;
  every early \<open>return res.status(n)\<close> of the source is an \<open>Inl\<close> of the result, the
  \<open>catch\<close> branch is \<open>Server_Error\<close>.

  Frontend (src/frontend/src):
  \<^item> \<open>Session\<close>: the Redux user slice, \<open>localStorage\<close>, the login and sign-up forms,
    the three logout buttons and the route guard, with an inductive reachability relation
    over logins, sign-ups, logouts, reloads and user updates.
  \<^item> \<open>Client\<close>: api.js, its two interceptors (\<open>api_call\<close>: the request, the refresh
    through \<open>/regenerateToken\<close> on a 401 and one retry) and \<open>UserAPI.login\<close>.
  \<^item> \<open>AdminStore\<close>: the admin Redux slice (Redux/AdminReducer) and its thunks, each
    composed with the backend route it calls.
  \<^item> \<open>AdminPages\<close>: the admin pages AddCourse.jsx, AddUser.jsx, Courses.jsx,
    GetVideos.jsx and Discount.jsx: each page's React state as a record, its handlers
    composed with \<open>api_call\<close> and the routes, a state change that re-runs \<open>load\<close> through
    an effect followed by that load; the paging helpers the three lists share.
  \<^item> \<open>ContentForms\<close>: the admin AddVideos.jsx and the teacher AddCourse.jsx forms.
  \<^item> \<open>DashboardPages\<close>: the pages that read and show: the student UserDashboard.jsx, the
    payment modal Pages/Payment/Payment.js, the admin Statistics.jsx and AdminDashboard.jsx.
  \<^item> \<open>SlugRoutes\<close>: routes/course.routes.jsx, a second courses router over a table with
    a unique slug, behind the backend middleware.
  \<^item> \<open>UserThunks\<close>: the thunks \<open>hydrateUserFromStorage\<close>, \<open>loginFetch\<close> and
    \<open>signUpFetch\<close> of Redux/UserReducer/action.js, composed with the backend's login
    and register handlers; a network failure has no counterpart and is not modelled.

  \<^bold>\<open>What the lemmas show.\<close> For each backend handler: its answer on every branch,
  errors included; that the mutations keep the store well formed; ownership and role
  refusals leave the store unchanged; round trips (register then login, \<open>slugify\<close> of
  a slug); the statistics' bounds; an equivalence of \<open>completionRate\<close> with its rational
  definition; the seed's termination and idempotence. For the client: that the session
  invariants hold in every reachable state, that a session saved by \<open>loginFetch\<close>
  survives a reload and hydration unchanged while losing the login's refresh token, a refinement of the admin lists by maps
  from ids to objects, the liveness failure of the refresh loop, and per page what a
  submission or a deletion does to the store and the list shown.

  \<^bold>\<open>Bounds and termination.\<close> The only loop that is not structural recursion is the
  slug uniqueness loop of course.routes.jsx, a \<open>function\<close> terminating by the measure
  \<open>10 ^ L + 1 - i\<close> (\<open>L\<close> the longest slug in use): a numbered candidate longer than every
  slug in use is free, so at most \<open>10 ^ L\<close> probes are made. No fuel is used. Page and
  limit of the list pages are naturals kept positive (\<open>courses_ok\<close>, \<open>videos_ok\<close>,
  \<open>promos_ok\<close>); \<open>Math.ceil\<close> of a quotient is written with integer division.

  \<^bold>\<open>Modelling decisions.\<close> Row order is insertion order; an \<open>orderBy\<close> is a stable
  \<open>sort_key\<close>, so ties keep insertion order where the database leaves them open.
  Prisma's behaviour that the handlers depend on is written out: an \<open>undefined\<close> filter
  value filters nothing; a \<open>create\<close>, \<open>upsert\<close> or compound \<open>findUnique\<close> with an
  \<open>undefined\<close> key, a write whose foreign key names no row, and a delete of a row still
  referenced (the default referential action, the schema file is not in the repository)
  raise, which the handlers answer with 500. Token signatures are abstracted to the secret
  that made them; bcrypt digests to the password hashed. Strings are ASCII. \<open>Number()\<close>
  of a string is limited to integral decimal notation. A client handler runs to its end
  before the next event (no interleaving of requests), and an unawaited thunk is run in
  its place in the handler.

  \<^bold>\<open>Not modelled.\<close> Logging, CORS, process start and shutdown (I/O only); the JSX
  rendering of the client, per-field \<open>onChange\<close> updates of the forms and the
  loading flags; the other student pages, the navigation bars and the statistics charts,
  which only render what the routes answer; the teacher pages AddTeacherVideos.jsx and
  TeacherCourses.jsx, which import a Redux module (Redux/TeacherReducer) that is not in
  the repository; the frontend's own server.js, which throws on load; the SQL text of
  the raw statistics query beyond the grouping it performs; floating-point error in
  \<open>(c / t) * 100\<close>.
\<close>

end
